(* ===== verification/Prelude.thy ===== *)
theory Prelude
  imports Complex_Main "HOL-Library.Char_ord" "HOL-Library.List_Lexorder"
    "HOL-Library.Product_Lexorder" "HOL-Library.Multiset"
begin

text \<open>
  Shared vocabulary of the development: Python's run-time errors as values,
  Python's \<open>round(x, n)\<close> on exact reals, the SQL aggregates the queries of
  \<open>src/app.py\<close> use (\<open>AVG\<close>, \<open>COUNT\<close>, \<open>GROUP BY\<close>, \<open>ORDER BY ... DESC\<close>,
  \<open>LIMIT\<close>) as list functions, and the generic lemmas about them that the
  component theories share.  Python floats are modelled as exact reals: the
  development says nothing about binary rounding errors of IEEE doubles.
\<close>

named_theorems sql_simps "evaluation rules of the SQL helper functions"

section \<open>Python errors\<close>

text \<open>
  The exceptions the analytics code can raise.  \<open>ZeroDivisionError\<close> is a float
  division by zero; \<open>TypeError\<close> is an operation on \<open>None\<close>
  (\<open>None > 0\<close>, \<open>None / n\<close>); \<open>AttributeError\<close> is the lookup of an
  attribute an object does not have.
\<close>

datatype py_error = ZeroDivisionError | TypeError | AttributeError

text \<open>Python's \<open>x / y\<close> on numbers: \<open>ZeroDivisionError\<close> when \<open>y\<close> is zero.\<close>

definition py_div :: "real \<Rightarrow> real \<Rightarrow> py_error + real" where
  "py_div x y = (if y = 0 then Inl ZeroDivisionError else Inr (x / y))"

section \<open>Python's round\<close>

text \<open>
  \<open>round(x, n)\<close> rounds \<open>x * 10^n\<close> to the nearest integer, ties to even.
\<close>

definition round_half_even :: "real \<Rightarrow> int" where
  "round_half_even x =
     (let f = \<lfloor>x\<rfloor>; r = x - of_int f in
      if r < 1/2 then f else if 1/2 < r then f + 1
      else if even f then f else f + 1)"

definition py_round :: "nat \<Rightarrow> real \<Rightarrow> real" where
  "py_round n x = of_int (round_half_even (x * 10 ^ n)) / 10 ^ n"

text \<open>Python's \<open>x or d\<close> on a nullable float: \<open>None\<close> and \<open>0.0\<close> are falsy.\<close>

definition py_or :: "real option \<Rightarrow> real \<Rightarrow> real" where
  "py_or x d = (case x of None \<Rightarrow> d | Some v \<Rightarrow> if v = 0 then d else v)"

lemma round_half_even_cases:
  "round_half_even x = \<lfloor>x\<rfloor> \<or> round_half_even x = \<lfloor>x\<rfloor> + 1"
  by (auto simp: round_half_even_def Let_def)

lemma round_half_even_dist: "\<bar>x - of_int (round_half_even x)\<bar> \<le> 1/2"
proof -
  have "of_int \<lfloor>x\<rfloor> \<le> x" "x < of_int \<lfloor>x\<rfloor> + 1" by linarith+
  then show ?thesis by (auto simp: round_half_even_def Let_def)
qed

lemma round_half_even_mono:
  assumes "x \<le> y" shows "round_half_even x \<le> round_half_even y"
proof (cases "\<lfloor>x\<rfloor> < \<lfloor>y\<rfloor>")
  case True
  then show ?thesis
    using round_half_even_cases [of x] round_half_even_cases [of y] by linarith
next
  case False
  have eq: "\<lfloor>x\<rfloor> = \<lfloor>y\<rfloor>" using floor_mono [OF assms] False by linarith
  define f where "f = \<lfloor>y\<rfloor>"
  have rx: "round_half_even x = (if x - of_int f < 1/2 then f else if 1/2 < x - of_int f then f + 1
      else if even f then f else f + 1)" by (simp add: round_half_even_def Let_def eq f_def)
  have ry: "round_half_even y = (if y - of_int f < 1/2 then f else if 1/2 < y - of_int f then f + 1
      else if even f then f else f + 1)" by (simp add: round_half_even_def Let_def f_def)
  have ge: "f \<le> round_half_even y" using round_half_even_cases [of y] f_def by linarith
  show ?thesis
  proof (cases "round_half_even x = f")
    case True
    then show ?thesis using ge by simp
  next
    case False
    then have up: "1/2 < x - of_int f \<or> (x - of_int f = 1/2 \<and> odd f)"
      by (simp add: rx split: if_splits)
    have "round_half_even x = f + 1" using False by (simp add: rx split: if_splits)
    moreover have "round_half_even y = f + 1"
      using up assms unfolding ry by auto
    ultimately show ?thesis by simp
  qed
qed

lemma round_half_even_of_int [simp]: "round_half_even (of_int k) = k"
  by (simp add: round_half_even_def)

lemma py_round_mono: "x \<le> y \<Longrightarrow> py_round n x \<le> py_round n y"
  by (simp add: py_round_def divide_right_mono round_half_even_mono)

lemma py_round_zero [simp]: "py_round n 0 = 0"
  using round_half_even_of_int [of 0] by (simp add: py_round_def)

lemma py_round_nonneg: "0 \<le> x \<Longrightarrow> 0 \<le> py_round n x"
  using py_round_mono [of 0 x n] by simp

lemma py_round_of_int [simp]: "py_round n (of_int k) = of_int k"
proof -
  have "(of_int k :: real) * 10 ^ n = of_int (k * 10 ^ n)" by simp
  then show ?thesis by (simp only: py_round_def round_half_even_of_int) simp
qed

lemma py_round_dist: "\<bar>py_round n x - x\<bar> \<le> 1 / (2 * 10 ^ n)"
proof -
  let ?s = "(10::real) ^ n" and ?r = "of_int (round_half_even (x * 10 ^ n)) :: real"
  have s: "0 < ?s" by simp
  have h: "\<bar>?r - x * ?s\<bar> \<le> 1/2"
    using round_half_even_dist [of "x * ?s"] by linarith
  have "py_round n x - x = (?r - x * ?s) / ?s"
    using s by (simp add: py_round_def field_simps)
  then have "\<bar>py_round n x - x\<bar> = \<bar>?r - x * ?s\<bar> / ?s" by simp
  also have "\<dots> \<le> (1/2) / ?s" by (rule divide_right_mono [OF h]) simp
  also have "\<dots> = 1 / (2 * ?s)" by simp
  finally show ?thesis .
qed

section \<open>Characters and decimal digits\<close>

text \<open>
  Characters are bytes (\<open>char\<close>); the helpers cover the ASCII classes the
  code's string operations use: \<open>str.lower()\<close>, the regex class \<open>\\w\<close>, and
  the digits and white space SQLite's \<open>CAST(... AS INTEGER)\<close> reads.
\<close>

definition is_upper :: "char \<Rightarrow> bool" where
  "is_upper c \<longleftrightarrow> CHR ''A'' \<le> c \<and> c \<le> CHR ''Z''"

definition is_digit :: "char \<Rightarrow> bool" where
  "is_digit c \<longleftrightarrow> CHR ''0'' \<le> c \<and> c \<le> CHR ''9''"

definition is_space :: "char \<Rightarrow> bool" where
  "is_space c \<longleftrightarrow> c = CHR '' '' \<or> (char_of (9::nat) \<le> c \<and> c \<le> char_of (13::nat))"

definition lower_char :: "char \<Rightarrow> char" where
  "lower_char c = (if is_upper c then char_of (of_char c + (32::nat)) else c)"

definition digit_value :: "char \<Rightarrow> nat" where
  "digit_value c = of_char c - of_char CHR ''0''"

text \<open>The value of a string of decimal digits, most significant first.\<close>

definition digits_value :: "string \<Rightarrow> nat" where
  "digits_value ds = foldl (\<lambda>acc c. 10 * acc + digit_value c) 0 ds"

lemma lower_char_not_upper: "\<not> is_upper (lower_char c)"
  by (auto simp: lower_char_def is_upper_def less_eq_char_def)

lemma lower_char_id: "\<not> is_upper c \<Longrightarrow> lower_char c = c"
  by (simp add: lower_char_def)

lemma digits_value_acc:
  "foldl (\<lambda>acc c. 10 * acc + digit_value c) a ys = a * 10 ^ length ys + digits_value ys"
proof (induction ys arbitrary: a)
  case Nil
  show ?case by (simp add: digits_value_def)
next
  case (Cons y ys)
  have A: "foldl (\<lambda>acc c. 10 * acc + digit_value c) a (y # ys) =
        (10 * a + digit_value y) * 10 ^ length ys + digits_value ys"
    using Cons.IH [of "10 * a + digit_value y"] by simp
  have B: "digits_value (y # ys) = digit_value y * 10 ^ length ys + digits_value ys"
    using Cons.IH [of "digit_value y"] by (simp add: digits_value_def)
  show ?case by (simp only: A B) (simp add: algebra_simps)
qed

lemma digits_value_append:
  "digits_value (xs @ ys) = digits_value xs * 10 ^ length ys + digits_value ys"
proof -
  have "digits_value (xs @ ys) =
        foldl (\<lambda>acc c. 10 * acc + digit_value c) (digits_value xs) ys"
    by (simp add: digits_value_def)
  then show ?thesis by (simp only: digits_value_acc)
qed

section \<open>SQL aggregates over rows\<close>

text \<open>
  \<open>AVG\<close> over no rows is \<open>NULL\<close>; over rows it is the arithmetic mean.
  \<open>mean\<close> is used where the rows are known to be there (a non-empty group).
\<close>

definition mean :: "real list \<Rightarrow> real" where
  "mean xs = sum_list xs / real (length xs)"

definition sql_avg :: "real list \<Rightarrow> real option" where
  "sql_avg xs = (if xs = [] then None else Some (mean xs))"

lemma sql_avg_Nil [simp, sql_simps]: "sql_avg [] = None"
  by (simp add: sql_avg_def)

lemma sql_avg_Cons [simp, sql_simps]: "sql_avg (x # xs) = Some (mean (x # xs))"
  by (simp add: sql_avg_def)

lemma sql_avg_None_iff [simp]: "sql_avg xs = None \<longleftrightarrow> xs = []"
  by (simp add: sql_avg_def)

lemma mean_ge_Min:
  assumes "xs \<noteq> []" shows "Min (set xs) \<le> mean xs"
proof -
  have "(\<Sum>x\<leftarrow>xs. Min (set xs)) \<le> (\<Sum>x\<leftarrow>xs. x)"
    by (rule sum_list_mono) simp
  then have "real (length xs) * Min (set xs) \<le> sum_list xs"
    by (simp add: sum_list_triv)
  with assms show ?thesis by (simp add: mean_def pos_le_divide_eq mult.commute)
qed

lemma mean_le_Max:
  assumes "xs \<noteq> []" shows "mean xs \<le> Max (set xs)"
proof -
  have "(\<Sum>x\<leftarrow>xs. x) \<le> (\<Sum>x\<leftarrow>xs. Max (set xs))"
    by (rule sum_list_mono) simp
  then have "sum_list xs \<le> real (length xs) * Max (set xs)"
    by (simp add: sum_list_triv)
  with assms show ?thesis by (simp add: mean_def pos_divide_le_eq mult.commute)
qed

text \<open>
  \<open>GROUP BY key\<close>: one group per distinct key, in ascending key order (the
  order SQLite's sorter produces), each holding the rows with that key in
  their original order.
\<close>

definition group_by :: "('a \<Rightarrow> 'k::linorder) \<Rightarrow> 'a list \<Rightarrow> ('k \<times> 'a list) list" where
  "group_by f xs = map (\<lambda>k. (k, filter (\<lambda>x. f x = k) xs)) (sort (remdups (map f xs)))"

text \<open>
  \<open>ORDER BY key DESC\<close> as a stable sort: rows with equal keys keep their
  order.  (SQLite does not fix the order of ties; the model picks this one.)
\<close>

definition sort_desc :: "('a \<Rightarrow> 'k::linorder) \<Rightarrow> 'a list \<Rightarrow> 'a list" where
  "sort_desc f xs = rev (sort_key f (rev xs))"

lemma group_by_keys: "map fst (group_by f xs) = sort (remdups (map f xs))"
  by (simp add: group_by_def comp_def)

lemma group_by_Nil [simp]: "group_by f [] = []"
  by (simp add: group_by_def)

lemma group_by_nonempty: "(k, g) \<in> set (group_by f xs) \<Longrightarrow> g \<noteq> []"
  by (auto simp: group_by_def filter_empty_conv)

lemma group_by_member:
  "(k, g) \<in> set (group_by f xs) \<longleftrightarrow> k \<in> f ` set xs \<and> g = filter (\<lambda>x. f x = k) xs"
  by (auto simp: group_by_def)

lemma group_by_length: "length (group_by f xs) = card (f ` set xs)"
  by (simp add: group_by_def length_remdups_card_conv)

lemma group_by_distinct_keys: "distinct (map fst (group_by f xs))"
  by (simp add: group_by_keys)

lemma group_by_sorted_keys: "sorted (map fst (group_by f xs))"
  by (simp add: group_by_keys)

lemma sum_filter_sums:
  fixes h :: "'a \<Rightarrow> 'b::comm_monoid_add"
  assumes "distinct ks" "f ` set xs \<subseteq> set ks"
  shows "(\<Sum>k\<leftarrow>ks. sum_list (map h (filter (\<lambda>x. f x = k) xs))) = sum_list (map h xs)"
  using assms(2)
proof (induction xs)
  case Nil
  then show ?case by simp
next
  case (Cons x xs)
  have pt: "(\<lambda>k. sum_list (map h (filter (\<lambda>y. f y = k) (x # xs)))) =
      (\<lambda>k. (if f x = k then h x else 0) + sum_list (map h (filter (\<lambda>y. f y = k) xs)))"
    by (rule ext) simp
  have "(\<Sum>k\<leftarrow>ks. if f x = k then h x else 0) = (\<Sum>k\<in>set ks. if f x = k then h x else 0)"
    using assms(1) by (simp add: sum_list_distinct_conv_sum_set)
  also have "\<dots> = h x" using Cons.prems by (simp add: sum.delta)
  finally have one: "(\<Sum>k\<leftarrow>ks. if f x = k then h x else 0) = h x" .
  have ih: "(\<Sum>k\<leftarrow>ks. sum_list (map h (filter (\<lambda>y. f y = k) xs))) = sum_list (map h xs)"
    using Cons.IH Cons.prems by simp
  show ?case unfolding pt sum_list_addf one ih by simp
qed

lemma group_by_sum:
  fixes h :: "'a \<Rightarrow> 'b::comm_monoid_add"
  shows "(\<Sum>g\<leftarrow>group_by f xs. sum_list (map h (snd g))) = sum_list (map h xs)"
proof -
  have "(\<Sum>g\<leftarrow>group_by f xs. sum_list (map h (snd g))) =
        (\<Sum>k\<leftarrow>sort (remdups (map f xs)). sum_list (map h (filter (\<lambda>x. f x = k) xs)))"
    by (simp add: group_by_def comp_def)
  also have "\<dots> = sum_list (map h xs)"
    by (rule sum_filter_sums) auto
  finally show ?thesis .
qed

lemma group_by_lengths: "(\<Sum>g\<leftarrow>group_by f xs. length (snd g)) = length xs"
  using group_by_sum [of "\<lambda>_. 1::nat" f xs] by (simp add: sum_list_triv)

lemma sort_desc_mset [simp]: "mset (sort_desc f xs) = mset xs"
  by (simp add: sort_desc_def)

lemma sort_desc_set [simp]: "set (sort_desc f xs) = set xs"
  by (simp add: sort_desc_def)

lemma sort_desc_length [simp]: "length (sort_desc f xs) = length xs"
  by (simp add: sort_desc_def)

lemma sort_desc_sum:
  fixes f :: "'a \<Rightarrow> 'b::comm_monoid_add"
  shows "sum_list (map f (sort_desc g xs)) = sum_list (map f xs)"
  by (simp only: sum_mset_sum_list [symmetric] mset_map sort_desc_mset)

lemma sort_key_sum:
  fixes f :: "'a \<Rightarrow> 'b::comm_monoid_add"
  shows "sum_list (map f (sort_key g xs)) = sum_list (map f xs)"
  by (simp only: sum_mset_sum_list [symmetric] mset_map mset_sort)

lemma sort_desc_Nil [simp]: "sort_desc f [] = []"
  by (simp add: sort_desc_def)

lemma sort_desc_Nil_iff [simp]: "sort_desc f xs = [] \<longleftrightarrow> xs = []"
  by (metis length_0_conv sort_desc_length)

lemma sorted_map_le_last: "sorted (map f zs) \<Longrightarrow> z \<in> set zs \<Longrightarrow> f z \<le> f (last zs)"
  by (induction zs) (auto simp: sorted_append)

lemma sorted_map_hd_le: "sorted (map f zs) \<Longrightarrow> z \<in> set zs \<Longrightarrow> f (hd zs) \<le> f z"
  by (induction zs) auto

lemma sort_desc_sorted: "sorted (rev (map f (sort_desc f xs)))"
  by (simp add: sort_desc_def rev_map [symmetric])

lemma sort_desc_hd_max:
  assumes "x \<in> set xs" shows "f x \<le> f (hd (sort_desc f xs))"
proof -
  let ?zs = "sort_key f (rev xs)"
  have "?zs \<noteq> []" using assms by (metis length_0_conv length_rev length_sort set_empty2 empty_iff)
  then have "hd (sort_desc f xs) = last ?zs" by (simp add: sort_desc_def hd_rev)
  moreover have "f x \<le> f (last ?zs)"
    by (rule sorted_map_le_last) (use assms in simp_all)
  ultimately show ?thesis by simp
qed

lemma sort_desc_last_min:
  assumes "x \<in> set xs" shows "f (last (sort_desc f xs)) \<le> f x"
proof -
  let ?zs = "sort_key f (rev xs)"
  have "?zs \<noteq> []" using assms by (metis length_0_conv length_rev length_sort set_empty2 empty_iff)
  then have "last (sort_desc f xs) = hd ?zs" by (simp add: sort_desc_def last_rev)
  moreover have "f (hd ?zs) \<le> f x"
    by (rule sorted_map_hd_le) (use assms in simp_all)
  ultimately show ?thesis by simp
qed

text \<open>\<open>COUNT\<close> per group over distinct keys sums to the rows in all groups.\<close>

lemma length_filter_disj:
  "(\<And>x. \<not> (P x \<and> Q x)) \<Longrightarrow>
     length (filter P xs) + length (filter Q xs) = length (filter (\<lambda>x. P x \<or> Q x) xs)"
  by (induction xs) auto

lemma sum_list_count_filter:
  "distinct (map k xs) \<Longrightarrow>
     sum_list (map (\<lambda>x. length (filter (\<lambda>p. g p = k x) ps)) xs) =
     length (filter (\<lambda>p. g p \<in> set (map k xs)) ps)"
proof (induction xs)
  case (Cons x xs)
  then have "length (filter (\<lambda>p. g p = k x) ps) + length (filter (\<lambda>p. g p \<in> set (map k xs)) ps) =
             length (filter (\<lambda>p. g p = k x \<or> g p \<in> set (map k xs)) ps)"
    by (intro length_filter_disj) auto
  with Cons show ?case by simp
qed simp

text \<open>\<open>GROUP BY k\<close> with \<open>COUNT(*)\<close>, ordered by the count: the count of a key.\<close>

lemma map_of_map_keys: "map_of (map (\<lambda>k. (k, g k)) ks) r = (if r \<in> set ks then Some (g r) else None)"
  by (induction ks) auto

lemma group_count_lookup:
  "map_of (sort_desc snd (map (\<lambda>(k, g). (k, length g)) (group_by f xs))) r =
     (if r \<in> f ` set xs then Some (length (filter (\<lambda>x. f x = r) xs)) else None)"
proof -
  let ?ys = "map (\<lambda>(k, g). (k, length g)) (group_by f xs)"
  have d: "distinct (map fst ?ys)"
    using group_by_distinct_keys [of f xs] by (simp add: comp_def case_prod_unfold)
  have d2: "distinct (map fst (sort_desc snd ?ys))"
    using d mset_eq_imp_distinct_iff [of "map fst (sort_desc snd ?ys)" "map fst ?ys"]
    by (simp only: mset_map sort_desc_mset)
  have "map_of (sort_desc snd ?ys) = map_of ?ys"
    using map_of_inject_set [OF d2 d] by simp
  moreover have "?ys = map (\<lambda>k. (k, length (filter (\<lambda>x. f x = k) xs))) (sort (remdups (map f xs)))"
    by (simp add: group_by_def)
  ultimately show ?thesis by (simp add: map_of_map_keys)
qed

lemma group_count:
  "(case map_of (sort_desc snd (map (\<lambda>(k, g). (k, length g)) (group_by f xs))) r of
      None \<Rightarrow> 0 | Some n \<Rightarrow> n) = length (filter (\<lambda>x. f x = r) xs)"
  by (auto simp: group_count_lookup filter_empty_conv)

end
