(* ===== verification/Metrics.thy ===== *)
theory Metrics
  imports Prelude
begin

text \<open>
  The metrics calculator, \<open>calculate_metrics\<close> in \<open>src/app.py\<close>: raw
  engagement counts of one post to the five derived percentages stored with
  the post.  Python's conditional expressions become \<open>if\<close>; the comparison
  \<open>reel_length > 0\<close> and the division \<open>avg_view_duration / reel_length\<close>
  raise \<open>TypeError\<close> on \<open>None\<close>, which the model returns as \<open>Inl TypeError\<close>;
  the divisions by \<open>reach\<close> are Python's (\<open>py_div\<close>), which would raise
  \<open>ZeroDivisionError\<close> but for the \<open>if reach > 0\<close> guards.
\<close>

record metrics =
  m_engagement_rate :: real
  m_engagement_rate_weighted :: real
  m_avd_ratio :: real
  m_follower_gain_rate :: real
  m_performance_score :: real

text \<open>
  \<open>(n / reach) * 100 if reach > 0 else 0\<close>, the guarded percentage; the
  division is Python's, so without the guard a zero reach would raise.
\<close>

definition pct_of_reach :: "int \<Rightarrow> int \<Rightarrow> py_error + real" where
  "pct_of_reach n reach =
     (if 0 < reach then map_sum id (\<lambda>q. q * 100) (py_div (real_of_int n) (real_of_int reach))
      else Inr 0)"

text \<open>
  \<open>(avg_view_duration / reel_length) * 100 if reel_length > 0 else 0\<close>, with
  both operands nullable: \<open>None > 0\<close> and \<open>None / n\<close> raise.
\<close>

definition avd_ratio_of :: "real option \<Rightarrow> int option \<Rightarrow> py_error + real" where
  "avd_ratio_of avg_view_duration reel_length =
     (case reel_length of
        None \<Rightarrow> Inl TypeError
      | Some l \<Rightarrow>
          if 0 < l then
            (case avg_view_duration of
               None \<Rightarrow> Inl TypeError
             | Some a \<Rightarrow> Inr (a / real_of_int l * 100))
          else Inr 0)"

definition score_of :: "real \<Rightarrow> real \<Rightarrow> real \<Rightarrow> real" where
  "score_of erw avd fgr = erw * 0.5 + avd * 0.3 + fgr * 0.2"

definition calculate_metrics ::
  "int \<Rightarrow> int \<Rightarrow> int \<Rightarrow> int \<Rightarrow> int \<Rightarrow> real option \<Rightarrow> int option \<Rightarrow> int
   \<Rightarrow> py_error + metrics" where
  "calculate_metrics likes comments shares saves reach avg_view_duration reel_length
     followers_gained =
     (case pct_of_reach (likes + comments + shares + saves) reach of
        Inl e \<Rightarrow> Inl e
      | Inr er \<Rightarrow>
     (case pct_of_reach (likes + comments + shares * 2 + saves * 2) reach of
        Inl e \<Rightarrow> Inl e
      | Inr erw \<Rightarrow>
     (case avd_ratio_of avg_view_duration reel_length of
        Inl e \<Rightarrow> Inl e
      | Inr avd \<Rightarrow>
     (case pct_of_reach followers_gained reach of
        Inl e \<Rightarrow> Inl e
      | Inr fgr \<Rightarrow>
          Inr \<lparr>m_engagement_rate = py_round 2 er,
               m_engagement_rate_weighted = py_round 2 erw,
               m_avd_ratio = py_round 2 avd,
               m_follower_gain_rate = py_round 2 fgr,
               m_performance_score = py_round 2 (score_of erw avd fgr)\<rparr>))))"

subsection \<open>Shared facts\<close>

text \<open>The value of the guarded percentage; the guard makes the division total.\<close>

definition reach_pct :: "int \<Rightarrow> int \<Rightarrow> real" where
  "reach_pct n reach = (if 0 < reach then real_of_int n / real_of_int reach * 100 else 0)"

lemmas metrics_defs = calculate_metrics_def reach_pct_def avd_ratio_of_def score_of_def

lemma pct_of_reach_Inr [simp]: "pct_of_reach n reach = Inr (reach_pct n reach)"
  by (simp add: pct_of_reach_def py_div_def reach_pct_def)

lemma reach_pct_zero [simp]: "reach \<le> 0 \<Longrightarrow> reach_pct n reach = 0"
  by (simp add: reach_pct_def)

lemma reach_pct_nonneg: "0 \<le> n \<Longrightarrow> 0 \<le> reach_pct n reach"
  by (simp add: reach_pct_def)

lemma reach_pct_mono: "n \<le> n' \<Longrightarrow> reach_pct n reach \<le> reach_pct n' reach"
  by (simp add: reach_pct_def divide_right_mono)

lemma calculate_metrics_Inr:
  assumes "calculate_metrics likes comments shares saves reach a rl fg = Inr m"
  obtains avd where "avd_ratio_of a rl = Inr avd"
    and "m_engagement_rate m = py_round 2 (reach_pct (likes + comments + shares + saves) reach)"
    and "m_engagement_rate_weighted m =
           py_round 2 (reach_pct (likes + comments + shares * 2 + saves * 2) reach)"
    and "m_avd_ratio m = py_round 2 avd"
    and "m_follower_gain_rate m = py_round 2 (reach_pct fg reach)"
    and "m_performance_score m =
           py_round 2 (score_of (reach_pct (likes + comments + shares * 2 + saves * 2) reach)
                          avd (reach_pct fg reach))"
  using assms by (auto simp: calculate_metrics_def split: sum.splits)


subsection \<open>Properties\<close>

text \<open>
  C2. \<open>calculate_metrics\<close> raises \<open>TypeError\<close> exactly when \<open>reel_length\<close> is
  \<open>None\<close> (the comparison \<open>None > 0\<close>), or when it is positive and
  \<open>avg_view_duration\<close> is \<open>None\<close> (\<open>None / n\<close>); on every other input it
  returns the metrics.
\<close>

theorem calculate_metrics_type_error:
  "calculate_metrics lk cm sh sv rch avd rl fg = Inl TypeError \<longleftrightarrow>
     rl = None \<or> (\<exists>l. rl = Some l \<and> 0 < l \<and> avd = None)"
  by (auto simp: calculate_metrics_def avd_ratio_of_def Let_def split: option.splits sum.splits)

text \<open>
  C26. With non-negative shares and saves, the stored weighted engagement rate
  is at least the unweighted one, after rounding to two decimals.
\<close>

theorem calculate_metrics_weighted_ge:
  assumes "0 \<le> sh" "0 \<le> sv"
    and "calculate_metrics lk cm sh sv rch avd rl fg = Inr m"
  shows "m_engagement_rate m \<le> m_engagement_rate_weighted m"
proof -
  from assms(3) obtain a where
    "m_engagement_rate m = py_round 2 (reach_pct (lk + cm + sh + sv) rch)"
    "m_engagement_rate_weighted m =
       py_round 2 (reach_pct (lk + cm + sh * 2 + sv * 2) rch)"
    by (rule calculate_metrics_Inr)
  moreover have "reach_pct (lk + cm + sh + sv) rch \<le>
                 reach_pct (lk + cm + sh * 2 + sv * 2) rch"
    using assms(1,2) by (intro reach_pct_mono) simp
  ultimately show ?thesis by (simp add: py_round_mono)
qed

theorem calculate_metrics_weighted_ge_witness:
  "calculate_metrics 10 2 3 1 200 None (Some 0) 4 =
     Inr \<lparr>m_engagement_rate = 8, m_engagement_rate_weighted = 10, m_avd_ratio = 0,
          m_follower_gain_rate = 2, m_performance_score = 54 / 10\<rparr> \<and> (8::real) \<le> 10"
proof -
  have eq: "calculate_metrics 10 2 3 1 200 None (Some 0) 4 =
     Inr \<lparr>m_engagement_rate = 8, m_engagement_rate_weighted = 10, m_avd_ratio = 0,
          m_follower_gain_rate = 2, m_performance_score = 54 / 10\<rparr>"
    by (simp add: metrics_defs Let_def py_round_def round_half_even_def)
  show ?thesis using calculate_metrics_weighted_ge [OF _ _ eq] eq by simp
qed

text \<open>
  C27. With zero reach the \<open>if reach > 0\<close> guards keep the three reach-based
  rates at zero instead of dividing by zero: the call never raises
  \<open>ZeroDivisionError\<close>, and its result is determined by the view-duration ratio
  alone, whatever the counts.
\<close>

theorem calculate_metrics_zero_reach:
  "calculate_metrics lk cm sh sv 0 avd rl fg =
     (case avd_ratio_of avd rl of
        Inl e \<Rightarrow> Inl e
      | Inr a \<Rightarrow> Inr \<lparr>m_engagement_rate = 0, m_engagement_rate_weighted = 0,
                        m_avd_ratio = py_round 2 a, m_follower_gain_rate = 0,
                        m_performance_score = py_round 2 (score_of 0 a 0)\<rparr>)"
  by (simp add: calculate_metrics_def py_round_zero split: sum.split)

text \<open>
  The performance score is the fixed blend \<open>0.5 erw + 0.3 avd + 0.2 fgr\<close>:
  ten likes on a reach of 100, a 6-second average view of a 30-second reel and
  5 followers give 10, 20 and 5, and the score 12.
\<close>

theorem calculate_metrics_score_example:
  "calculate_metrics 10 0 0 0 100 (Some 6) (Some 30) 5 =
     Inr \<lparr>m_engagement_rate = 10, m_engagement_rate_weighted = 10, m_avd_ratio = 20,
          m_follower_gain_rate = 5, m_performance_score = 12\<rparr>"
  by (simp add: metrics_defs Let_def py_round_def round_half_even_def)

end
