(* ===== verification/Hashtags.thy ===== *)
theory Hashtags
  imports Prelude "HOL-Library.Sublist"
begin

text \<open>
  The hashtag extractor, \<open>extract_hashtags\<close> in \<open>src/app.py\<close>:
  \<open>re.findall(r'#\w+', text.lower())\<close>, the leading \<open>#\<close> stripped from every
  match, duplicates removed with \<open>set\<close>.  Characters are modelled as bytes:
  \<open>\w\<close> is the ASCII word class (letters, digits, underscore) and \<open>lower()\<close>
  maps \<open>A-Z\<close> to \<open>a-z\<close>; non-ASCII letters are outside the model.
  Python's \<open>list(set(...))\<close> has no fixed order; the model keeps the order
  of first occurrence, and the lemmas below speak only of the set of tags and
  of their distinctness, which hold for every order.
\<close>

definition is_word_char :: "char \<Rightarrow> bool" where
  "is_word_char c \<longleftrightarrow>
     (CHR ''a'' \<le> c \<and> c \<le> CHR ''z'') \<or> is_upper c \<or>
     is_digit c \<or> c = CHR ''_''"

text \<open>
  \<open>re.findall(r'#\w+', s)\<close>: scanning left to right, a \<open>#\<close> followed by a
  word character starts a match that extends over the longest run of word
  characters; the scan resumes after the match, otherwise one character on.
\<close>

function findall_tags :: "string \<Rightarrow> string list" where
  "findall_tags [] = []"
| "findall_tags [c] = []"
| "findall_tags (c # d # cs) =
     (if c = CHR ''#'' \<and> is_word_char d
      then (c # d # takeWhile is_word_char cs) # findall_tags (dropWhile is_word_char cs)
      else findall_tags (d # cs))"
  by pat_completeness auto
termination
  by (relation "measure length") (auto intro: le_less_trans [OF length_dropWhile_le])

definition extract_hashtags :: "string option \<Rightarrow> string list" where
  "extract_hashtags text =
     (case text of
        None \<Rightarrow> []
      | Some t \<Rightarrow> if t = [] then [] else remdups (map tl (findall_tags (map lower_char t))))"

text \<open>A hashtag as stored: a non-empty run of lower-case word characters.\<close>

definition valid_tag :: "string \<Rightarrow> bool" where
  "valid_tag t \<longleftrightarrow> t \<noteq> [] \<and> (\<forall>c\<in>set t. is_word_char c \<and> \<not> is_upper c)"

text \<open>
  What \<open>re.findall(r'#\w+', s)\<close> returns, position by position: one match for
  every \<open>#\<close> followed by a word character, the \<open>#\<close> with the longest run of
  word characters after it.  A word character is never \<open>#\<close>, so these matches
  do not overlap and are the leftmost-first matches of the regex.
\<close>

definition findall_ref :: "string \<Rightarrow> string list" where
  "findall_ref s =
     map (\<lambda>k. CHR ''#'' # takeWhile is_word_char (drop (Suc k) s))
       (filter (\<lambda>k. s ! k = CHR ''#'' \<and> Suc k < length s \<and> is_word_char (s ! Suc k)) [0..<length s])"

subsection \<open>The scanner\<close>

lemma findall_tags_shape:
  "m \<in> set (findall_tags s) \<Longrightarrow>
     \<exists>w. m = CHR ''#'' # w \<and> w \<noteq> [] \<and> (\<forall>c\<in>set w. is_word_char c) \<and> sublist m s"
proof (induction s rule: findall_tags.induct)
  case (3 c d cs)
  show ?case
  proof (cases "c = CHR ''#'' \<and> is_word_char d")
    case True
    then consider "m = c # d # takeWhile is_word_char cs"
      | "m \<in> set (findall_tags (dropWhile is_word_char cs))"
      using "3.prems" by auto
    then show ?thesis
    proof cases
      case 1
      have "sublist (c # d # takeWhile is_word_char cs) (c # d # cs)"
        by (metis Sublist.prefix_Cons prefix_imp_sublist takeWhile_dropWhile_id prefixI)
      with 1 True show ?thesis by (auto dest: set_takeWhileD)
    next
      case 2
      from "3.IH"(1) [OF True 2] obtain w where
        w: "m = CHR ''#'' # w" "w \<noteq> []" "\<forall>c\<in>set w. is_word_char c"
        and sub: "sublist m (dropWhile is_word_char cs)" by blast
      have "sublist (dropWhile is_word_char cs) (c # d # cs)"
        by (metis sublist_Cons_right suffix_dropWhile suffix_imp_sublist)
      with sub w show ?thesis by (blast intro: sublist_order.order_trans)
    qed
  next
    case False
    with "3.prems" have "m \<in> set (findall_tags (d # cs))" by simp
    from "3.IH"(2) [OF False this] obtain w where
      w: "m = CHR ''#'' # w" "w \<noteq> []" "\<forall>c\<in>set w. is_word_char c"
      and sub: "sublist m (d # cs)" by blast
    from sub have "sublist m (c # d # cs)" by (simp add: sublist_Cons_right)
    with w show ?thesis by blast
  qed
qed simp_all

lemma findall_tags_space [simp]:
  "findall_tags (CHR '' '' # rest) = findall_tags rest"
  by (cases rest) simp_all

lemma findall_tags_tag:
  assumes "w \<noteq> []" "\<forall>c\<in>set w. is_word_char c" "\<not> is_word_char c"
  shows "findall_tags (CHR ''#'' # w @ c # rest) = (CHR ''#'' # w) # findall_tags (c # rest)"
proof -
  obtain d ws where w: "w = d # ws" using assms(1) by (cases w) auto
  have "takeWhile is_word_char (ws @ c # rest) = ws"
    and "dropWhile is_word_char (ws @ c # rest) = c # rest"
    using assms w by (simp_all add: takeWhile_append2 dropWhile_append2)
  then show ?thesis using assms w by simp
qed

subsection \<open>Lower-casing\<close>

lemma lower_char_word: "is_word_char (lower_char c) \<longleftrightarrow> is_word_char c"
  by (auto simp: lower_char_def is_word_char_def is_upper_def less_eq_char_def)


subsection \<open>Soundness of the scanner and rendering of tags\<close>

lemma sublist_set_subset: "sublist xs ys \<Longrightarrow> set xs \<subseteq> set ys"
  by (auto simp: sublist_def)

lemma extract_hashtags_tags:
  assumes "t \<in> set (extract_hashtags s)" shows "valid_tag t"
proof -
  obtain u where u: "s = Some u" "u \<noteq> []" "t \<in> set (map tl (findall_tags (map lower_char u)))"
    using assms by (auto simp: extract_hashtags_def split: option.splits if_splits)
  then obtain m where m: "m \<in> set (findall_tags (map lower_char u))" "t = tl m" by auto
  from findall_tags_shape [OF m(1)] obtain w where
    w: "m = CHR ''#'' # w" "w \<noteq> []" "\<forall>c\<in>set w. is_word_char c" "sublist m (map lower_char u)" by blast
  have "set w \<subseteq> set (map lower_char u)" using sublist_set_subset [OF w(4)] w(1) by auto
  then have "\<forall>c\<in>set w. \<not> is_upper c" using lower_char_not_upper by auto
  with w m(2) show ?thesis by (simp add: valid_tag_def)
qed

lemma findall_tags_render:
  assumes "\<forall>w\<in>set ws. valid_tag w"
  shows "findall_tags (concat (map (\<lambda>w. CHR ''#'' # w @ '' '') ws)) = map (Cons (CHR ''#'')) ws"
  using assms
proof (induction ws)
  case (Cons w ws)
  have "\<not> is_word_char (CHR '' '')" by (simp add: is_word_char_def is_upper_def is_digit_def)
  with Cons show ?case by (simp add: valid_tag_def findall_tags_tag)
qed simp

lemma lower_render:
  assumes "\<forall>w\<in>set ws. valid_tag w"
  shows "map lower_char (concat (map (\<lambda>w. CHR ''#'' # w @ '' '') ws)) = concat (map (\<lambda>w. CHR ''#'' # w @ '' '') ws)"
proof -
  have "\<not> is_upper (CHR ''#'')" "\<not> is_upper (CHR '' '')" by (simp_all add: is_upper_def)
  then show ?thesis using assms by (intro map_idI) (auto simp: valid_tag_def split: if_splits intro!: lower_char_id)
qed


subsection \<open>Properties\<close>

text \<open>
  The spec's example: \<open>"Great #Sunset vibes #sunset #NewPost"\<close> gives the
  two tags \<open>sunset\<close> and \<open>newpost\<close>, case-folded and without duplicates.
\<close>

theorem extract_hashtags_example:
  "set (extract_hashtags (Some ''Great #Sunset vibes #sunset #NewPost'')) = {''sunset'', ''newpost''} \<and>
   distinct (extract_hashtags (Some ''Great #Sunset vibes #sunset #NewPost''))"
  by code_simp


text \<open>
  C24. Every extracted tag is a non-empty run of lower-case word
  characters, and no tag is returned twice (\<open>list(set(...))\<close>), for every caption.
\<close>

theorem extract_hashtags_valid:
  "distinct (extract_hashtags s) \<and> (\<forall>t\<in>set (extract_hashtags s). valid_tag t)"
  using extract_hashtags_tags by (auto simp: extract_hashtags_def split: option.splits)

theorem extract_hashtags_valid_witness:
  "distinct (extract_hashtags (Some ''New drop #Sale'')) \<and> valid_tag ''sale''"
proof -
  have "''sale'' \<in> set (extract_hashtags (Some ''New drop #Sale''))" by code_simp
  then show ?thesis using extract_hashtags_valid [of "Some ''New drop #Sale''"] by blast
qed

text \<open>
  C25. Printing a list of valid tags as \<open>#tag \<close> words and
  extracting the hashtags again gives back the tags, each once.
\<close>

theorem extract_hashtags_roundtrip:
  assumes "\<forall>w\<in>set ws. valid_tag w"
  shows "extract_hashtags (Some (concat (map (\<lambda>w. CHR ''#'' # w @ '' '') ws))) = remdups ws"
proof (cases ws)
  case (Cons w ws')
  then show ?thesis using assms findall_tags_render [OF assms] lower_render [OF assms]
    by (simp add: extract_hashtags_def comp_def)
qed (simp add: extract_hashtags_def)

theorem extract_hashtags_roundtrip_witness:
  "valid_tag ''sunset'' \<and>
   extract_hashtags (Some (concat (map (\<lambda>w. CHR ''#'' # w @ '' '') [''sunset'', ''sunset'']))) = [''sunset'']"
proof -
  have v: "\<forall>w\<in>set [''sunset'', ''sunset'']. valid_tag w" by code_simp
  show ?thesis using extract_hashtags_roundtrip [OF v] v by simp
qed

subsection \<open>The scanner against the position-wise specification\<close>

lemma findall_ref_Nil [simp]: "findall_ref [] = []"
  by (simp add: findall_ref_def)

lemma findall_ref_Cons:
  "findall_ref (c # s) =
     (if c = CHR ''#'' \<and> s \<noteq> [] \<and> is_word_char (hd s) then [c # takeWhile is_word_char s] else []) @
     findall_ref s"
proof -
  have u: "[0..<length (c # s)] = 0 # map Suc [0..<length s]"
    by (simp add: upt_conv_Cons map_Suc_upt del: upt_Suc)
  have "s \<noteq> [] \<Longrightarrow> s ! 0 = hd s" by (simp add: hd_conv_nth)
  then show ?thesis
    unfolding findall_ref_def u by (auto simp: filter_map comp_def)
qed

lemma word_char_not_hash: "is_word_char c \<Longrightarrow> c \<noteq> CHR ''#''"
  by (auto simp: is_word_char_def is_upper_def is_digit_def)

lemma findall_ref_skip:
  "list_all is_word_char xs \<Longrightarrow> findall_ref (xs @ ys) = findall_ref ys"
  by (induction xs) (auto simp: findall_ref_Cons word_char_not_hash)

text \<open>
  C19. The scanner implements \<open>re.findall(r'#\w+', ...)\<close>: it returns, in
  order, a match at every \<open>#\<close> followed by a word character, and each match
  takes the whole run of word characters after its \<open>#\<close> (greedy \<open>\w+\<close>).
\<close>

theorem findall_tags_ref: "findall_tags s = findall_ref s"
proof (induction s rule: findall_tags.induct)
  case (2 c)
  then show ?case by (simp add: findall_ref_Cons)
next
  case (3 c d cs)
  show ?case
  proof (cases "c = CHR ''#'' \<and> is_word_char d")
    case True
    have "findall_ref (d # cs) = findall_ref (dropWhile is_word_char cs)"
      using findall_ref_skip [of "d # takeWhile is_word_char cs" "dropWhile is_word_char cs"] True
      by (auto simp: list_all_iff dest: set_takeWhileD)
    with True 3 show ?thesis by (simp add: findall_ref_Cons)
  next
    case False
    with 3 show ?thesis by (auto simp: findall_ref_Cons)
  qed
qed simp

end
