(* ===== verification/Dates.thy ===== *)
theory Dates
  imports Prelude
begin

text \<open>
  Calendar dates as the SQL of \<open>src/app.py\<close> uses them.  The \<open>post_date\<close>
  column holds ISO strings \<open>YYYY-MM-DD\<close>; the model holds the triple
  (year, month, day), whose lexicographic order is the string order SQLite
  compares with (four-digit years, zero-padded fields).  The SQLite date
  functions the queries call are modelled from SQLite's documented semantics
  (SQLite is a library, not code of this repository):
  \<^item> \<open>date('now', '-7 days')\<close>: the modifier parser (\<open>parse_modifier\<close>) and the
    day shift (\<open>shift_days\<close>, by repeated \<open>next_day\<close>/\<open>prev_day\<close>);
  \<^item> \<open>strftime('%Y-%m', d)\<close>: \<open>month_key\<close>;
  \<^item> \<open>strftime('%Y-%W', d)\<close>: \<open>week_key\<close>, the Monday-based week number
    \<open>(yday + 7 - wd) / 7\<close> of SQLite, with \<open>wd\<close> the weekday (0 = Monday)
    computed from the day number.
\<close>

type_synonym date = "int \<times> int \<times> int"

definition is_leap :: "int \<Rightarrow> bool" where
  "is_leap y \<longleftrightarrow> y mod 4 = 0 \<and> (y mod 100 \<noteq> 0 \<or> y mod 400 = 0)"

definition days_in_month :: "int \<Rightarrow> int \<Rightarrow> int" where
  "days_in_month y m =
     (if m = 2 then (if is_leap y then 29 else 28)
      else if m = 4 \<or> m = 6 \<or> m = 9 \<or> m = 11 then 30 else 31)"

definition valid_date :: "date \<Rightarrow> bool" where
  "valid_date d = (case d of (y, m, dd) \<Rightarrow>
     0 \<le> y \<and> y \<le> 9999 \<and> 1 \<le> m \<and> m \<le> 12 \<and> 1 \<le> dd \<and> dd \<le> days_in_month y m)"

fun next_day :: "date \<Rightarrow> date" where
  "next_day (y, m, d) =
     (if d < days_in_month y m then (y, m, d + 1)
      else if m < 12 then (y, m + 1, 1) else (y + 1, 1, 1))"

fun prev_day :: "date \<Rightarrow> date" where
  "prev_day (y, m, d) =
     (if 1 < d then (y, m, d - 1)
      else if 1 < m then (y, m - 1, days_in_month y (m - 1)) else (y - 1, 12, 31))"

definition shift_days :: "int \<Rightarrow> date \<Rightarrow> date" where
  "shift_days n d = (if 0 \<le> n then (next_day ^^ nat n) d else (prev_day ^^ nat (- n)) d)"

subsection \<open>Day numbers, weekdays, week keys\<close>

text \<open>
  \<open>day_number\<close> counts days from 0000-01-01 (day 1) in the proleptic Gregorian
  calendar: the days of the years before, then the day of the year.
\<close>

definition days_before_year :: "int \<Rightarrow> int" where
  "days_before_year y = 365 * y + (y + 3) div 4 - (y + 99) div 100 + (y + 399) div 400"

definition day_of_year :: "date \<Rightarrow> int" where
  "day_of_year d = (case d of (y, m, dd) \<Rightarrow>
     (\<Sum>k\<leftarrow>[1..<nat m]. days_in_month y (int k)) + dd)"

definition day_number :: "date \<Rightarrow> int" where
  "day_number d = days_before_year (fst d) + day_of_year d"

text \<open>
  The weekday with Monday 0, as SQLite reads it from the Julian day number
  (\<open>JDN mod 7\<close>); 2000-01-01, a Saturday, has day number 730486 and
  Julian day number 2451545.
\<close>

definition weekday_mon0 :: "date \<Rightarrow> int" where
  "weekday_mon0 d = (day_number d + 1721059) mod 7"

definition month_key :: "date \<Rightarrow> int \<times> int" where
  "month_key d = (fst d, fst (snd d))"

definition week_key :: "date \<Rightarrow> int \<times> int" where
  "week_key d = (fst d, (day_of_year d - 1 + 7 - weekday_mon0 d) div 7)"

subsection \<open>Modifiers of \<open>date('now', ...)\<close>\<close>

text \<open>
  SQLite's modifier \<open>NNN unit\<close>: a signed number, spaces, and a unit name
  from the table \<open>second, minute, hour, day, month, year\<close>, compared
  case-insensitively with an optional trailing \<open>s\<close>.  An unknown unit makes
  the whole \<open>date(...)\<close> call \<open>NULL\<close> (\<open>None\<close>).  Only whole numbers are
  modelled.  The clock time of \<open>now\<close> is a number of seconds into the day.
\<close>

datatype time_unit = Second | Minute | Hour | Day | Month | Year

definition unit_table :: "(string \<times> time_unit) list" where
  "unit_table = [(''second'', Second), (''minute'', Minute), (''hour'', Hour),
                 (''day'', Day), (''month'', Month), (''year'', Year)]"

definition parse_unit :: "string \<Rightarrow> time_unit option" where
  "parse_unit s =
     (let l = map lower_char s;
          n = (if l \<noteq> [] \<and> last l = CHR ''s'' then butlast l else l)
      in map_of unit_table n)"

definition parse_modifier :: "string \<Rightarrow> (int \<times> time_unit) option" where
  "parse_modifier s =
     (let (sg, r) = (case s of
                       c # r \<Rightarrow> if c = CHR ''-'' then (-1, r)
                                else if c = CHR ''+'' then (1, r) else (1, s)
                     | [] \<Rightarrow> (1, []));
          ds = takeWhile is_digit r;
          rest = dropWhile is_space (dropWhile is_digit r)
      in if ds = [] then None
         else map_option (\<lambda>u. (sg * int (digits_value ds), u)) (parse_unit rest))"

type_synonym instant = "date \<times> int"

definition shift_months :: "int \<Rightarrow> date \<Rightarrow> date" where
  "shift_months n d = (case d of (y, m, dd) \<Rightarrow>
     let t = 12 * y + (m - 1) + n in shift_days (dd - 1) (t div 12, t mod 12 + 1, 1))"

definition apply_modifier :: "instant \<Rightarrow> int \<times> time_unit \<Rightarrow> instant" where
  "apply_modifier now nu = (case now of (d, secs) \<Rightarrow> case nu of (n, u) \<Rightarrow>
     (case u of
        Day \<Rightarrow> (shift_days n d, secs)
      | Month \<Rightarrow> (shift_months n d, secs)
      | Year \<Rightarrow> (shift_months (12 * n) d, secs)
      | _ \<Rightarrow> (let per = (case u of Hour \<Rightarrow> 3600 | Minute \<Rightarrow> 60 | _ \<Rightarrow> 1);
                 t = secs + n * per
             in (shift_days (t div 86400) d, t mod 86400))))"

text \<open>\<open>date('now', m)\<close>: the date part of the shifted instant, or \<open>NULL\<close>.\<close>

definition sqlite_date_now :: "instant \<Rightarrow> string \<Rightarrow> date option" where
  "sqlite_date_now now m = map_option (\<lambda>nu. fst (apply_modifier now nu)) (parse_modifier m)"


subsection \<open>Properties\<close>

text \<open>
  SQLite has no \<open>weeks\<close> unit: \<open>date('now', '-8 weeks')\<close> is \<open>NULL\<close>,
  while \<open>date('now', '-7 days')\<close> parses as a shift of seven days back.
\<close>

theorem week_modifier_null:
  "parse_modifier ''-8 weeks'' = None \<and> parse_modifier ''-7 days'' = Some (-7, Day)"
  by code_simp

end
