(* ===== verification/Posts.thy ===== *)
theory Posts
  imports Dates
begin

text \<open>
  The post row every analytics query reads: the \<open>posts\<close> table of
  \<open>init_db\<close> in \<open>src/app.py\<close>, one field per column.  Nullable columns are
  options; the derived metric columns are always written by \<open>add_post\<close> and
  are plain reals.  Also here: the two expressions the queries compute from a
  row, \<open>CAST(substr(post_time, 1, 2) AS INTEGER)\<close> (the posting hour) and the
  project scope \<open>WHERE project_id IN (...)\<close>.
\<close>

record post =
  post_id :: nat
  project_id :: nat
  post_type :: string
  post_date :: date
  post_time :: string
  reel_length :: "int option"
  thumbnail_path :: "string option"
  caption :: "string option"
  caption_category :: "string option"
  likes :: int
  shares :: int
  comments :: int
  reach :: int
  saves :: int
  followers_gained :: int
  watch_time :: "int option"
  avg_view_duration :: "real option"
  engagement_rate :: real
  engagement_rate_weighted :: real
  avd_ratio :: real
  follower_gain_rate :: real
  performance_score :: real
  dominant_color :: "string option"

text \<open>The priority literals of recommendations and alerts.\<close>

datatype priority = High | Medium | Low

text \<open>\<open>WHERE project_id IN (project_ids_str)\<close>.\<close>

definition scoped :: "nat list \<Rightarrow> post list \<Rightarrow> post list" where
  "scoped pids ps = filter (\<lambda>p. project_id p \<in> set pids) ps"

text \<open>
  SQLite's \<open>CAST(s AS INTEGER)\<close> on text: leading white space, an optional
  sign, then the longest run of decimal digits; no digits read as 0.
\<close>

definition sqlite_cast_int :: "string \<Rightarrow> int" where
  "sqlite_cast_int s =
     (let t = dropWhile is_space s;
          (sg, r) = (case t of
                       c # r \<Rightarrow> if c = CHR ''-'' then (-1, r)
                                else if c = CHR ''+'' then (1, r) else (1, t)
                     | [] \<Rightarrow> (1, []))
      in sg * int (digits_value (takeWhile is_digit r)))"

definition hour_of :: "string \<Rightarrow> int" where
  "hour_of t = sqlite_cast_int (take 2 t)"

text \<open>\<open>HH\<close> as the HTML time input writes it: two digits, zero-padded.\<close>

definition digit_chr :: "nat \<Rightarrow> char" where
  "digit_chr k = ''0123456789'' ! k"

definition two_digits :: "nat \<Rightarrow> string" where
  "two_digits h = [digit_chr (h div 10), digit_chr (h mod 10)]"

text \<open>
  \<open>c[:n] + '...' if c and len(c) > n else c\<close> on a nullable caption: the
  truncation the reports page (\<open>n = 50\<close>) and the CSV export (\<open>n = 100\<close>)
  write inline.
\<close>

definition truncate_caption :: "nat \<Rightarrow> string option \<Rightarrow> string option" where
  "truncate_caption n c =
     (case c of None \<Rightarrow> None
      | Some s \<Rightarrow> if s \<noteq> [] \<and> n < length s then Some (take n s @ ''...'') else Some s)"

text \<open>
  A row with every count zero and every nullable column \<open>NULL\<close>; concrete
  examples below are built from it by record update.
\<close>

definition blank_post :: post where
  "blank_post = \<lparr>post_id = 0, project_id = 0, post_type = ''Image'', post_date = (2024, 1, 1),
     post_time = ''12:00'', reel_length = None, thumbnail_path = None, caption = None,
     caption_category = None, likes = 0, shares = 0, comments = 0, reach = 0, saves = 0,
     followers_gained = 0, watch_time = None, avg_view_duration = None, engagement_rate = 0,
     engagement_rate_weighted = 0, avd_ratio = 0, follower_gain_rate = 0, performance_score = 0,
     dominant_color = None\<rparr>"

lemma digit_chr_facts:
  assumes "k < 10"
  shows "is_digit (digit_chr k) \<and> \<not> is_space (digit_chr k) \<and> digit_value (digit_chr k) = k \<and>
         digit_chr k \<noteq> CHR ''-'' \<and> digit_chr k \<noteq> CHR ''+''"
proof -
  have "k \<in> {0, 1, 2, 3, 4, 5, 6, 7, 8, 9}" using assms by auto
  then show ?thesis
    by (auto simp: digit_chr_def is_digit_def is_space_def digit_value_def less_eq_char_def)
qed

lemma scoped_Nil [simp]: "scoped pids [] = []"
  by (simp add: scoped_def)

lemma set_scoped: "set (scoped pids ps) = {p \<in> set ps. project_id p \<in> set pids}"
  by (auto simp: scoped_def)

lemma scoped_scoped [simp]: "scoped pids (scoped pids ps) = scoped pids ps"
  by (simp add: scoped_def)

lemma scoped_no_projects [simp]: "scoped [] ps = []"
  by (simp add: scoped_def)


subsection \<open>Properties\<close>

text \<open>
  The posting hour the queries group and match on,
  \<open>CAST(substr(post_time, 1, 2) AS INTEGER)\<close>, reads back the hour of every
  zero-padded \<open>HH...\<close> time string.
\<close>

theorem hour_of_two_digits:
  assumes "h < 100" shows "hour_of (two_digits h @ rest) = int h"
proof -
  have t: "h div 10 < 10" "h mod 10 < 10" using assms by simp_all
  note d1 = digit_chr_facts [OF t(1)] and d2 = digit_chr_facts [OF t(2)]
  have "hour_of (two_digits h @ rest) = int (digits_value (two_digits h))"
    using d1 d2 by (simp add: hour_of_def two_digits_def sqlite_cast_int_def)
  also have "digits_value (two_digits h) = 10 * (h div 10) + h mod 10"
    using d1 d2 by (simp add: two_digits_def digits_value_def)
  also have "\<dots> = h" by simp
  finally show ?thesis .
qed

theorem hour_of_two_digits_witness: "(9::nat) < 100 \<and> hour_of (two_digits 9 @ '':30'') = 9"
  using hour_of_two_digits [of 9 "'':30''"] by simp

end
