(* ===== verification/Store.thy ===== *)
theory Store
  imports Metrics Hashtags Posts
begin

text \<open>
  The database the web layer of \<open>src/app.py\<close> mutates, and the route handlers
  that change it.  The tables of \<open>init_db\<close> are lists of rows in insertion
  order; each \<open>AUTOINCREMENT\<close> key is drawn from a per-table counter
  (\<open>seq_*\<close>, SQLite's \<open>sqlite_sequence\<close>), so a deleted id is never reused.
  A handler takes the database and the logged-in user (the session's
  \<open>user_id\<close>) and returns an outcome with the committed database:
  \<^item> \<open>Done\<close>: the success redirect or JSON;
  \<^item> \<open>Flash m\<close>: a redirect or re-render with the flashed message \<open>m\<close>;
  \<^item> \<open>Http_error n m\<close>: a JSON error with status \<open>n\<close>;
  \<^item> \<open>Crash e\<close>: an uncaught Python exception (HTTP 500); what was committed
    before it stays committed.
  Form parsing (\<open>int(request.form[...])\<close>), file upload, flashing, templates
  and password hashing are outside the model.
\<close>

record user_row =
  user_id :: nat
  username :: string
  password_hash :: string

record project_row =
  pr_id :: nat
  pr_user :: nat
  project_name :: string
  description :: string

record hashtag_row =
  tag_id :: nat
  tag_post :: nat
  hashtag :: string

record comment_row =
  cm_id :: nat
  cm_post :: nat
  cm_user :: nat
  comment_text :: string
  created_at :: string

record db =
  db_users :: "user_row list"
  db_projects :: "project_row list"
  db_posts :: "post list"
  db_hashtags :: "hashtag_row list"
  db_comments :: "comment_row list"
  seq_project :: nat
  seq_post :: nat
  seq_tag :: nat
  seq_comment :: nat

datatype outcome = Done | Flash string | Http_error nat string | Crash py_error

text \<open>The fields of the add-post form, already converted by \<open>int\<close>/\<open>float\<close>.\<close>

record post_form =
  f_project :: "nat option"
  f_type :: string
  f_date :: date
  f_time :: string
  f_caption :: string
  f_category :: string
  f_color :: string
  f_likes :: int
  f_comments :: int
  f_shares :: int
  f_saves :: int
  f_reach :: int
  f_followers :: int
  f_reel_length :: "int option"
  f_watch_time :: "int option"
  f_avd :: "real option"

text \<open>Python's \<open>str.strip()\<close> on ASCII: white space is 9-13, 28-32.\<close>

definition is_py_space :: "char \<Rightarrow> bool" where
  "is_py_space c \<longleftrightarrow> is_space c \<or> (char_of (28::nat) \<le> c \<and> c \<le> char_of (31::nat))"

definition py_strip :: "string \<Rightarrow> string" where
  "py_strip s = rev (dropWhile is_py_space (rev (dropWhile is_py_space s)))"

subsection \<open>Projects\<close>

definition user_projects :: "db \<Rightarrow> nat \<Rightarrow> project_row list" where
  "user_projects d uid = filter (\<lambda>pr. pr_user pr = uid) (db_projects d)"

definition insert_project :: "db \<Rightarrow> nat \<Rightarrow> string \<Rightarrow> string \<Rightarrow> nat \<times> db" where
  "insert_project d uid name desc =
     (let i = Suc (seq_project d)
      in (i, d\<lparr>db_projects := db_projects d @
                  [\<lparr>pr_id = i, pr_user = uid, project_name = name, description = desc\<rparr>],
               seq_project := i\<rparr>))"

text \<open>\<open>add_project\<close>: the stripped name must be non-empty and new for the user.\<close>

definition add_project :: "db \<Rightarrow> nat \<Rightarrow> string \<Rightarrow> string \<Rightarrow> outcome \<times> db" where
  "add_project d uid name desc =
     (let n = py_strip name; ds = py_strip desc in
      if n = [] then (Flash ''Project name is required'', d)
      else if \<exists>pr\<in>set (user_projects d uid). project_name pr = n
      then (Flash ''Project name already exists'', d)
      else (Done, snd (insert_project d uid n ds)))"

subsection \<open>Adding a post\<close>

text \<open>
  The project of a new post.  With no project selected, the user's first
  project (\<open>LIMIT 1\<close>), or a default project created and committed on the
  spot; otherwise the selected project if the user owns it.
\<close>

definition resolve_project ::
  "db \<Rightarrow> nat \<Rightarrow> string \<Rightarrow> nat option \<Rightarrow> outcome + nat \<times> db" where
  "resolve_project d uid uname sel =
     (case sel of
        None \<Rightarrow>
          (case user_projects d uid of
             pr # _ \<Rightarrow> Inr (pr_id pr, d)
           | [] \<Rightarrow> Inr (insert_project d uid (uname @ [CHR 0x27] @ ''s Instagram'') ''Default project''))
      | Some pid \<Rightarrow>
          if \<exists>pr\<in>set (user_projects d uid). pr_id pr = pid then Inr (pid, d)
          else Inl (Flash ''Invalid project selected''))"

definition insert_hashtag :: "nat \<Rightarrow> db \<Rightarrow> string \<Rightarrow> db" where
  "insert_hashtag pid d t =
     (let i = Suc (seq_tag d)
      in d\<lparr>db_hashtags := db_hashtags d @ [\<lparr>tag_id = i, tag_post = pid, hashtag = t\<rparr>],
           seq_tag := i\<rparr>)"

definition save_hashtags :: "nat \<Rightarrow> string option \<Rightarrow> db \<Rightarrow> db" where
  "save_hashtags pid cap d = foldl (insert_hashtag pid) d (extract_hashtags cap)"

definition new_post :: "nat \<Rightarrow> nat \<Rightarrow> post_form \<Rightarrow> metrics \<Rightarrow> post" where
  "new_post i pid f m =
     \<lparr>post_id = i, project_id = pid, post_type = f_type f, post_date = f_date f,
      post_time = f_time f, reel_length = f_reel_length f, thumbnail_path = None,
      caption = Some (f_caption f), caption_category = Some (f_category f),
      likes = f_likes f, shares = f_shares f, comments = f_comments f, reach = f_reach f,
      saves = f_saves f, followers_gained = f_followers f, watch_time = f_watch_time f,
      avg_view_duration = f_avd f, engagement_rate = m_engagement_rate m,
      engagement_rate_weighted = m_engagement_rate_weighted m, avd_ratio = m_avd_ratio m,
      follower_gain_rate = m_follower_gain_rate m, performance_score = m_performance_score m,
      dominant_color = Some (f_color f)\<rparr>"

text \<open>
  \<open>post_id = db.lastrowid\<close> (line 660): \<open>db\<close> is the \<open>sqlite3.Connection\<close>
  of \<open>get_db_connection\<close>, and a connection has no attribute \<open>lastrowid\<close>
  (a cursor has), so the lookup raises.
\<close>

definition connection_lastrowid :: "py_error + nat" where
  "connection_lastrowid = Inl AttributeError"

text \<open>
  The POST branch of \<open>add_post\<close>.  The default project is committed at once
  (line 614); the post row is inserted in a transaction that only the commit of
  line 665 would make durable.  An exception before that commit leaves the
  connection unclosed and its transaction is rolled back: the committed state
  is \<open>d1\<close>.
\<close>

definition add_post :: "db \<Rightarrow> nat \<Rightarrow> string \<Rightarrow> post_form \<Rightarrow> outcome \<times> db" where
  "add_post d uid uname f =
     (case resolve_project d uid uname (f_project f) of
        Inl out \<Rightarrow> (out, d)
      | Inr (pid, d1) \<Rightarrow>
          (case calculate_metrics (f_likes f) (f_comments f) (f_shares f) (f_saves f) (f_reach f)
                  (f_avd f) (f_reel_length f) (f_followers f) of
             Inl e \<Rightarrow> (Crash e, d1)
           | Inr m \<Rightarrow>
               (let i = Suc (seq_post d1);
                    d2 = d1\<lparr>db_posts := db_posts d1 @ [new_post i pid f m], seq_post := i\<rparr>
                in case connection_lastrowid of
                     Inl e \<Rightarrow> (Crash e, d1)
                   | Inr rowid \<Rightarrow> (Done, save_hashtags rowid (Some (f_caption f)) d2))))"

subsection \<open>Deleting\<close>

text \<open>\<open>posts p JOIN projects pr ON p.project_id = pr.id WHERE pr.user_id = ?\<close>.\<close>

definition owns_post :: "db \<Rightarrow> nat \<Rightarrow> post \<Rightarrow> bool" where
  "owns_post d uid p \<longleftrightarrow> (\<exists>pr\<in>set (db_projects d). pr_id pr = project_id p \<and> pr_user pr = uid)"

text \<open>
  \<open>DELETE FROM post_comments WHERE post_id = ?\<close> and
  \<open>DELETE FROM hashtags WHERE post_id = ?\<close>: the rows that reference a post.
\<close>

definition purge_refs :: "db \<Rightarrow> nat \<Rightarrow> db" where
  "purge_refs d i =
     d\<lparr>db_comments := filter (\<lambda>c. cm_post c \<noteq> i) (db_comments d),
       db_hashtags := filter (\<lambda>h. tag_post h \<noteq> i) (db_hashtags d)\<rparr>"

text \<open>The three \<open>DELETE\<close> statements for one post: comments, hashtags, the row.\<close>

definition purge_post :: "db \<Rightarrow> nat \<Rightarrow> db" where
  "purge_post d i = (let e = purge_refs d i in e\<lparr>db_posts := filter (\<lambda>p. post_id p \<noteq> i) (db_posts e)\<rparr>)"

definition delete_post :: "db \<Rightarrow> nat \<Rightarrow> nat \<Rightarrow> outcome \<times> db" where
  "delete_post d uid i =
     (if \<exists>p\<in>set (db_posts d). post_id p = i \<and> owns_post d uid p
      then (Done, purge_post d i)
      else (Http_error 404 ''Post not found or unauthorized'', d))"

definition delete_multiple_posts :: "db \<Rightarrow> nat \<Rightarrow> nat list \<Rightarrow> outcome \<times> db" where
  "delete_multiple_posts d uid ids =
     (if ids = [] then (Http_error 400 ''No posts selected'', d)
      else
        let owned = map post_id (filter (\<lambda>p. post_id p \<in> set ids \<and> owns_post d uid p) (db_posts d))
        in if length owned \<noteq> length ids
           then (Http_error 404 ''Some posts not found or unauthorized'', d)
           else (Done, foldl purge_post d owned))"

definition delete_project :: "db \<Rightarrow> nat \<Rightarrow> nat \<Rightarrow> outcome \<times> db" where
  "delete_project d uid prid =
     (if \<exists>pr\<in>set (user_projects d uid). pr_id pr = prid then
        (let ids = map post_id (filter (\<lambda>p. project_id p = prid) (db_posts d));
             d1 = foldl purge_refs d ids;
             d2 = d1\<lparr>db_posts := filter (\<lambda>p. project_id p \<noteq> prid) (db_posts d1)\<rparr>
         in (Done, d2\<lparr>db_projects := filter (\<lambda>pr. pr_id pr \<noteq> prid) (db_projects d2)\<rparr>))
      else (Http_error 404 ''Project not found or unauthorized'', d))"

subsection \<open>Comments\<close>

text \<open>
  The access check of \<open>post_comments\<close>, as written:
  \<open>pr.user_id = ? OR pr.id IN (SELECT project_id FROM posts WHERE project_id IN
  (SELECT id FROM projects WHERE user_id = ?))\<close>.
\<close>

definition comment_visible :: "db \<Rightarrow> nat \<Rightarrow> post \<Rightarrow> bool" where
  "comment_visible d uid p \<longleftrightarrow>
     (\<exists>pr\<in>set (db_projects d). pr_id pr = project_id p \<and>
        (pr_user pr = uid \<or>
         pr_id pr \<in> set (map project_id (filter (\<lambda>q. project_id q \<in> set (map pr_id (user_projects d uid)))
                                           (db_posts d)))))"

definition add_comment :: "db \<Rightarrow> nat \<Rightarrow> nat \<Rightarrow> string \<Rightarrow> string \<Rightarrow> outcome \<times> db" where
  "add_comment d uid i text stamp =
     (if \<exists>p\<in>set (db_posts d). post_id p = i \<and> comment_visible d uid p then
        (let t = py_strip text in
         if t = [] then (Flash ''Comment cannot be empty'', d)
         else
           let c = Suc (seq_comment d)
           in (Done, d\<lparr>db_comments := db_comments d @
                          [\<lparr>cm_id = c, cm_post = i, cm_user = uid, comment_text = t, created_at = stamp\<rparr>],
                       seq_comment := c\<rparr>))
      else (Flash ''Post not found'', d))"

text \<open>
  \<open>api_post_comments\<close>: the ten newest comments of a post joined with their
  authors.  The handler asks only that someone is logged in.
\<close>

definition api_post_comments :: "db \<Rightarrow> nat \<Rightarrow> nat \<Rightarrow> (string \<times> string \<times> string) list" where
  "api_post_comments d uid i =
     take 10 (map (\<lambda>(c, u). (comment_text c, username u, created_at c))
       (sort_desc (\<lambda>(c, u). created_at c)
          [(c, u). c \<leftarrow> db_comments d, u \<leftarrow> db_users d, cm_post c = i \<and> user_id u = cm_user c]))"

subsection \<open>Requests\<close>

datatype request =
    Add_project nat string string
  | Add_post nat string post_form
  | Delete_post nat nat
  | Delete_multiple nat "nat list"
  | Delete_project nat nat
  | Add_comment nat nat string string

fun handle :: "db \<Rightarrow> request \<Rightarrow> outcome \<times> db" where
  "handle d (Add_project uid n ds) = add_project d uid n ds"
| "handle d (Add_post uid un f) = add_post d uid un f"
| "handle d (Delete_post uid i) = delete_post d uid i"
| "handle d (Delete_multiple uid ids) = delete_multiple_posts d uid ids"
| "handle d (Delete_project uid prid) = delete_project d uid prid"
| "handle d (Add_comment uid i t s) = add_comment d uid i t s"

fun run :: "db \<Rightarrow> request list \<Rightarrow> db" where
  "run d [] = d"
| "run d (r # rs) = run (snd (handle d r)) rs"

text \<open>The logged-in user a request is made by (\<open>session['user_id']\<close>).\<close>

fun request_user :: "request \<Rightarrow> nat" where
  "request_user (Add_project uid _ _) = uid"
| "request_user (Add_post uid _ _) = uid"
| "request_user (Delete_post uid _) = uid"
| "request_user (Delete_multiple uid _) = uid"
| "request_user (Delete_project uid _) = uid"
| "request_user (Add_comment uid _ _ _) = uid"

subsection \<open>The invariant: keys and references\<close>

definition db_inv :: "db \<Rightarrow> bool" where
  "db_inv d \<longleftrightarrow>
     distinct (map pr_id (db_projects d)) \<and> distinct (map post_id (db_posts d)) \<and>
     distinct (map tag_id (db_hashtags d)) \<and> distinct (map cm_id (db_comments d)) \<and>
     (\<forall>pr\<in>set (db_projects d). pr_id pr \<le> seq_project d) \<and>
     (\<forall>p\<in>set (db_posts d). post_id p \<le> seq_post d) \<and>
     (\<forall>h\<in>set (db_hashtags d). tag_id h \<le> seq_tag d) \<and>
     (\<forall>c\<in>set (db_comments d). cm_id c \<le> seq_comment d) \<and>
     (\<forall>p\<in>set (db_posts d). project_id p \<in> pr_id ` set (db_projects d)) \<and>
     (\<forall>h\<in>set (db_hashtags d). tag_post h \<in> post_id ` set (db_posts d)) \<and>
     (\<forall>c\<in>set (db_comments d). cm_post c \<in> post_id ` set (db_posts d))"

text \<open>
  No user has two projects of the same name: the check of \<open>add_project\<close>,
  which the schema itself does not enforce.
\<close>

definition project_names_unique :: "db \<Rightarrow> bool" where
  "project_names_unique d \<longleftrightarrow> distinct (map (\<lambda>pr. (pr_user pr, project_name pr)) (db_projects d))"

definition empty_db :: db where
  "empty_db = \<lparr>db_users = [], db_projects = [], db_posts = [], db_hashtags = [], db_comments = [],
     seq_project = 0, seq_post = 0, seq_tag = 0, seq_comment = 0\<rparr>"


subsection \<open>Example states\<close>

text \<open>
  Two users; alice (1) owns the project \<open>Shop\<close> (1) with one post (1), on
  which she left one comment.
\<close>

definition example_post :: post where
  "example_post = blank_post\<lparr>post_id := 1, project_id := 1\<rparr>"

definition example_db :: db where
  "example_db = empty_db\<lparr>
     db_users := [\<lparr>user_id = 1, username = ''alice'', password_hash = ''h1''\<rparr>,
                  \<lparr>user_id = 2, username = ''bob'', password_hash = ''h2''\<rparr>],
     db_projects := [\<lparr>pr_id = 1, pr_user = 1, project_name = ''Shop'', description = []\<rparr>],
     db_posts := [example_post],
     db_comments := [\<lparr>cm_id = 1, cm_post = 1, cm_user = 1, comment_text = ''draft caption'',
                       created_at = ''2024-05-01T10:00:00''\<rparr>],
     seq_project := 1, seq_post := 1, seq_comment := 1\<rparr>"

text \<open>A Reel submitted with no project selected.\<close>

definition example_form :: post_form where
  "example_form = \<lparr>f_project = None, f_type = ''Reel'', f_date = (2024, 5, 2), f_time = ''18:30'',
     f_caption = ''New drop #Sale'', f_category = ''Promotional'', f_color = ''#ff0000'',
     f_likes = 10, f_comments = 0, f_shares = 0, f_saves = 0, f_reach = 100, f_followers = 5,
     f_reel_length = Some 30, f_watch_time = None, f_avd = Some 6\<rparr>"


subsection \<open>Shared facts: keys, counters, the invariant\<close>

lemma fresh_not_in: "\<forall>x\<in>set xs. f x \<le> n \<Longrightarrow> Suc n \<notin> f ` set xs"
  by force

lemma insert_project_inv:
  assumes "db_inv d" "insert_project d uid n ds = (i, d')"
  shows "db_inv d' \<and> i \<in> pr_id ` set (db_projects d') \<and> db_posts d' = db_posts d \<and>
         seq_post d' = seq_post d \<and> db_users d' = db_users d"
  using assms fresh_not_in [of "db_projects d" pr_id "seq_project d"]
  by (auto simp: insert_project_def db_inv_def Let_def) (meson le_SucI)

lemma insert_hashtag_inv:
  assumes "db_inv d" "pid \<in> post_id ` set (db_posts d)"
  shows "db_inv (insert_hashtag pid d t)"
  using assms fresh_not_in [of "db_hashtags d" tag_id "seq_tag d"]
  by (auto simp: insert_hashtag_def db_inv_def Let_def intro: le_SucI)

lemma insert_hashtag_posts [simp]: "db_posts (insert_hashtag pid d t) = db_posts d"
  by (simp add: insert_hashtag_def Let_def)

lemma foldl_insert_hashtag_inv:
  "db_inv d \<Longrightarrow> pid \<in> post_id ` set (db_posts d) \<Longrightarrow> db_inv (foldl (insert_hashtag pid) d ts)"
proof (induction ts arbitrary: d)
  case Nil
  then show ?case by simp
next
  case (Cons t ts)
  have "db_inv (insert_hashtag pid d t)" using Cons.prems by (rule insert_hashtag_inv)
  moreover have "pid \<in> post_id ` set (db_posts (insert_hashtag pid d t))" using Cons.prems by simp
  ultimately have "db_inv (foldl (insert_hashtag pid) (insert_hashtag pid d t) ts)" by (rule Cons.IH)
  then show ?case by simp
qed

lemma save_hashtags_inv:
  assumes "db_inv d" "pid \<in> post_id ` set (db_posts d)"
  shows "db_inv (save_hashtags pid cap d)"
  using foldl_insert_hashtag_inv [OF assms] by (simp add: save_hashtags_def)

lemma resolve_project_inv:
  assumes "db_inv d" "resolve_project d uid uname sel = Inr (pid, d1)"
  shows "db_inv d1 \<and> pid \<in> pr_id ` set (db_projects d1) \<and> db_posts d1 = db_posts d \<and>
         seq_post d1 = seq_post d"
proof (cases sel)
  case None
  show ?thesis
  proof (cases "user_projects d uid")
    case Nil
    with None assms(2) have "insert_project d uid (uname @ [CHR 0x27] @ ''s Instagram'') ''Default project'' = (pid, d1)"
      by (simp add: resolve_project_def)
    from insert_project_inv [OF assms(1) this] show ?thesis by simp
  next
    case (Cons pr rest)
    with None assms(2) have "pid = pr_id pr" "d1 = d" by (simp_all add: resolve_project_def)
    moreover have "pr \<in> set (db_projects d)"
      using Cons by (metis filter_is_subset list.set_intros(1) subsetD user_projects_def)
    ultimately show ?thesis using assms(1) by simp
  qed
next
  case (Some i)
  with assms(2) have "i = pid" "d1 = d" "\<exists>pr\<in>set (user_projects d uid). pr_id pr = pid"
    by (auto simp: resolve_project_def split: if_splits)
  then show ?thesis using assms(1) by (auto simp: user_projects_def)
qed

lemma resolve_project_tables:
  assumes "resolve_project d uid uname sel = Inr (pid, d1)"
  shows "db_posts d1 = db_posts d \<and> db_hashtags d1 = db_hashtags d \<and> db_comments d1 = db_comments d \<and>
         db_users d1 = db_users d"
  using assms by (auto simp: resolve_project_def insert_project_def Let_def
                       split: option.splits list.splits if_splits)

lemma resolve_project_Inl:
  "resolve_project d uid uname sel = Inl out \<Longrightarrow> out = Flash ''Invalid project selected''"
  by (auto simp: resolve_project_def split: option.splits list.splits if_splits)

lemma add_post_committed:
  assumes "add_post d uid uname f = (out, d')"
  shows "out \<noteq> Done \<and> (d' = d \<or> (\<exists>pid. resolve_project d uid uname (f_project f) = Inr (pid, d')))"
  using assms by (auto simp: add_post_def connection_lastrowid_def Let_def
                       dest: resolve_project_Inl split: sum.splits prod.splits)

lemma purge_refs_tables [simp]:
  "db_posts (purge_refs d i) = db_posts d" "db_projects (purge_refs d i) = db_projects d"
  "db_users (purge_refs d i) = db_users d"
  by (simp_all add: purge_refs_def)

lemma foldl_purge_refs:
  "foldl purge_refs d ids =
     d\<lparr>db_comments := filter (\<lambda>c. cm_post c \<notin> set ids) (db_comments d),
       db_hashtags := filter (\<lambda>h. tag_post h \<notin> set ids) (db_hashtags d)\<rparr>"
  by (induction ids arbitrary: d) (simp_all add: purge_refs_def conj_commute)

lemma foldl_purge_post:
  "foldl purge_post d ids =
     d\<lparr>db_comments := filter (\<lambda>c. cm_post c \<notin> set ids) (db_comments d),
       db_hashtags := filter (\<lambda>h. tag_post h \<notin> set ids) (db_hashtags d),
       db_posts := filter (\<lambda>p. post_id p \<notin> set ids) (db_posts d)\<rparr>"
  by (induction ids arbitrary: d) (simp_all add: purge_post_def purge_refs_def conj_commute)

text \<open>Removing posts together with every row that references them keeps the invariant.\<close>

lemma remove_posts_inv:
  assumes "db_inv d"
  shows "db_inv (d\<lparr>db_comments := filter (\<lambda>c. cm_post c \<notin> S) (db_comments d),
                   db_hashtags := filter (\<lambda>h. tag_post h \<notin> S) (db_hashtags d),
                   db_posts := filter (\<lambda>p. post_id p \<notin> S) (db_posts d)\<rparr>)"
  using assms by (fastforce simp: db_inv_def distinct_map_filter image_iff)

lemma purge_post_inv: "db_inv d \<Longrightarrow> db_inv (purge_post d i)"
  using remove_posts_inv [of d "{i}"] by (simp add: purge_post_def purge_refs_def)

lemma foldl_purge_post_inv: "db_inv d \<Longrightarrow> db_inv (foldl purge_post d ids)"
  using remove_posts_inv [of d "set ids"] by (simp add: foldl_purge_post)

lemma add_project_inv: "db_inv d \<Longrightarrow> db_inv (snd (add_project d uid name desc))"
  by (auto simp: add_project_def Let_def dest: insert_project_inv [OF _ prod.collapse [symmetric]])

lemma add_comment_inv:
  assumes "db_inv d" shows "db_inv (snd (add_comment d uid i text stamp))"
  using assms fresh_not_in [of "db_comments d" cm_id "seq_comment d"]
  by (auto simp: add_comment_def db_inv_def Let_def)

lemma delete_post_inv: "db_inv d \<Longrightarrow> db_inv (snd (delete_post d uid i))"
  by (simp add: delete_post_def purge_post_inv)

lemma delete_multiple_posts_inv: "db_inv d \<Longrightarrow> db_inv (snd (delete_multiple_posts d uid ids))"
  by (simp add: delete_multiple_posts_def Let_def foldl_purge_post_inv)

lemma delete_project_inv:
  assumes "db_inv d" shows "db_inv (snd (delete_project d uid prid))"
  using assms
  by (fastforce simp: delete_project_def Let_def foldl_purge_refs db_inv_def distinct_map_filter image_iff)

lemma add_post_inv: "db_inv d \<Longrightarrow> db_inv (snd (add_post d uid uname f))"
  using add_post_committed [OF prod.collapse [symmetric]] resolve_project_inv by (metis)

lemma handle_inv: "db_inv d \<Longrightarrow> db_inv (snd (handle d r))"
  by (cases r) (simp_all add: add_project_inv add_post_inv delete_post_inv delete_multiple_posts_inv
                              delete_project_inv add_comment_inv)

lemma empty_db_inv: "db_inv empty_db"
  by (simp add: db_inv_def empty_db_def)

lemma post_id_inj:
  assumes "db_inv d" "p \<in> set (db_posts d)" "q \<in> set (db_posts d)" "post_id p = post_id q"
  shows "p = q"
  using assms by (auto simp: db_inv_def distinct_map dest: inj_onD)

lemma pr_id_inj:
  assumes "db_inv d" "p \<in> set (db_projects d)" "q \<in> set (db_projects d)" "pr_id p = pr_id q"
  shows "p = q"
  using assms by (auto simp: db_inv_def distinct_map dest: inj_onD)

lemma add_project_posts [simp]: "db_posts (snd (add_project d uid name desc)) = db_posts d"
  by (simp add: add_project_def insert_project_def Let_def)

lemma add_comment_posts [simp]: "db_posts (snd (add_comment d uid i text stamp)) = db_posts d"
  by (simp add: add_comment_def Let_def)

lemma add_post_posts [simp]: "db_posts (snd (add_post d uid uname f)) = db_posts d"
  using add_post_committed [OF prod.collapse [symmetric]] resolve_project_tables by metis

lemma comment_visible_eq_owns:
  assumes "db_inv d" shows "comment_visible d uid p \<longleftrightarrow> owns_post d uid p"
proof
  assume "comment_visible d uid p"
  then obtain pr where pr: "pr \<in> set (db_projects d)" "pr_id pr = project_id p"
    and alt: "pr_user pr = uid \<or>
      pr_id pr \<in> set (map project_id (filter (\<lambda>q. project_id q \<in> set (map pr_id (user_projects d uid)))
                                         (db_posts d)))"
    unfolding comment_visible_def by blast
  have "pr_user pr = uid"
  proof (cases "pr_user pr = uid")
    case False
    with alt obtain pr' where "pr' \<in> set (db_projects d)" "pr_user pr' = uid" "pr_id pr' = pr_id pr"
      by (auto simp: user_projects_def)
    with pr_id_inj [OF assms pr(1)] show ?thesis by force
  qed
  with pr show "owns_post d uid p" by (auto simp: owns_post_def)
next
  assume "owns_post d uid p"
  then show "comment_visible d uid p" by (auto simp: owns_post_def comment_visible_def)
qed

lemma insert_project_unique:
  assumes "project_names_unique d" "\<forall>pr\<in>set (user_projects d uid). project_name pr \<noteq> n"
  shows "project_names_unique (snd (insert_project d uid n ds))"
  using assms by (auto simp: project_names_unique_def insert_project_def Let_def user_projects_def)

lemma filter_projects_unique:
  "project_names_unique d \<Longrightarrow> project_names_unique (d'\<lparr>db_projects := filter P (db_projects d)\<rparr>)"
  by (simp add: project_names_unique_def distinct_map_filter)

lemma handle_names_unique:
  assumes "project_names_unique d" shows "project_names_unique (snd (handle d r))"
proof (cases r)
  case (Add_project uid n ds)
  then show ?thesis using assms insert_project_unique [OF assms, of uid "py_strip n"]
    by (auto simp: add_project_def Let_def)
next
  case (Add_post uid un f)
  have "resolve_project d uid un sel = Inr (pid, d1) \<Longrightarrow> project_names_unique d1" for sel pid d1
    using assms insert_project_unique [OF assms, of uid]
    by (auto simp: resolve_project_def split: option.splits list.splits if_splits) (metis snd_conv)
  with Add_post show ?thesis using assms add_post_committed [OF prod.collapse [symmetric]]
    by (metis handle.simps(2))
next
  case (Delete_post uid i)
  then show ?thesis using assms
    by (simp add: delete_post_def purge_post_def purge_refs_def project_names_unique_def)
next
  case (Delete_multiple uid ids)
  then show ?thesis using assms
    by (simp add: delete_multiple_posts_def Let_def foldl_purge_post project_names_unique_def)
next
  case (Delete_project uid prid)
  then show ?thesis using assms
    by (simp add: delete_project_def Let_def foldl_purge_refs project_names_unique_def distinct_map_filter)
next
  case (Add_comment uid i t st)
  then show ?thesis using assms by (simp add: add_comment_def Let_def project_names_unique_def)
qed

lemma length_eq_card_subset:
  assumes "distinct ys" "set ys \<subseteq> set xs"
  shows "length ys = length xs \<longleftrightarrow> distinct xs \<and> set ys = set xs"
proof
  assume l: "length ys = length xs"
  have a: "card (set ys) \<le> card (set xs)" using assms(2) by (simp add: card_mono)
  have b: "card (set xs) \<le> length xs" by (rule card_length)
  have c: "card (set ys) = length ys" using assms(1) by (rule distinct_card)
  from l a b c have "card (set xs) = length xs" "card (set ys) = card (set xs)" by linarith+
  then show "distinct xs \<and> set ys = set xs"
    using assms(2) by (simp add: card_distinct card_subset_eq)
next
  assume "distinct xs \<and> set ys = set xs"
  then show "length ys = length xs" using assms(1) by (metis distinct_card)
qed

lemma delete_multiple_owned:
  assumes "db_inv d"
  shows "distinct (map post_id (filter (\<lambda>p. post_id p \<in> set ids \<and> owns_post d uid p) (db_posts d)))"
    and "set (map post_id (filter (\<lambda>p. post_id p \<in> set ids \<and> owns_post d uid p) (db_posts d))) =
           {i \<in> set ids. \<exists>p\<in>set (db_posts d). post_id p = i \<and> owns_post d uid p}"
  using assms by (auto simp: db_inv_def distinct_map_filter)

lemma delete_multiple_posts_eq:
  assumes "db_inv d"
  shows "delete_multiple_posts d uid ids =
    (if ids = [] then (Http_error 400 ''No posts selected'', d)
     else if distinct ids \<and> (\<forall>i\<in>set ids. \<exists>p\<in>set (db_posts d). post_id p = i \<and> owns_post d uid p)
     then (Done, d\<lparr>db_comments := filter (\<lambda>c. cm_post c \<notin> set ids) (db_comments d),
                   db_hashtags := filter (\<lambda>h. tag_post h \<notin> set ids) (db_hashtags d),
                   db_posts := filter (\<lambda>p. post_id p \<notin> set ids) (db_posts d)\<rparr>)
     else (Http_error 404 ''Some posts not found or unauthorized'', d))"
proof -
  let ?owned = "map post_id (filter (\<lambda>p. post_id p \<in> set ids \<and> owns_post d uid p) (db_posts d))"
  have sub: "set ?owned \<subseteq> set ids" using delete_multiple_owned(2) [OF assms] by auto
  have len: "length ?owned = length ids \<longleftrightarrow>
               distinct ids \<and> (\<forall>i\<in>set ids. \<exists>p\<in>set (db_posts d). post_id p = i \<and> owns_post d uid p)"
    using length_eq_card_subset [OF delete_multiple_owned(1) [OF assms] sub]
    unfolding delete_multiple_owned(2) [OF assms] by blast
  show ?thesis
  proof (cases "ids \<noteq> [] \<and> length ?owned = length ids")
    case True
    then have "set ?owned = set ids" using len delete_multiple_owned(2) [OF assms] by auto
    with True len show ?thesis by (simp add: delete_multiple_posts_def foldl_purge_post)
  next
    case False
    then show ?thesis using len by (auto simp: delete_multiple_posts_def)
  qed
qed

lemma owns_post_user_projects:
  "owns_post d uid p \<longleftrightarrow> project_id p \<in> set (map pr_id (user_projects d uid))"
  unfolding owns_post_def user_projects_def by (auto simp: image_iff eq_commute)

lemma add_post_state:
  "snd (add_post d uid uname f) =
     (if f_project f = None \<and> user_projects d uid = []
      then snd (insert_project d uid (uname @ [CHR 0x27] @ ''s Instagram'') ''Default project'') else d)"
  by (auto simp: add_post_def resolve_project_def connection_lastrowid_def Let_def
           split: sum.splits prod.splits option.splits list.splits if_splits)

subsection \<open>Properties\<close>

text \<open>
  C1. \<open>add_post\<close> never stores a post: every submission ends in a
  redirect with a flash or in an exception (at the latest \<open>db.lastrowid\<close>), and
  the committed posts table is the one before the request.
\<close>

theorem add_post_never_stores:
  "fst (add_post d uid uname f) \<noteq> Done \<and> db_posts (snd (add_post d uid uname f)) = db_posts d"
  using add_post_committed [OF prod.collapse [symmetric]] add_post_posts by blast

text \<open>
  C9. Whatever is submitted, the only change \<open>add_post\<close> commits is the
  default project: when no project is selected and the user has none, the
  project \<open>"{username}'s Instagram"\<close> is inserted and committed before the
  post fails; in every other case the database is unchanged.
\<close>

theorem add_post_default_project:
  "snd (add_post d uid uname f) =
     (if f_project f = None \<and> user_projects d uid = []
      then d\<lparr>db_projects := db_projects d @
               [\<lparr>pr_id = Suc (seq_project d), pr_user = uid,
                  project_name = uname @ [CHR 0x27] @ ''s Instagram'', description = ''Default project''\<rparr>],
             seq_project := Suc (seq_project d)\<rparr>
      else d)"
  by (simp add: add_post_state insert_project_def Let_def)

text \<open>
  C3. Every sequence of requests keeps the database well formed: keys
  distinct and below their \<open>AUTOINCREMENT\<close> counters, every post in an existing
  project, every hashtag and comment on an existing post (the deletes remove
  the referencing rows first).
\<close>

theorem run_preserves_inv:
  "db_inv d \<Longrightarrow> db_inv (run d rs)"
  by (induction rs arbitrary: d) (simp_all add: handle_inv)

theorem run_preserves_inv_witness:
  "db_inv empty_db \<and>
   db_inv (run empty_db [Add_project 1 ''Shop'' [], Add_comment 1 1 ''hi'' ''t'', Delete_project 1 1])"
  using run_preserves_inv [OF empty_db_inv] empty_db_inv by blast

text \<open>
  C4. No request removes a post its user does not own: every delete
  checks ownership through the post's project.
\<close>

theorem others_posts_survive:
  assumes "db_inv d" "p \<in> set (db_posts d)" "\<not> owns_post d (request_user r) p"
  shows "p \<in> set (db_posts (snd (handle d r)))"
proof (cases r)
  case (Delete_post uid i)
  then show ?thesis using assms post_id_inj [OF assms(1,2)]
    by (auto simp: delete_post_def purge_post_def purge_refs_def)
next
  case (Delete_multiple uid ids)
  then show ?thesis using assms post_id_inj [OF assms(1,2)]
    by (auto simp: delete_multiple_posts_def Let_def foldl_purge_post)
next
  case (Delete_project uid prid)
  then show ?thesis using assms
    by (auto simp: delete_project_def Let_def foldl_purge_refs owns_post_def user_projects_def)
qed (use assms in simp_all)


theorem others_posts_survive_witness:
  "db_inv example_db \<and> example_post \<in> set (db_posts example_db) \<and>
   \<not> owns_post example_db (request_user (Delete_post 2 1)) example_post \<and>
   example_post \<in> set (db_posts (snd (handle example_db (Delete_post 2 1))))"
proof -
  have i: "db_inv example_db"
    by (simp add: db_inv_def example_db_def empty_db_def example_post_def blank_post_def)
  have m: "example_post \<in> set (db_posts example_db)" by (simp add: example_db_def)
  have o: "\<not> owns_post example_db (request_user (Delete_post 2 1)) example_post"
    by (simp add: owns_post_def example_db_def example_post_def blank_post_def)
  show ?thesis using others_posts_survive [OF i m o] i m o by simp
qed

text \<open>
  C5. The bulk delete succeeds exactly when the list is
  non-empty, has no duplicate and names only posts of the user; it then removes
  exactly those posts, and otherwise changes nothing.  A list naming one post
  twice is rejected as "not found or unauthorized".
\<close>

theorem delete_multiple_all_or_nothing:
  assumes "db_inv d"
  shows "(fst (delete_multiple_posts d uid ids) = Done \<longleftrightarrow>
            ids \<noteq> [] \<and> distinct ids \<and> (\<forall>i\<in>set ids. \<exists>p\<in>set (db_posts d). post_id p = i \<and> owns_post d uid p)) \<and>
         (fst (delete_multiple_posts d uid ids) = Done \<longrightarrow>
            db_posts (snd (delete_multiple_posts d uid ids)) = filter (\<lambda>p. post_id p \<notin> set ids) (db_posts d)) \<and>
         (fst (delete_multiple_posts d uid ids) \<noteq> Done \<longrightarrow> snd (delete_multiple_posts d uid ids) = d)"
  using assms by (simp add: delete_multiple_posts_eq [OF assms])


theorem delete_multiple_all_or_nothing_witness:
  "db_inv example_db \<and> fst (delete_multiple_posts example_db 1 [1, 1]) \<noteq> Done \<and>
   fst (delete_multiple_posts example_db 1 [1]) = Done \<and>
   db_posts (snd (delete_multiple_posts example_db 1 [1])) = []"
proof -
  have i: "db_inv example_db"
    by (simp add: db_inv_def example_db_def empty_db_def example_post_def blank_post_def)
  have o: "owns_post example_db 1 example_post"
    by (simp add: owns_post_def example_db_def example_post_def blank_post_def)
  show ?thesis
    using delete_multiple_all_or_nothing [OF i, of 1 "[1, 1]"] delete_multiple_all_or_nothing [OF i, of 1 "[1]"] i o
    by (simp add: example_db_def example_post_def blank_post_def)
qed

text \<open>
  C6. On a well-formed database the access check of the comments
  page, with its \<open>OR pr.id IN (...)\<close> clause, admits exactly the owner of the
  post's project: the clause only re-selects projects of the same user.
\<close>

theorem comment_visible_owns:
  assumes "db_inv d" shows "comment_visible d uid p \<longleftrightarrow> owns_post d uid p"
  using comment_visible_eq_owns [OF assms] .


theorem comment_visible_owns_witness:
  "db_inv example_db \<and>
   (comment_visible example_db 2 example_post \<longleftrightarrow> owns_post example_db 2 example_post) \<and>
   \<not> owns_post example_db 2 example_post"
proof -
  have i: "db_inv example_db"
    by (simp add: db_inv_def example_db_def empty_db_def example_post_def blank_post_def)
  have "\<not> owns_post example_db 2 example_post"
    by (simp add: owns_post_def example_db_def example_post_def blank_post_def)
  then show ?thesis using comment_visible_owns [OF i, of 2 example_post] i by simp
qed

text \<open>
  C7. The JSON endpoint \<open>/api/posts/<id>/comments\<close> checks only that
  someone is logged in: its answer does not depend on who asks, and it returns
  comments whenever the post has a comment by a user of the table, also to a
  user who may not open the post.
\<close>

theorem api_comments_leak:
  "api_post_comments d uid i = api_post_comments d uid' i \<and>
   (api_post_comments d uid i \<noteq> [] \<longleftrightarrow>
      (\<exists>c\<in>set (db_comments d). cm_post c = i \<and> (\<exists>u\<in>set (db_users d). user_id u = cm_user c)))"
  by (auto simp: api_post_comments_def)

theorem api_comments_leak_witness:
  "\<not> comment_visible example_db 2 example_post \<and> post_id example_post = 1 \<and>
   api_post_comments example_db 2 1 = api_post_comments example_db 1 1 \<and> api_post_comments example_db 2 1 \<noteq> []"
proof -
  have v: "\<not> comment_visible example_db 2 example_post \<and> post_id example_post = 1"
    by (simp add: comment_visible_def example_db_def example_post_def blank_post_def user_projects_def)
  have "\<exists>c\<in>set (db_comments example_db). cm_post c = 1 \<and> (\<exists>u\<in>set (db_users example_db). user_id u = cm_user c)"
    by (simp add: example_db_def)
  then show ?thesis using api_comments_leak [of example_db 2 1 1] v by metis
qed

text \<open>
  C8. No sequence of requests gives a user two projects of the same
  name: \<open>add_project\<close> checks the stripped name, and the default project of
  \<open>add_post\<close> is only created for a user with no project.
\<close>

theorem run_names_unique:
  "project_names_unique d \<Longrightarrow> project_names_unique (run d rs)"
  by (induction rs arbitrary: d) (simp_all add: handle_names_unique)

theorem run_names_unique_witness:
  "project_names_unique empty_db \<and>
   project_names_unique (run empty_db [Add_project 1 ''Shop'' [], Add_project 1 '' Shop '' []])"
proof -
  have u: "project_names_unique empty_db" by (simp add: project_names_unique_def empty_db_def)
  show ?thesis using run_names_unique [OF u] u by blast
qed

end
