(* ===== verification/Abstract.thy ===== *)
theory Abstract
  imports Store
begin

text \<open>
  An abstract specification of the database of \<open>src/app.py\<close> and of what
  each state-changing route does to it, and the refinement of \<open>Store\<close>
  against it.  Each table becomes a finite map from its primary key to the
  row (\<open>key_map\<close>), so that a route reads as a lookup by key and an update
  of the maps instead of scans and filters of lists; the \<open>AUTOINCREMENT\<close>
  counters are kept.  \<open>abs_db\<close> maps a concrete database to the abstract
  one, and on every well-formed database \<open>abs_db (handle d r) = a_step
  (abs_db d) r\<close>: the list implementation with its SQL-shaped filters
  implements the map specification, and so does any sequence of requests.
\<close>

definition key_map :: "('a \<Rightarrow> nat) \<Rightarrow> 'a list \<Rightarrow> nat \<rightharpoonup> 'a" where
  "key_map k xs = map_of (map (\<lambda>x. (k x, x)) xs)"

definition filter_vals :: "('a \<Rightarrow> bool) \<Rightarrow> (nat \<rightharpoonup> 'a) \<Rightarrow> nat \<rightharpoonup> 'a" where
  "filter_vals P m = (\<lambda>i. case m i of None \<Rightarrow> None | Some v \<Rightarrow> if P v then Some v else None)"

record astore =
  a_users :: "nat \<rightharpoonup> user_row"
  a_projects :: "nat \<rightharpoonup> project_row"
  a_posts :: "nat \<rightharpoonup> post"
  a_tags :: "nat \<rightharpoonup> hashtag_row"
  a_comments :: "nat \<rightharpoonup> comment_row"
  a_seq_project :: nat
  a_seq_post :: nat
  a_seq_tag :: nat
  a_seq_comment :: nat

definition abs_db :: "db \<Rightarrow> astore" where
  "abs_db d = \<lparr>a_users = key_map user_id (db_users d), a_projects = key_map pr_id (db_projects d),
     a_posts = key_map post_id (db_posts d), a_tags = key_map tag_id (db_hashtags d),
     a_comments = key_map cm_id (db_comments d), a_seq_project = seq_project d,
     a_seq_post = seq_post d, a_seq_tag = seq_tag d, a_seq_comment = seq_comment d\<rparr>"

subsection \<open>The abstract operations\<close>

definition a_owns :: "astore \<Rightarrow> nat \<Rightarrow> post \<Rightarrow> bool" where
  "a_owns s uid p = (case a_projects s (project_id p) of None \<Rightarrow> False | Some pr \<Rightarrow> pr_user pr = uid)"

definition a_owned_post :: "astore \<Rightarrow> nat \<Rightarrow> nat \<Rightarrow> bool" where
  "a_owned_post s uid i = (case a_posts s i of None \<Rightarrow> False | Some p \<Rightarrow> a_owns s uid p)"

definition a_insert_project :: "astore \<Rightarrow> nat \<Rightarrow> string \<Rightarrow> string \<Rightarrow> astore" where
  "a_insert_project s uid n ds =
     (let i = Suc (a_seq_project s)
      in s\<lparr>a_projects := (a_projects s)(i \<mapsto> \<lparr>pr_id = i, pr_user = uid, project_name = n, description = ds\<rparr>),
           a_seq_project := i\<rparr>)"

text \<open>Removing posts together with the hashtags and comments that reference them.\<close>

definition a_remove_refs :: "astore \<Rightarrow> nat set \<Rightarrow> astore" where
  "a_remove_refs s S =
     s\<lparr>a_tags := filter_vals (\<lambda>h. tag_post h \<notin> S) (a_tags s),
       a_comments := filter_vals (\<lambda>c. cm_post c \<notin> S) (a_comments s)\<rparr>"

definition a_remove_posts :: "astore \<Rightarrow> nat set \<Rightarrow> astore" where
  "a_remove_posts s S = (a_remove_refs s S)\<lparr>a_posts := filter_vals (\<lambda>p. post_id p \<notin> S) (a_posts s)\<rparr>"

fun a_step :: "astore \<Rightarrow> request \<Rightarrow> astore" where
  "a_step s (Add_project uid n ds) =
     (let n' = py_strip n in
      if n' = [] \<or> (\<exists>pr\<in>ran (a_projects s). pr_user pr = uid \<and> project_name pr = n') then s
      else a_insert_project s uid n' (py_strip ds))"
| "a_step s (Add_post uid un f) =
     (if f_project f = None \<and> \<not> (\<exists>pr\<in>ran (a_projects s). pr_user pr = uid)
      then a_insert_project s uid (un @ [CHR 0x27] @ ''s Instagram'') ''Default project'' else s)"
| "a_step s (Delete_post uid i) = (if a_owned_post s uid i then a_remove_posts s {i} else s)"
| "a_step s (Delete_multiple uid ids) =
     (if ids \<noteq> [] \<and> distinct ids \<and> list_all (a_owned_post s uid) ids then a_remove_posts s (set ids) else s)"
| "a_step s (Delete_project uid prid) =
     (case a_projects s prid of
        None \<Rightarrow> s
      | Some pr \<Rightarrow>
          if pr_user pr \<noteq> uid then s
          else (a_remove_refs s {i. case a_posts s i of None \<Rightarrow> False | Some p \<Rightarrow> project_id p = prid})
                 \<lparr>a_posts := filter_vals (\<lambda>p. project_id p \<noteq> prid) (a_posts s),
                  a_projects := (a_projects s)(prid := None)\<rparr>)"
| "a_step s (Add_comment uid i t st) =
     (if a_owned_post s uid i \<and> py_strip t \<noteq> [] then
        let c = Suc (a_seq_comment s)
        in s\<lparr>a_comments := (a_comments s)(c \<mapsto>
                \<lparr>cm_id = c, cm_post = i, cm_user = uid, comment_text = py_strip t, created_at = st\<rparr>),
             a_seq_comment := c\<rparr>
      else s)"

fun a_run :: "astore \<Rightarrow> request list \<Rightarrow> astore" where
  "a_run s [] = s"
| "a_run s (r # rs) = a_run (a_step s r) rs"


subsection \<open>Maps keyed by primary key\<close>

lemma key_map_Nil [simp]: "key_map k [] = Map.empty"
  by (simp add: key_map_def)

lemma key_map_Cons: "key_map k (x # xs) = (key_map k xs)(k x \<mapsto> x)"
  by (simp add: key_map_def)

lemma key_map_None: "key_map k xs i = None \<longleftrightarrow> i \<notin> k ` set xs"
  by (induction xs) (auto simp: key_map_Cons)

lemma key_map_Some:
  assumes "distinct (map k xs)"
  shows "key_map k xs i = Some x \<longleftrightarrow> x \<in> set xs \<and> k x = i"
  using assms by (induction xs) (auto simp: key_map_Cons image_iff)

lemma key_map_snoc:
  assumes "k x \<notin> k ` set xs"
  shows "key_map k (xs @ [x]) = (key_map k xs)(k x \<mapsto> x)"
  using assms by (induction xs) (auto simp: key_map_Cons fun_upd_twist)

lemma key_map_filter:
  assumes "distinct (map k xs)"
  shows "key_map k (filter P xs) = filter_vals P (key_map k xs)"
proof
  fix i
  show "key_map k (filter P xs) i = filter_vals P (key_map k xs) i"
    using assms by (induction xs) (auto simp: key_map_Cons filter_vals_def key_map_None)
qed

lemma ran_key_map:
  assumes "distinct (map k xs)" shows "ran (key_map k xs) = set xs"
  using assms by (auto simp: ran_def key_map_Some)

lemma filter_vals_filter_vals:
  "filter_vals P (filter_vals Q m) = filter_vals (\<lambda>v. Q v \<and> P v) m"
  by (rule ext) (simp add: filter_vals_def split: option.split)

lemma filter_vals_cong:
  assumes "\<And>i v. m i = Some v \<Longrightarrow> P v \<longleftrightarrow> Q v"
  shows "filter_vals P m = filter_vals Q m"
  using assms by (intro ext) (simp add: filter_vals_def split: option.split)

subsection \<open>Refinement of each route\<close>

lemma key_map_member:
  "distinct (map k xs) \<Longrightarrow> x \<in> set xs \<Longrightarrow> key_map k xs (k x) = Some x"
  by (simp add: key_map_Some)

lemma key_map_drop_key:
  assumes "distinct (map k xs)"
  shows "filter_vals (\<lambda>x. k x \<noteq> j) (key_map k xs) = (key_map k xs)(j := None)"
  using assms by (intro ext) (auto simp: filter_vals_def key_map_Some key_map_member split: option.split)

lemma owns_post_abs:
  assumes "db_inv d" shows "owns_post d uid p \<longleftrightarrow> a_owns (abs_db d) uid p"
proof (cases "key_map pr_id (db_projects d) (project_id p)")
  case None
  moreover have "project_id p \<notin> pr_id ` set (db_projects d)" using None by (simp add: key_map_None)
  ultimately show ?thesis by (force simp: owns_post_def a_owns_def abs_db_def)
next
  case (Some pr)
  with assms have "pr \<in> set (db_projects d)" "pr_id pr = project_id p"
    by (simp_all add: db_inv_def key_map_Some)
  with Some pr_id_inj [OF assms] show ?thesis by (auto simp: owns_post_def a_owns_def abs_db_def) metis
qed

lemma owned_post_abs:
  assumes "db_inv d"
  shows "(\<exists>p\<in>set (db_posts d). post_id p = i \<and> owns_post d uid p) \<longleftrightarrow> a_owned_post (abs_db d) uid i"
proof (cases "key_map post_id (db_posts d) i")
  case None
  moreover have "i \<notin> post_id ` set (db_posts d)" using None by (simp add: key_map_None)
  ultimately show ?thesis by (auto simp: a_owned_post_def abs_db_def)
next
  case (Some p)
  with assms have "p \<in> set (db_posts d)" "post_id p = i" by (simp_all add: db_inv_def key_map_Some)
  with Some post_id_inj [OF assms] show ?thesis
    by (auto simp: a_owned_post_def owns_post_abs [OF assms] abs_db_def)
qed

lemma delete_post_refines:
  assumes "db_inv d"
  shows "abs_db (snd (delete_post d uid i)) = a_step (abs_db d) (Delete_post uid i)"
  using assms owned_post_abs [OF assms, of i uid, symmetric]
  by (auto simp: delete_post_def purge_post_def purge_refs_def abs_db_def a_remove_posts_def
                 a_remove_refs_def key_map_filter db_inv_def distinct_map_filter)

lemma delete_multiple_refines:
  assumes "db_inv d"
  shows "abs_db (snd (delete_multiple_posts d uid ids)) = a_step (abs_db d) (Delete_multiple uid ids)"
proof -
  have "list_all (a_owned_post (abs_db d) uid) ids \<longleftrightarrow>
        (\<forall>i\<in>set ids. \<exists>p\<in>set (db_posts d). post_id p = i \<and> owns_post d uid p)"
    using owned_post_abs [OF assms] by (simp add: list_all_iff)
  then show ?thesis using assms
    by (auto simp: delete_multiple_posts_eq [OF assms] abs_db_def a_remove_posts_def a_remove_refs_def
                   key_map_filter db_inv_def distinct_map_filter)
qed

lemma owns_project_abs:
  assumes "db_inv d"
  shows "(\<exists>pr\<in>set (user_projects d uid). pr_id pr = prid) \<longleftrightarrow>
         (case a_projects (abs_db d) prid of None \<Rightarrow> False | Some pr \<Rightarrow> pr_user pr = uid)"
proof (cases "key_map pr_id (db_projects d) prid")
  case None
  moreover have "prid \<notin> pr_id ` set (db_projects d)" using None by (simp add: key_map_None)
  ultimately show ?thesis by (force simp: user_projects_def abs_db_def)
next
  case (Some pr)
  with assms have "pr \<in> set (db_projects d)" "pr_id pr = prid" by (simp_all add: db_inv_def key_map_Some)
  with Some pr_id_inj [OF assms] show ?thesis by (auto simp: user_projects_def abs_db_def)
qed

lemma project_post_ids:
  assumes "db_inv d"
  shows "set (map post_id (filter (\<lambda>p. project_id p = prid) (db_posts d))) =
         {i. case a_posts (abs_db d) i of None \<Rightarrow> False | Some p \<Rightarrow> project_id p = prid}"
  using assms by (auto simp: abs_db_def db_inv_def key_map_Some key_map_member split: option.splits)
    (metis post_id_inj [OF assms])

lemma delete_project_refines:
  assumes "db_inv d"
  shows "abs_db (snd (delete_project d uid prid)) = a_step (abs_db d) (Delete_project uid prid)"
proof (cases "\<exists>pr\<in>set (user_projects d uid). pr_id pr = prid")
  case True
  then obtain pr where pr: "a_projects (abs_db d) prid = Some pr" "pr_user pr = uid"
    using owns_project_abs [OF assms, of uid prid] by (auto split: option.splits)
  have dp: "distinct (map pr_id (db_projects d))" "distinct (map post_id (db_posts d))"
    "distinct (map tag_id (db_hashtags d))" "distinct (map cm_id (db_comments d))"
    using assms by (simp_all add: db_inv_def)
  have "key_map pr_id (filter (\<lambda>pr. pr_id pr \<noteq> prid) (db_projects d)) = (key_map pr_id (db_projects d))(prid := None)"
    using dp(1) by (simp add: key_map_filter key_map_drop_key)
  with True pr dp project_post_ids [OF assms, of prid, symmetric] show ?thesis
    by (simp add: delete_project_def Let_def foldl_purge_refs abs_db_def a_remove_refs_def key_map_filter
                  distinct_map_filter)
next
  case False
  then show ?thesis using owns_project_abs [OF assms, of uid prid]
    by (auto simp: delete_project_def split: option.splits)
qed

lemma insert_project_refines:
  assumes "db_inv d"
  shows "abs_db (snd (insert_project d uid n ds)) = a_insert_project (abs_db d) uid n ds"
proof -
  have "Suc (seq_project d) \<notin> pr_id ` set (db_projects d)"
    using assms fresh_not_in [of "db_projects d" pr_id "seq_project d"] by (simp add: db_inv_def)
  then show ?thesis
    by (simp add: insert_project_def a_insert_project_def abs_db_def Let_def key_map_snoc)
qed

lemma ran_projects_abs:
  "db_inv d \<Longrightarrow> ran (a_projects (abs_db d)) = set (db_projects d)"
  by (simp add: abs_db_def db_inv_def ran_key_map)

lemma add_project_refines:
  assumes "db_inv d"
  shows "abs_db (snd (add_project d uid n ds)) = a_step (abs_db d) (Add_project uid n ds)"
  using assms insert_project_refines [OF assms]
  by (auto simp: add_project_def Let_def ran_projects_abs user_projects_def)

lemma add_post_refines:
  assumes "db_inv d"
  shows "abs_db (snd (add_post d uid un f)) = a_step (abs_db d) (Add_post uid un f)"
  using assms insert_project_refines [OF assms]
  by (auto simp: add_post_state ran_projects_abs user_projects_def filter_empty_conv)

lemma add_comment_refines:
  assumes "db_inv d"
  shows "abs_db (snd (add_comment d uid i t st)) = a_step (abs_db d) (Add_comment uid i t st)"
proof -
  have vis: "(\<exists>p\<in>set (db_posts d). post_id p = i \<and> comment_visible d uid p) \<longleftrightarrow> a_owned_post (abs_db d) uid i"
    using owned_post_abs [OF assms] comment_visible_eq_owns [OF assms] by simp
  have "Suc (seq_comment d) \<notin> cm_id ` set (db_comments d)"
    using assms fresh_not_in [of "db_comments d" cm_id "seq_comment d"] by (simp add: db_inv_def)
  then show ?thesis using vis
    by (auto simp: add_comment_def Let_def abs_db_def key_map_snoc)
qed

lemma handle_refines:
  "db_inv d \<Longrightarrow> abs_db (snd (handle d r)) = a_step (abs_db d) r"
  by (cases r) (simp_all add: add_project_refines add_post_refines delete_post_refines
                              delete_multiple_refines delete_project_refines add_comment_refines)


subsection \<open>Erasing a user's data\<close>

lemma delete_project_owned:
  assumes "\<exists>pr\<in>set (user_projects d uid). pr_id pr = prid"
  shows "db_projects (snd (delete_project d uid prid)) = filter (\<lambda>pr. pr_id pr \<noteq> prid) (db_projects d) \<and>
         db_posts (snd (delete_project d uid prid)) = filter (\<lambda>p. project_id p \<noteq> prid) (db_posts d)"
  using assms by (simp add: delete_project_def Let_def foldl_purge_refs)

lemma run_delete_projects:
  assumes "db_inv d" "distinct ids" "set ids \<subseteq> pr_id ` set (user_projects d uid)"
  shows "db_projects (run d (map (Delete_project uid) ids)) = filter (\<lambda>pr. pr_id pr \<notin> set ids) (db_projects d) \<and>
         db_posts (run d (map (Delete_project uid) ids)) = filter (\<lambda>p. project_id p \<notin> set ids) (db_posts d)"
  using assms
proof (induction ids arbitrary: d)
  case (Cons i ids)
  let ?d1 = "snd (delete_project d uid i)"
  have own: "\<exists>pr\<in>set (user_projects d uid). pr_id pr = i" using Cons.prems(3) by auto
  have eff: "db_projects ?d1 = filter (\<lambda>pr. pr_id pr \<noteq> i) (db_projects d)"
            "db_posts ?d1 = filter (\<lambda>p. project_id p \<noteq> i) (db_posts d)"
    using delete_project_owned [OF own] by simp_all
  have "db_inv ?d1" using Cons.prems(1) by (rule delete_project_inv)
  moreover have "set ids \<subseteq> pr_id ` set (user_projects ?d1 uid)"
  proof
    fix x assume x: "x \<in> set ids"
    then obtain pr where "pr \<in> set (user_projects d uid)" "pr_id pr = x" using Cons.prems(3) by auto
    moreover have "x \<noteq> i" using x Cons.prems(2) by auto
    ultimately show "x \<in> pr_id ` set (user_projects ?d1 uid)"
      using eff(1) by (auto simp: user_projects_def image_iff)
  qed
  ultimately have ih: "db_projects (run ?d1 (map (Delete_project uid) ids)) =
                         filter (\<lambda>pr. pr_id pr \<notin> set ids) (db_projects ?d1) \<and>
                       db_posts (run ?d1 (map (Delete_project uid) ids)) =
                         filter (\<lambda>p. project_id p \<notin> set ids) (db_posts ?d1)"
    using Cons.IH Cons.prems(2) by simp
  show ?case using ih eff by (simp add: conj_commute)
qed simp


subsection \<open>Properties\<close>

text \<open>
  C13. Refinement: on a well-formed database every sequence of requests
  moves the list-based database exactly as the map specification \<open>a_run\<close>
  moves its abstraction; each route's filters over the table lists
  implement the lookups and map updates of \<open>a_step\<close>.
\<close>

theorem run_refines:
  "db_inv d \<Longrightarrow> abs_db (run d rs) = a_run (abs_db d) rs"
  by (induction rs arbitrary: d) (simp_all add: handle_refines handle_inv)

theorem run_refines_witness:
  "db_inv example_db \<and>
   abs_db (run example_db [Delete_post 2 1, Add_comment 1 1 ''ok'' ''t'']) =
     a_run (abs_db example_db) [Delete_post 2 1, Add_comment 1 1 ''ok'' ''t'']"
proof -
  have i: "db_inv example_db"
    by (simp add: db_inv_def example_db_def empty_db_def example_post_def blank_post_def)
  show ?thesis using run_refines [OF i] i by blast
qed

text \<open>
  C15. A user can always erase their data: from every well-formed
  database some sequence of the user's own requests (one \<open>Delete_project\<close>
  per project) reaches a state where the user has no project left, and the
  posts left are exactly those of the other users.
\<close>

theorem user_can_erase:
  assumes "db_inv d"
  shows "\<exists>rs. list_all (\<lambda>r. request_user r = uid) rs \<and> user_projects (run d rs) uid = [] \<and>
              db_posts (run d rs) = filter (\<lambda>p. \<not> owns_post d uid p) (db_posts d)"
proof (intro exI conjI)
  let ?ids = "map pr_id (user_projects d uid)"
  have dist: "distinct ?ids"
    using assms by (simp add: db_inv_def user_projects_def distinct_map_filter)
  have r: "db_projects (run d (map (Delete_project uid) ?ids)) = filter (\<lambda>pr. pr_id pr \<notin> set ?ids) (db_projects d) \<and>
           db_posts (run d (map (Delete_project uid) ?ids)) = filter (\<lambda>p. project_id p \<notin> set ?ids) (db_posts d)"
    using run_delete_projects [OF assms dist] by simp
  show "list_all (\<lambda>r. request_user r = uid) (map (Delete_project uid) ?ids)"
    by (simp add: list_all_iff)
  show "user_projects (run d (map (Delete_project uid) ?ids)) uid = []"
    using r by (auto simp: user_projects_def filter_empty_conv)
  have "filter (\<lambda>p. project_id p \<notin> set ?ids) (db_posts d) = filter (\<lambda>p. \<not> owns_post d uid p) (db_posts d)"
    by (rule filter_cong) (simp_all add: owns_post_user_projects)
  then show "db_posts (run d (map (Delete_project uid) ?ids)) = filter (\<lambda>p. \<not> owns_post d uid p) (db_posts d)"
    using r by simp
qed

theorem user_can_erase_witness:
  "db_inv example_db \<and>
   (\<exists>rs. list_all (\<lambda>r. request_user r = 1) rs \<and> user_projects (run example_db rs) 1 = [] \<and>
         db_posts (run example_db rs) = filter (\<lambda>p. \<not> owns_post example_db 1 p) (db_posts example_db))"
proof -
  have i: "db_inv example_db"
    by (simp add: db_inv_def example_db_def empty_db_def example_post_def blank_post_def)
  show ?thesis using user_can_erase [OF i, of 1] i by blast
qed

end
