(* ===== verification/Prediction.thy ===== *)
theory Prediction
  imports Posts
begin

text \<open>
  The performance predictor, \<open>predict_post_performance\<close> in \<open>src/app.py\<close>.
  Two aggregate queries over the posts in scope: the "similar" posts (same
  \<open>post_type\<close>, same posting hour read by \<open>CAST(substr(post_time, 1, 2) AS
  INTEGER)\<close>, same \<open>caption_category\<close>; a \<open>NULL\<close> category never matches)
  with their average score, average weighted engagement and count, and the
  baseline averages over all posts in scope.  With at least three similar
  posts their averages are the prediction; otherwise the baseline, where
  Python's \<open>baseline or 20\<close> (and \<open>or 5\<close>) falls back on \<open>NULL\<close> and on an
  average of exactly \<open>0.0\<close>.
\<close>

record prediction =
  predicted_score :: real
  predicted_engagement :: real
  confidence :: int
  similar_posts :: nat

definition similar_to :: "string \<Rightarrow> int \<Rightarrow> string \<Rightarrow> post \<Rightarrow> bool" where
  "similar_to ptype hour category p \<longleftrightarrow>
     post_type p = ptype \<and> hour_of (post_time p) = hour \<and> caption_category p = Some category"

definition predict_post_performance ::
  "string \<Rightarrow> int \<Rightarrow> string \<Rightarrow> nat list \<Rightarrow> post list \<Rightarrow> prediction" where
  "predict_post_performance ptype hour category pids ps =
     (let window = scoped pids ps;
          similar = filter (similar_to ptype hour category) window;
          similar_count = length similar;
          base_score = sql_avg (map performance_score window);
          base_engagement = sql_avg (map engagement_rate_weighted window)
      in if 3 \<le> similar_count then
           \<lparr>predicted_score = py_round 1 (mean (map performance_score similar)),
            predicted_engagement = py_round 2 (mean (map engagement_rate_weighted similar)),
            confidence = min 95 (50 + int similar_count * 5),
            similar_posts = similar_count\<rparr>
         else
           \<lparr>predicted_score = py_round 1 (py_or base_score 20),
            predicted_engagement = py_round 2 (py_or base_engagement 5),
            confidence = 30,
            similar_posts = similar_count\<rparr>)"

lemma predict_similar_branch:
  assumes "3 \<le> length (filter (similar_to t h c) (scoped pids ps))"
  shows "predict_post_performance t h c pids ps =
    (let similar = filter (similar_to t h c) (scoped pids ps) in
     \<lparr>predicted_score = py_round 1 (mean (map performance_score similar)),
      predicted_engagement = py_round 2 (mean (map engagement_rate_weighted similar)),
      confidence = min 95 (50 + int (length similar) * 5),
      similar_posts = length similar\<rparr>)"
  using assms by (simp add: predict_post_performance_def Let_def)

lemma predict_baseline_branch:
  assumes "length (filter (similar_to t h c) (scoped pids ps)) < 3"
  shows "predict_post_performance t h c pids ps =
     \<lparr>predicted_score = py_round 1 (py_or (sql_avg (map performance_score (scoped pids ps))) 20),
      predicted_engagement =
        py_round 2 (py_or (sql_avg (map engagement_rate_weighted (scoped pids ps))) 5),
      confidence = 30,
      similar_posts = length (filter (similar_to t h c) (scoped pids ps))\<rparr>"
  using assms by (simp add: predict_post_performance_def Let_def)


lemma predict_scoped:
  "predict_post_performance t h c pids ps = predict_post_performance t h c pids (scoped pids ps)"
  by (simp add: predict_post_performance_def)

subsection \<open>Properties\<close>

text \<open>
  C28. Cold start: with no post in scope the prediction is the fixed prior,
  score 20, engagement 5, confidence 30, built on no similar post.
\<close>

theorem predict_cold_start:
  assumes "scoped pids ps = []"
  shows "predict_post_performance t h c pids ps =
    \<lparr>predicted_score = 20, predicted_engagement = 5, confidence = 30, similar_posts = 0\<rparr>"
proof -
  have "length (filter (similar_to t h c) (scoped pids ps)) < 3" using assms by simp
  then show ?thesis using assms
    by (simp add: predict_baseline_branch py_or_def py_round_def round_half_even_def)
qed

theorem predict_cold_start_witness:
  "scoped [1] [] = [] \<and>
   predict_post_performance ''Reel'' 12 ''Educational'' [1] [] =
     \<lparr>predicted_score = 20, predicted_engagement = 5, confidence = 30, similar_posts = 0\<rparr>"
  using predict_cold_start [of "[1]" "[]" "''Reel''" 12 "''Educational''"] by simp

text \<open>
  The confidence is 30 on the baseline branch and \<open>min 95 (50 + 5n)\<close>
  with \<open>n \<ge> 3\<close> similar posts: always 30 or between 65 and 95.
\<close>

theorem predict_confidence_range:
  "confidence (predict_post_performance t h c pids ps) = 30 \<or>
   (65 \<le> confidence (predict_post_performance t h c pids ps) \<and>
    confidence (predict_post_performance t h c pids ps) \<le> 95)"
  by (simp add: predict_post_performance_def Let_def)

text \<open>
  C29. Python's \<open>baseline['avg_score'] or 20\<close> also replaces an average of
  exactly 0.0: a non-empty history whose scores sum to 0, with fewer than three
  similar posts, is predicted to score 20, like an empty history.
\<close>

theorem predict_zero_average:
  assumes "scoped pids ps \<noteq> []" "length (filter (similar_to t h c) (scoped pids ps)) < 3"
    and "sum_list (map performance_score (scoped pids ps)) = 0"
  shows "predicted_score (predict_post_performance t h c pids ps) = 20"
  using assms by (simp add: predict_baseline_branch py_or_def mean_def sql_avg_def
                            py_round_def round_half_even_def)

theorem predict_zero_average_witness:
  "scoped [1] [blank_post\<lparr>project_id := 1\<rparr>] \<noteq> [] \<and>
   length (filter (similar_to ''Reel'' 12 ''Educational'') (scoped [1] [blank_post\<lparr>project_id := 1\<rparr>])) < 3 \<and>
   sum_list (map performance_score (scoped [1] [blank_post\<lparr>project_id := 1\<rparr>])) = 0 \<and>
   predicted_score (predict_post_performance ''Reel'' 12 ''Educational'' [1] [blank_post\<lparr>project_id := 1\<rparr>]) = 20"
proof -
  have s: "scoped [1] [blank_post\<lparr>project_id := 1\<rparr>] = [blank_post\<lparr>project_id := 1\<rparr>]"
    by (simp add: scoped_def)
  have f: "length (filter (similar_to ''Reel'' 12 ''Educational'') (scoped [1] [blank_post\<lparr>project_id := 1\<rparr>])) < 3"
    unfolding s by simp
  have z: "sum_list (map performance_score (scoped [1] [blank_post\<lparr>project_id := 1\<rparr>])) = 0"
    unfolding s by (simp add: blank_post_def)
  show ?thesis using predict_zero_average [OF _ f z] s f z by simp
qed

text \<open>
  C30. With three or more similar posts the predicted score lies between the
  rounded least and greatest score of those posts.
\<close>

theorem predict_similar_bounds:
  assumes "3 \<le> length (filter (similar_to t h c) (scoped pids ps))"
  shows "py_round 1 (Min (performance_score ` set (filter (similar_to t h c) (scoped pids ps))))
           \<le> predicted_score (predict_post_performance t h c pids ps) \<and>
         predicted_score (predict_post_performance t h c pids ps)
           \<le> py_round 1 (Max (performance_score ` set (filter (similar_to t h c) (scoped pids ps))))"
proof -
  let ?xs = "map performance_score (filter (similar_to t h c) (scoped pids ps))"
  have ne: "?xs \<noteq> []" using assms by auto
  have "predicted_score (predict_post_performance t h c pids ps) = py_round 1 (mean ?xs)"
    using assms by (simp add: predict_similar_branch Let_def)
  moreover have "Min (set ?xs) \<le> mean ?xs" "mean ?xs \<le> Max (set ?xs)"
    using ne by (rule mean_ge_Min, rule mean_le_Max)
  ultimately show ?thesis by (simp add: py_round_mono)
qed

theorem predict_similar_bounds_witness:
  "3 \<le> length (filter (similar_to ''Image'' 12 ''Edu'')
          (scoped [1] [blank_post\<lparr>project_id := 1, caption_category := Some ''Edu'', performance_score := 1\<rparr>,
                       blank_post\<lparr>project_id := 1, caption_category := Some ''Edu'', performance_score := 2\<rparr>,
                       blank_post\<lparr>project_id := 1, caption_category := Some ''Edu'', performance_score := 6\<rparr>])) \<and>
   predicted_score (predict_post_performance ''Image'' 12 ''Edu'' [1]
          [blank_post\<lparr>project_id := 1, caption_category := Some ''Edu'', performance_score := 1\<rparr>,
           blank_post\<lparr>project_id := 1, caption_category := Some ''Edu'', performance_score := 2\<rparr>,
           blank_post\<lparr>project_id := 1, caption_category := Some ''Edu'', performance_score := 6\<rparr>]) = 3 \<and>
   py_round 1 1 \<le> (3::real) \<and> (3::real) \<le> py_round 1 6"
proof -
  let ?ps = "[blank_post\<lparr>project_id := 1, caption_category := Some ''Edu'', performance_score := 1\<rparr>,
              blank_post\<lparr>project_id := 1, caption_category := Some ''Edu'', performance_score := 2\<rparr>,
              blank_post\<lparr>project_id := 1, caption_category := Some ''Edu'', performance_score := 6\<rparr>]"
  have hr: "hour_of ''12:00'' = 12" by code_simp
  have s: "filter (similar_to ''Image'' 12 ''Edu'') (scoped [1] ?ps) = ?ps"
    by (simp add: scoped_def similar_to_def blank_post_def hr)
  have l: "3 \<le> length (filter (similar_to ''Image'' 12 ''Edu'') (scoped [1] ?ps))" unfolding s by simp
  have p: "predicted_score (predict_post_performance ''Image'' 12 ''Edu'' [1] ?ps) = 3"
    unfolding predict_similar_branch [OF l] s Let_def
    by (simp add: mean_def py_round_def round_half_even_def)
  show ?thesis using predict_similar_bounds [OF l] l p by (simp add: s py_round_def round_half_even_def)
qed

end
