(* ===== verification/Trends.thy ===== *)
theory Trends
  imports Posts
begin

text \<open>
  The growth-trend analyzer, \<open>analyze_growth_trends\<close> in \<open>src/app.py\<close>.
  The query groups the posts in scope by \<open>strftime('%Y-%m', post_date)\<close> in
  ascending month order; each row carries the month's average score, average
  weighted engagement, sum of followers gained and post count.  With fewer than
  two months the result is the "insufficient data" report; otherwise the last
  two rows are compared.  The two percentage changes divide by the previous
  month's averages, which raises \<open>ZeroDivisionError\<close> when one of them is
  \<open>0.0\<close>: the model returns \<open>Inl ZeroDivisionError\<close>.  Insight strings are
  modelled by the message they carry (\<open>f"{x:.1f}"\<close> formatting is not).
\<close>

datatype trend = Improving | Declining | Stable

datatype insight =
    Performance_improved real
  | Performance_declined real
  | Engagement_up real
  | Engagement_down real

datatype trend_report =
    Insufficient_data
  | Growth_report trend real real "insight list"

record month_row =
  month :: "int \<times> int"
  avg_score :: real
  avg_engagement :: real
  followers_sum :: int
  post_count :: nat

definition month_row_of :: "(int \<times> int) \<times> post list \<Rightarrow> month_row" where
  "month_row_of kg = (case kg of (k, g) \<Rightarrow>
     \<lparr>month = k, avg_score = mean (map performance_score g),
      avg_engagement = mean (map engagement_rate_weighted g),
      followers_sum = sum_list (map followers_gained g), post_count = length g\<rparr>)"

definition monthly_growth :: "nat list \<Rightarrow> post list \<Rightarrow> month_row list" where
  "monthly_growth pids ps = map month_row_of (group_by (\<lambda>p. month_key (post_date p)) (scoped pids ps))"

definition classify :: "real \<Rightarrow> trend" where
  "classify score_change =
     (if 5 < score_change then Improving else if score_change < -5 then Declining else Stable)"

definition score_insights :: "real \<Rightarrow> insight list" where
  "score_insights c =
     (if 10 < c then [Performance_improved c]
      else if c < -10 then [Performance_declined \<bar>c\<bar>] else [])"

definition engagement_insights :: "real \<Rightarrow> insight list" where
  "engagement_insights c =
     (if 15 < c then [Engagement_up c]
      else if c < -15 then [Engagement_down \<bar>c\<bar>] else [])"

text \<open>\<open>((recent - previous) / previous) * 100\<close>, raising on \<open>previous = 0\<close>.\<close>

definition pct_change :: "real \<Rightarrow> real \<Rightarrow> py_error + real" where
  "pct_change recent previous =
     (if previous = 0 then Inl ZeroDivisionError else Inr ((recent - previous) / previous * 100))"

definition analyze_growth_trends :: "nat list \<Rightarrow> post list \<Rightarrow> py_error + trend_report" where
  "analyze_growth_trends pids ps =
     (let rows = monthly_growth pids ps in
      if length rows < 2 then Inr Insufficient_data
      else
        let recent = rows ! (length rows - 1); previous = rows ! (length rows - 2) in
        case pct_change (avg_score recent) (avg_score previous) of
          Inl e \<Rightarrow> Inl e
        | Inr score_change \<Rightarrow>
            case pct_change (avg_engagement recent) (avg_engagement previous) of
              Inl e \<Rightarrow> Inl e
            | Inr engagement_change \<Rightarrow>
                Inr (Growth_report (classify score_change)
                       (py_round 1 score_change) (py_round 1 engagement_change)
                       (score_insights score_change @ engagement_insights engagement_change)))"

lemma length_monthly_growth:
  "length (monthly_growth pids ps) = card ((\<lambda>p. month_key (post_date p)) ` set (scoped pids ps))"
  by (simp add: monthly_growth_def group_by_length)

lemma pct_change_Inr: "previous \<noteq> 0 \<Longrightarrow> pct_change recent previous = Inr ((recent - previous) / previous * 100)"
  by (simp add: pct_change_def)


lemma analyze_growth_trends_Inl:
  "analyze_growth_trends pids ps = Inl e \<Longrightarrow> e = ZeroDivisionError"
  by (auto simp: analyze_growth_trends_def Let_def pct_change_def split: sum.splits if_splits)

subsection \<open>Properties\<close>

text \<open>
  C31. The report is "insufficient data" exactly when the posts in scope fall
  into fewer than two calendar months.
\<close>

theorem trends_insufficient_iff:
  "analyze_growth_trends pids ps = Inr Insufficient_data \<longleftrightarrow>
   card ((\<lambda>p. month_key (post_date p)) ` set (scoped pids ps)) < 2"
  by (auto simp: analyze_growth_trends_def Let_def length_monthly_growth [symmetric]
           split: sum.splits)

text \<open>
  C32. The unguarded division: with two or more months the analysis raises
  \<open>ZeroDivisionError\<close> exactly when the previous month's average score or
  average weighted engagement is 0.
\<close>

theorem trends_zero_division:
  "analyze_growth_trends pids ps = Inl ZeroDivisionError \<longleftrightarrow>
   (let rows = monthly_growth pids ps; previous = rows ! (length rows - 2) in
    2 \<le> length rows \<and> (avg_score previous = 0 \<or> avg_engagement previous = 0))"
  by (auto simp: analyze_growth_trends_def Let_def pct_change_def split: sum.splits)

end
