(* ===== verification/Alerts.thy ===== *)
theory Alerts
  imports Posts
begin

text \<open>
  The alert engine, \<open>check_performance_alerts\<close> in \<open>src/app.py\<close>.  The
  recent posts are those with \<open>date(post_date) >= date('now', '-7 days')\<close>,
  newest first; the historical baseline is the average score of the posts
  before that bound.  The function returns no alerts when there is no recent
  post, and none when the baseline is \<open>NULL\<close> or \<open>0.0\<close> (Python's
  \<open>not avg\<close>).  Otherwise each recent post is compared with the baseline,
  then one frequency check runs on the number of recent posts.  Both queries
  read \<open>now\<close>; the model evaluates them at the same instant.  Alert
  descriptions (formatted floats) are not modelled; titles are.
\<close>

datatype alert_kind = Underperforming | Outperforming | Frequency_alert

record alert =
  alert_kind :: alert_kind
  alert_priority :: priority
  alert_post_id :: "nat option"
  alert_title :: string
  alert_date :: "date option"
  caption_preview :: "string option"

text \<open>
  \<open>post['caption'][:40] + '...' if post['caption'] else 'No caption'\<close>:
  the conditional binds weaker than \<open>+\<close>, so \<open>'...'\<close> is appended to every
  non-empty caption.
\<close>

definition caption_preview_of :: "string option \<Rightarrow> string" where
  "caption_preview_of c =
     (case c of None \<Rightarrow> ''No caption''
      | Some s \<Rightarrow> if s = [] then ''No caption'' else take 40 s @ ''...'')"

definition window_start :: "instant \<Rightarrow> date option" where
  "window_start now = sqlite_date_now now ''-7 days''"

definition recent_posts :: "instant \<Rightarrow> nat list \<Rightarrow> post list \<Rightarrow> post list" where
  "recent_posts now pids ps =
     (case window_start now of
        None \<Rightarrow> []
      | Some b \<Rightarrow> sort_desc post_date (filter (\<lambda>p. b \<le> post_date p) (scoped pids ps)))"

definition historical_posts :: "instant \<Rightarrow> nat list \<Rightarrow> post list \<Rightarrow> post list" where
  "historical_posts now pids ps =
     (case window_start now of
        None \<Rightarrow> []
      | Some b \<Rightarrow> filter (\<lambda>p. post_date p < b) (scoped pids ps))"

definition post_alert :: "real \<Rightarrow> post \<Rightarrow> alert list" where
  "post_alert avg p =
     (if performance_score p < avg * 0.7 then
        [\<lparr>alert_kind = Underperforming, alert_priority = Medium, alert_post_id = Some (post_id p),
          alert_title = post_type p @ '' underperforming'', alert_date = Some (post_date p),
          caption_preview = Some (caption_preview_of (caption p))\<rparr>]
      else if avg * 1.5 < performance_score p then
        [\<lparr>alert_kind = Outperforming, alert_priority = Low, alert_post_id = Some (post_id p),
          alert_title = post_type p @ '' is a hit!'', alert_date = Some (post_date p),
          caption_preview = Some (caption_preview_of (caption p))\<rparr>]
      else [])"

definition frequency_alerts :: "nat \<Rightarrow> alert list" where
  "frequency_alerts n =
     (if n = 0 then
        [\<lparr>alert_kind = Frequency_alert, alert_priority = High, alert_post_id = None,
          alert_title = ''No posts this week'', alert_date = None, caption_preview = None\<rparr>]
      else if n = 1 then
        [\<lparr>alert_kind = Frequency_alert, alert_priority = Medium, alert_post_id = None,
          alert_title = ''Low posting frequency'', alert_date = None, caption_preview = None\<rparr>]
      else [])"

definition check_performance_alerts :: "instant \<Rightarrow> nat list \<Rightarrow> post list \<Rightarrow> alert list" where
  "check_performance_alerts now pids ps =
     (let recent = recent_posts now pids ps in
      if recent = [] then []
      else
        case sql_avg (map performance_score (historical_posts now pids ps)) of
          None \<Rightarrow> []
        | Some avg \<Rightarrow>
            if avg = 0 then []
            else concat (map (post_alert avg) recent) @ frequency_alerts (length recent))"

lemma check_alerts_cases:
  assumes "a \<in> set (check_performance_alerts now pids ps)"
  obtains avg where "recent_posts now pids ps \<noteq> []"
    and "sql_avg (map performance_score (historical_posts now pids ps)) = Some avg" and "avg \<noteq> 0"
    and "a \<in> set (concat (map (post_alert avg) (recent_posts now pids ps)))
         \<or> a \<in> set (frequency_alerts (length (recent_posts now pids ps)))"
proof (cases "sql_avg (map performance_score (historical_posts now pids ps))")
  case None
  with assms show ?thesis by (simp add: check_performance_alerts_def Let_def split: if_splits)
next
  case (Some avg)
  with assms show ?thesis
    by (intro that [of avg]) (auto simp: check_performance_alerts_def Let_def split: if_splits)
qed

lemma post_alert_cases:
  assumes "a \<in> set (post_alert avg p)"
  shows "(alert_kind a = Underperforming \<and> alert_priority a = Medium \<and>
          performance_score p < avg * 0.7) \<or>
         (alert_kind a = Outperforming \<and> alert_priority a = Low \<and>
          \<not> performance_score p < avg * 0.7 \<and> avg * 1.5 < performance_score p)"
  using assms by (auto simp: post_alert_def split: if_splits)


subsection \<open>Properties\<close>

text \<open>
  C33. Without a historical post (none older than the seven-day window) there
  is no baseline and no alert at all, however many recent posts there are.
\<close>

theorem alerts_no_baseline:
  assumes "historical_posts now pids ps = []"
  shows "check_performance_alerts now pids ps = []"
  using assms by (simp add: check_performance_alerts_def Let_def)

theorem alerts_no_baseline_witness:
  "historical_posts ((2024, 3, 10), 0) [1] [] = [] \<and>
   check_performance_alerts ((2024, 3, 10), 0) [1] [] = []"
proof -
  have h: "historical_posts ((2024, 3, 10), 0) [1] [] = []"
    by (simp add: historical_posts_def split: option.split)
  show ?thesis using alerts_no_baseline [OF h] h by simp
qed

text \<open>
  C34. The high-priority "No posts this week" alert is dead code: the function
  returns before it when there is no recent post, so no alert it returns has
  priority High.
\<close>

theorem alerts_never_high:
  "High \<notin> alert_priority ` set (check_performance_alerts now pids ps)"
proof
  assume "High \<in> alert_priority ` set (check_performance_alerts now pids ps)"
  then obtain a where a: "a \<in> set (check_performance_alerts now pids ps)" "alert_priority a = High"
    by (auto simp: image_iff)
  from a(1) obtain avg where ne: "recent_posts now pids ps \<noteq> []"
    and "sql_avg (map performance_score (historical_posts now pids ps)) = Some avg" and "avg \<noteq> 0"
    and cases: "a \<in> set (concat (map (post_alert avg) (recent_posts now pids ps)))
       \<or> a \<in> set (frequency_alerts (length (recent_posts now pids ps)))"
    by (rule check_alerts_cases)
  from cases a(2) ne show False
    by (auto dest: post_alert_cases simp: frequency_alerts_def split: if_splits)
qed

text \<open>
  C35. The caption preview appends \<open>...\<close> to every non-empty caption, also to
  one of 40 characters or fewer that was not truncated.
\<close>

theorem caption_preview_short:
  assumes "s \<noteq> []" "length s \<le> 40"
  shows "caption_preview_of (Some s) = s @ ''...''"
  using assms by (simp add: caption_preview_of_def)

theorem caption_preview_short_witness:
  "''Hi'' \<noteq> [] \<and> length ''Hi'' \<le> 40 \<and> caption_preview_of (Some ''Hi'') = ''Hi...''"
  using caption_preview_short [of "''Hi''"] by simp

end
