(* ===== verification/Recommendations.thy ===== *)
theory Recommendations
  imports Posts
begin

text \<open>
  The recommendation engine, \<open>generate_smart_recommendations\<close> in
  \<open>src/app.py\<close>: four heuristics over the posts in scope, each giving at
  most one recommendation, concatenated in the order of the code (timing,
  content type, caption length, posting frequency).  Every \<open>GROUP BY ...
  ORDER BY agg DESC\<close> query is \<open>group_by\<close> followed by \<open>sort_desc\<close> of the
  aggregate.  Titles with formatted floats are modelled by the data they
  carry (\<open>advice\<close>).
\<close>

datatype rec_kind = Timing | Content | Caption_rec | Frequency

datatype advice =
    Best_hour int real nat
  | Focus_type string real string real
  | Best_caption_length string real
  | Post_more real
  | Quality_over_quantity real

record recommendation =
  rec_type :: rec_kind
  rec_priority :: priority
  rec_advice :: advice

text \<open>A group row \<open>(key, AVG(metric), COUNT(*))\<close>.\<close>

definition group_rows ::
  "(post \<Rightarrow> 'k::linorder) \<Rightarrow> (post \<Rightarrow> real) \<Rightarrow> post list \<Rightarrow> ('k \<times> real \<times> nat) list" where
  "group_rows key metric ps =
     map (\<lambda>(k, g). (k, mean (map metric g), length g)) (group_by key ps)"

definition row_avg :: "'k \<times> real \<times> nat \<Rightarrow> real" where
  "row_avg r = fst (snd r)"

definition row_count :: "'k \<times> real \<times> nat \<Rightarrow> nat" where
  "row_count r = snd (snd r)"

subsection \<open>Best posting time\<close>

text \<open>\<open>GROUP BY hour HAVING post_count >= 2 ORDER BY avg_engagement DESC LIMIT 3\<close>.\<close>

definition best_times :: "post list \<Rightarrow> (int \<times> real \<times> nat) list" where
  "best_times window =
     take 3 (sort_desc row_avg
       (filter (\<lambda>r. 2 \<le> row_count r)
          (group_rows (\<lambda>p. hour_of (post_time p)) engagement_rate_weighted window)))"

definition timing_recommendation :: "post list \<Rightarrow> recommendation list" where
  "timing_recommendation window =
     (case best_times window of
        [] \<Rightarrow> []
      | (h, a, c) # _ \<Rightarrow> [\<lparr>rec_type = Timing, rec_priority = High, rec_advice = Best_hour h a c\<rparr>])"

subsection \<open>Content type\<close>

definition content_performance :: "post list \<Rightarrow> (string \<times> real \<times> nat) list" where
  "content_performance window = sort_desc row_avg (group_rows post_type performance_score window)"

definition content_recommendation :: "post list \<Rightarrow> recommendation list" where
  "content_recommendation window =
     (let rows = content_performance window in
      if 1 < length rows then
        (let best = hd rows; worst = last rows in
         if row_avg worst * 1.2 < row_avg best then
           [\<lparr>rec_type = Content, rec_priority = Medium,
             rec_advice = Focus_type (fst best) (row_avg best) (fst worst) (row_avg worst)\<rparr>]
         else [])
      else [])"

subsection \<open>Caption length\<close>

definition length_bucket :: "string \<Rightarrow> string" where
  "length_bucket s = (if length s < 50 then ''Short'' else if length s < 150 then ''Medium'' else ''Long'')"

definition caption_bucket :: "post \<Rightarrow> string" where
  "caption_bucket p = (case caption p of None \<Rightarrow> [] | Some s \<Rightarrow> length_bucket s)"

definition caption_analysis :: "post list \<Rightarrow> (string \<times> real \<times> nat) list" where
  "caption_analysis window =
     sort_desc row_avg
       (group_rows caption_bucket engagement_rate_weighted
          (filter (\<lambda>p. caption p \<noteq> None) window))"

definition caption_recommendation :: "post list \<Rightarrow> recommendation list" where
  "caption_recommendation window =
     (case caption_analysis window of
        [] \<Rightarrow> []
      | r # _ \<Rightarrow> if 3 \<le> row_count r
                then [\<lparr>rec_type = Caption_rec, rec_priority = Low,
                       rec_advice = Best_caption_length (fst r) (row_avg r)\<rparr>]
                else [])"

subsection \<open>Posting frequency\<close>

text \<open>
  \<open>post_date >= date('now', '-8 weeks') GROUP BY strftime('%Y-%W', post_date)
  ORDER BY week DESC LIMIT 4\<close>; the weeks are distinct keys, so the descending
  order is the reverse of the grouping order.  A \<open>NULL\<close> bound selects no row.
\<close>

definition posting_frequency :: "instant \<Rightarrow> post list \<Rightarrow> ((int \<times> int) \<times> real \<times> nat) list" where
  "posting_frequency now window =
     (case sqlite_date_now now ''-8 weeks'' of
        None \<Rightarrow> []
      | Some b \<Rightarrow> take 4 (rev (group_rows (\<lambda>p. week_key (post_date p)) engagement_rate_weighted
                                   (filter (\<lambda>p. b \<le> post_date p) window))))"

definition frequency_decision :: "real \<Rightarrow> recommendation list" where
  "frequency_decision avg_posts =
     (if avg_posts < 3 then [\<lparr>rec_type = Frequency, rec_priority = Medium, rec_advice = Post_more avg_posts\<rparr>]
      else if 7 < avg_posts then
        [\<lparr>rec_type = Frequency, rec_priority = Low, rec_advice = Quality_over_quantity avg_posts\<rparr>]
      else [])"

definition frequency_recommendation :: "instant \<Rightarrow> post list \<Rightarrow> recommendation list" where
  "frequency_recommendation now window =
     (let rows = posting_frequency now window in
      if 3 \<le> length rows
      then frequency_decision (real (sum_list (map row_count rows)) / real (length rows))
      else [])"

definition generate_smart_recommendations ::
  "instant \<Rightarrow> nat list \<Rightarrow> post list \<Rightarrow> recommendation list" where
  "generate_smart_recommendations now pids ps =
     (let window = scoped pids ps in
      timing_recommendation window @ content_recommendation window @
      caption_recommendation window @ frequency_recommendation now window)"

subsection \<open>Shared facts\<close>

lemma group_rows_member:
  assumes "r \<in> set (group_rows key metric ps)"
  shows "\<exists>g. (fst r, g) \<in> set (group_by key ps) \<and> row_avg r = mean (map metric g) \<and>
             row_count r = length g"
  using assms by (auto simp: group_rows_def row_avg_def row_count_def)

lemma group_rows_complete:
  assumes "(k, g) \<in> set (group_by key ps)"
  shows "(k, mean (map metric g), length g) \<in> set (group_rows key metric ps)"
  using assms by (force simp: group_rows_def)

lemma length_group_rows [simp]: "length (group_rows key metric ps) = length (group_by key ps)"
  by (simp add: group_rows_def)

lemma hd_take_sort_desc:
  assumes "take n (sort_desc f xs) = y # ys"
  shows "y = hd (sort_desc f xs)" "y \<in> set xs"
proof -
  have ne: "sort_desc f xs \<noteq> []" using assms by auto
  have n: "n \<noteq> 0" using assms by (cases n) auto
  then show "y = hd (sort_desc f xs)" using assms ne by (cases "sort_desc f xs") (auto simp: take_Cons')
  then show "y \<in> set xs" using ne by (metis hd_in_set sort_desc_set)
qed


subsection \<open>Properties\<close>

text \<open>
  C36. The posting-frequency heuristic never fires: its query's lower bound
  \<open>date('now', '-8 weeks')\<close> is \<open>NULL\<close>, so it selects no week and the
  "at least 3 weeks" guard fails for every history and every \<open>now\<close>.
\<close>

theorem frequency_never:
  "frequency_recommendation now window = []"
proof -
  have "parse_modifier ''-8 weeks'' = None" by code_simp
  then show ?thesis
    by (simp add: frequency_recommendation_def posting_frequency_def sqlite_date_now_def)
qed

text \<open>
  The decision the frequency heuristic would make on an average of
  \<open>x\<close> posts per week: nothing exactly for \<open>3 \<le> x \<le> 7\<close>, "post more" below,
  "quality over quantity" above.
\<close>

theorem frequency_decision_table:
  "(frequency_decision x = [] \<longleftrightarrow> 3 \<le> x \<and> x \<le> 7) \<and>
   (x < 3 \<longrightarrow> map rec_advice (frequency_decision x) = [Post_more x]) \<and>
   (7 < x \<longrightarrow> map rec_advice (frequency_decision x) = [Quality_over_quantity x])"
  by (auto simp: frequency_decision_def)

theorem frequency_decision_table_witness:
  "map rec_advice (frequency_decision 2) = [Post_more 2] \<and>
   map rec_advice (frequency_decision 8) = [Quality_over_quantity 8] \<and> frequency_decision 5 = []"
  using frequency_decision_table [of 2] frequency_decision_table [of 8] frequency_decision_table [of 5]
  by simp

end
