(* ===== verification/Views.thy ===== *)
theory Views
  imports Store Prediction Recommendations Alerts
begin

text \<open>
  The read-only routes of \<open>src/app.py\<close> that call the analytics or
  aggregate the posts of the logged-in user: \<open>dashboard\<close>, \<open>posts\<close> (its
  \<open>ORDER BY\<close> parameters), \<open>api_engagement_data\<close>, \<open>api_reach_data\<close>,
  \<open>project_posts\<close>, \<open>api_predict_performance\<close> and
  \<open>generate_project_report\<close>.  Each reads the database and the session's
  user and changes nothing; the templates they render are not modelled, the
  data handed to them is.
\<close>

text \<open>\<open>SELECT id FROM projects WHERE user_id = ?\<close>, joined into \<open>project_ids_str\<close>.\<close>

definition user_project_ids :: "db \<Rightarrow> nat \<Rightarrow> nat list" where
  "user_project_ids d uid = map pr_id (user_projects d uid)"

subsection \<open>Dashboard\<close>

record dash_stats =
  total_posts :: nat
  avg_engagement :: real
  total_reach :: int
  new_followers :: int

definition zero_stats :: dash_stats where
  "zero_stats = \<lparr>total_posts = 0, avg_engagement = 0, total_reach = 0, new_followers = 0\<rparr>"

definition dashboard_stats :: "db \<Rightarrow> nat \<Rightarrow> dash_stats" where
  "dashboard_stats d uid =
     (let pids = user_project_ids d uid; window = scoped pids (db_posts d) in
      if pids \<noteq> [] \<and> 0 < length window then
        \<lparr>total_posts = length window,
         avg_engagement = py_round 1 (py_or (sql_avg (map engagement_rate window)) 0),
         total_reach = sum_list (map reach window),
         new_followers = sum_list (map followers_gained window)\<rparr>
      else zero_stats)"

definition dashboard :: "instant \<Rightarrow> db \<Rightarrow> nat \<Rightarrow> dash_stats \<times> recommendation list \<times> alert list" where
  "dashboard now d uid =
     (let pids = user_project_ids d uid in
      (dashboard_stats d uid,
       if pids \<noteq> [] then take 2 (generate_smart_recommendations now pids (db_posts d)) else [],
       if pids \<noteq> [] then take 3 (check_performance_alerts now pids (db_posts d)) else []))"

subsection \<open>The posts list\<close>

definition valid_sorts :: "string list" where
  "valid_sorts = [''post_date'', ''engagement_rate'', ''performance_score'', ''reach'', ''likes'']"

definition posts_sort_params :: "string \<Rightarrow> string \<Rightarrow> string \<times> string" where
  "posts_sort_params sort_by order =
     (if sort_by \<in> set valid_sorts then sort_by else ''post_date'',
      if order \<in> set [''asc'', ''desc''] then order else ''desc'')"

text \<open>\<open>str.upper()\<close> on ASCII.\<close>

definition upper_char :: "char \<Rightarrow> char" where
  "upper_char c = (if CHR ''a'' \<le> c \<and> c \<le> CHR ''z'' then char_of (of_char c - 32 :: nat) else c)"

text \<open>The f-string query of \<open>posts\<close>, with the validated parameters spliced in.\<close>

definition posts_query :: "string \<Rightarrow> string \<Rightarrow> string \<Rightarrow> string" where
  "posts_query project_ids_str sort_by order =
     (case posts_sort_params sort_by order of (s, dir) \<Rightarrow>
        ''SELECT * FROM posts WHERE project_id IN ('' @ project_ids_str @ '') ORDER BY '' @ s @ '' '' @
        map upper_char dir)"

subsection \<open>Chart data\<close>

text \<open>\<open>GROUP BY post_date ORDER BY post_date LIMIT 30\<close> over the user's posts.\<close>

definition date_rows :: "db \<Rightarrow> nat \<Rightarrow> (date \<times> post list) list" where
  "date_rows d uid = take 30 (group_by post_date (scoped (user_project_ids d uid) (db_posts d)))"

definition api_engagement_data :: "db \<Rightarrow> nat \<Rightarrow> date list \<times> real list" where
  "api_engagement_data d uid =
     (if user_project_ids d uid = [] then ([], [])
      else (map fst (date_rows d uid),
            map (\<lambda>(k, g). py_round 2 (mean (map engagement_rate g))) (date_rows d uid)))"

definition api_reach_data :: "db \<Rightarrow> nat \<Rightarrow> date list \<times> int list" where
  "api_reach_data d uid =
     (if user_project_ids d uid = [] then ([], [])
      else (map fst (date_rows d uid), map (\<lambda>(k, g). sum_list (map reach g)) (date_rows d uid)))"

subsection \<open>Project pages, prediction API, report\<close>

definition owns_project :: "db \<Rightarrow> nat \<Rightarrow> nat \<Rightarrow> bool" where
  "owns_project d uid prid \<longleftrightarrow> (\<exists>pr\<in>set (user_projects d uid). pr_id pr = prid)"

definition project_posts :: "db \<Rightarrow> nat \<Rightarrow> nat \<Rightarrow> outcome + post list" where
  "project_posts d uid prid =
     (if owns_project d uid prid
      then Inr (sort_desc post_date (filter (\<lambda>p. project_id p = prid) (db_posts d)))
      else Inl (Flash ''Project not found''))"

text \<open>
  \<open>projects\<close>: the user's projects with \<open>COUNT(posts.id)\<close> over
  \<open>LEFT JOIN posts\<close>, \<open>GROUP BY p.id ORDER BY p.project_name\<close>.
\<close>

definition projects_list :: "db \<Rightarrow> nat \<Rightarrow> (project_row \<times> nat) list" where
  "projects_list d uid =
     sort_key (\<lambda>(pr, n). project_name pr)
       (map (\<lambda>pr. (pr, length (filter (\<lambda>p. project_id p = pr_id pr) (db_posts d)))) (user_projects d uid))"

definition api_predict_performance ::
  "db \<Rightarrow> nat \<Rightarrow> string \<Rightarrow> int \<Rightarrow> string \<Rightarrow> outcome + prediction" where
  "api_predict_performance d uid ptype hour category =
     (if user_project_ids d uid = [] then Inl (Http_error 404 ''No projects found'')
      else Inr (predict_post_performance ptype hour category (user_project_ids d uid) (db_posts d)))"

text \<open>
  \<open>generate_project_report\<close> calls \<open>calculate_metrics(posts)\<close>, one argument
  for a function of eight parameters: Python raises \<open>TypeError\<close> (missing
  positional arguments) before any analytics runs.
\<close>

definition generate_project_report :: "db \<Rightarrow> nat \<Rightarrow> nat \<Rightarrow> outcome" where
  "generate_project_report d uid prid =
     (if \<not> owns_project d uid prid then Flash ''Project not found''
      else if filter (\<lambda>p. project_id p = prid) (db_posts d) = []
      then Flash ''No posts in this project to generate report''
      else Crash TypeError)"


subsection \<open>Shared facts\<close>

lemma upper_asc_desc:
  "upper_char (CHR ''a'') = CHR ''A''" "upper_char (CHR ''s'') = CHR ''S''" "upper_char (CHR ''c'') = CHR ''C''"
  "upper_char (CHR ''d'') = CHR ''D''" "upper_char (CHR ''e'') = CHR ''E''"
  by code_simp+

subsection \<open>Properties\<close>

text \<open>
  C10. The project report never renders: for a project of the user
  with at least one post it raises \<open>TypeError\<close> (\<open>calculate_metrics(posts)\<close>),
  otherwise it redirects with a flash.
\<close>

theorem report_never_renders:
  "generate_project_report d uid prid \<noteq> Done \<and>
   (generate_project_report d uid prid = Crash TypeError \<longleftrightarrow>
      owns_project d uid prid \<and> (\<exists>p\<in>set (db_posts d). project_id p = prid))"
  by (auto simp: generate_project_report_def filter_empty_conv)

text \<open>
  C11. The prediction API reads only the posts of the user's own
  projects: two databases that agree on those give the same answer, whatever
  other users have posted.
\<close>

theorem api_predict_isolation:
  assumes "user_projects d uid = user_projects d' uid"
    and "scoped (user_project_ids d uid) (db_posts d) = scoped (user_project_ids d uid) (db_posts d')"
  shows "api_predict_performance d uid t h c = api_predict_performance d' uid t h c"
proof -
  let ?pids = "user_project_ids d uid"
  have ids: "user_project_ids d' uid = ?pids" using assms(1) by (simp add: user_project_ids_def)
  have "predict_post_performance t h c ?pids (db_posts d) =
        predict_post_performance t h c ?pids (scoped ?pids (db_posts d))" by (rule predict_scoped)
  also have "\<dots> = predict_post_performance t h c ?pids (db_posts d')"
    unfolding assms(2) by (rule predict_scoped [symmetric])
  finally show ?thesis by (simp add: api_predict_performance_def ids)
qed

theorem api_predict_isolation_witness:
  "user_projects example_db 1 =
     user_projects (example_db\<lparr>db_posts := [example_post, blank_post\<lparr>post_id := 2, project_id := 7, performance_score := 99\<rparr>]\<rparr>) 1 \<and>
   scoped (user_project_ids example_db 1) (db_posts example_db) =
     scoped (user_project_ids example_db 1)
       (db_posts (example_db\<lparr>db_posts := [example_post, blank_post\<lparr>post_id := 2, project_id := 7, performance_score := 99\<rparr>]\<rparr>)) \<and>
   api_predict_performance example_db 1 ''Image'' 12 ''Edu'' =
     api_predict_performance (example_db\<lparr>db_posts := [example_post, blank_post\<lparr>post_id := 2, project_id := 7, performance_score := 99\<rparr>]\<rparr>) 1 ''Image'' 12 ''Edu''"
proof -
  let ?d' = "example_db\<lparr>db_posts := [example_post, blank_post\<lparr>post_id := 2, project_id := 7, performance_score := 99\<rparr>]\<rparr>"
  have u: "user_projects example_db 1 = user_projects ?d' 1" by (simp add: user_projects_def)
  have s: "scoped (user_project_ids example_db 1) (db_posts example_db) =
           scoped (user_project_ids example_db 1) (db_posts ?d')"
    by (simp add: scoped_def user_project_ids_def user_projects_def example_db_def example_post_def blank_post_def)
  show ?thesis using api_predict_isolation [OF u s] u s by simp
qed


text \<open>
  C12. The \<open>ORDER BY\<close> clause spliced into the f-string query of
  \<open>posts\<close> is always one of the five whitelisted columns followed by \<open>ASC\<close> or
  \<open>DESC\<close>, whatever the request parameters: they cannot inject SQL.
\<close>

theorem posts_query_whitelist:
  "\<exists>c\<in>set valid_sorts. \<exists>dir\<in>set [''ASC'', ''DESC''].
     posts_query ids sort_by order =
       ''SELECT * FROM posts WHERE project_id IN ('' @ ids @ '') ORDER BY '' @ c @ '' '' @ dir"
  by (auto simp: posts_query_def posts_sort_params_def upper_asc_desc valid_sorts_def)

text \<open>
  The engagement chart has at most 30 points, one value per
  date, and its dates strictly increase.
\<close>

theorem engagement_series_shape:
  "length (fst (api_engagement_data d uid)) \<le> 30 \<and>
   length (snd (api_engagement_data d uid)) = length (fst (api_engagement_data d uid)) \<and>
   sorted_wrt (<) (fst (api_engagement_data d uid))"
proof -
  have "sorted_wrt (<) (map fst (group_by post_date ps))" for ps :: "post list"
    by (simp add: strict_sorted_iff group_by_sorted_keys group_by_distinct_keys)
  then show ?thesis
    by (simp add: api_engagement_data_def date_rows_def take_map [symmetric] sorted_wrt_take)
qed

text \<open>
  C37. When the user's posts fall on at most 30 dates the reach chart
  adds up to the user's total reach: \<open>GROUP BY\<close> partitions the posts.
\<close>

theorem reach_series_total:
  assumes "card (post_date ` set (scoped (user_project_ids d uid) (db_posts d))) \<le> 30"
  shows "sum_list (snd (api_reach_data d uid)) = sum_list (map reach (scoped (user_project_ids d uid) (db_posts d)))"
proof -
  let ?rows = "group_by post_date (scoped (user_project_ids d uid) (db_posts d))"
  have "take 30 ?rows = ?rows" using assms by (simp add: group_by_length)
  then show ?thesis
    using group_by_sum [of reach post_date "scoped (user_project_ids d uid) (db_posts d)"]
    by (simp add: api_reach_data_def date_rows_def split_def)
qed

theorem reach_series_total_witness:
  "card (post_date ` set (scoped (user_project_ids example_db 1) (db_posts example_db))) \<le> 30 \<and>
   sum_list (snd (api_reach_data example_db 1)) = 0"
proof -
  have c: "card (post_date ` set (scoped (user_project_ids example_db 1) (db_posts example_db))) \<le> 30"
    by (simp add: scoped_def user_project_ids_def user_projects_def example_db_def example_post_def blank_post_def)
  have "sum_list (map reach (scoped (user_project_ids example_db 1) (db_posts example_db))) = 0"
    by (simp add: scoped_def user_project_ids_def user_projects_def example_db_def example_post_def blank_post_def)
  then show ?thesis using reach_series_total [OF c] c by simp
qed

text \<open>
  C38. The page of an owned project lists exactly that project's
  posts, newest first.
\<close>

theorem project_posts_content:
  assumes "owns_project d uid prid"
  shows "\<exists>ps. project_posts d uid prid = Inr ps \<and>
           mset ps = mset (filter (\<lambda>p. project_id p = prid) (db_posts d)) \<and> sorted (rev (map post_date ps))"
  using assms by (simp add: project_posts_def sort_desc_sorted)

theorem project_posts_content_witness:
  "owns_project example_db 1 1 \<and> project_posts example_db 1 1 = Inr [example_post]"
proof -
  have o: "owns_project example_db 1 1"
    by (simp add: owns_project_def user_projects_def example_db_def)
  show ?thesis using project_posts_content [OF o] o
    by (simp add: project_posts_def example_db_def example_post_def blank_post_def)
qed

text \<open>
  C20. Under the invariant, the post counts of the projects page add
  up to the number of the user's posts, and the page lists the projects in
  name order.
\<close>

theorem projects_list_counts:
  assumes "db_inv d"
  shows "sum_list (map snd (projects_list d uid)) = length (filter (owns_post d uid) (db_posts d)) \<and>
         sorted (map (project_name \<circ> fst) (projects_list d uid))"
proof
  let ?xs = "map (\<lambda>pr. (pr, length (filter (\<lambda>p. project_id p = pr_id pr) (db_posts d)))) (user_projects d uid)"
  have "sum_list (map snd (projects_list d uid)) = sum_list (map snd ?xs)"
    unfolding projects_list_def by (rule sort_key_sum)
  also have "\<dots> = length (filter (\<lambda>p. project_id p \<in> set (map pr_id (user_projects d uid))) (db_posts d))"
    using assms by (simp add: comp_def sum_list_count_filter db_inv_def user_projects_def distinct_map_filter)
  also have "\<dots> = length (filter (owns_post d uid) (db_posts d))"
    by (intro arg_cong [where f = length] filter_cong) (simp_all only: owns_post_user_projects)
  finally show "sum_list (map snd (projects_list d uid)) = length (filter (owns_post d uid) (db_posts d))" .
  have "sorted (map (\<lambda>(pr, n). project_name pr) (projects_list d uid))"
    unfolding projects_list_def by (rule sorted_sort_key)
  then show "sorted (map (project_name \<circ> fst) (projects_list d uid))"
    by (simp add: comp_def case_prod_unfold)
qed

theorem projects_list_counts_witness:
  "db_inv example_db \<and>
   projects_list example_db 1 = [(\<lparr>pr_id = 1, pr_user = 1, project_name = ''Shop'', description = []\<rparr>, 1)] \<and>
   sum_list (map snd (projects_list example_db 1)) = length (filter (owns_post example_db 1) (db_posts example_db))"
proof -
  have i: "db_inv example_db"
    by (simp add: db_inv_def example_db_def empty_db_def example_post_def blank_post_def)
  have u: "user_projects example_db 1 = [\<lparr>pr_id = 1, pr_user = 1, project_name = ''Shop'', description = []\<rparr>]"
    by (simp add: user_projects_def example_db_def)
  have n: "length (filter (\<lambda>p. project_id p = Suc 0) (db_posts example_db)) = Suc 0"
    by (simp add: example_db_def example_post_def blank_post_def)
  have l: "projects_list example_db 1 = [(\<lparr>pr_id = 1, pr_user = 1, project_name = ''Shop'', description = []\<rparr>, 1)]"
    unfolding projects_list_def u by (simp add: n)
  from i l conjunct1 [OF projects_list_counts [OF i, of 1]] show ?thesis by (intro conjI)
qed

end
