(* ===== verification/Reports.thy ===== *)
theory Reports
  imports Views Trends
begin

text \<open>
  The reports page, \<open>reports\<close> in \<open>src/app.py\<close>: ten aggregate queries over
  the posts of the user's projects, then \<open>analyze_growth_trends\<close> and
  \<open>generate_smart_recommendations\<close>; the dictionary handed to the template is
  the record \<open>report_data\<close>.  A user without projects gets the empty lists.
  \<open>ORDER BY x DESC LIMIT n\<close> over distinct group keys is the last \<open>n\<close>
  groups; \<open>reversed(...)\<close> is \<open>rev\<close>.  An exception of the growth analysis
  aborts the page (HTTP 500), modelled as \<open>Inl\<close>.
\<close>

text \<open>Python's \<open>int(x)\<close> on a float: truncation towards zero.\<close>

definition py_int :: "real \<Rightarrow> int" where
  "py_int x = (if 0 \<le> x then \<lfloor>x\<rfloor> else \<lceil>x\<rceil>)"

text \<open>\<open>CAST(strftime('%w', post_date) AS INTEGER)\<close>: the weekday, Sunday 0.\<close>

definition strftime_w :: "date \<Rightarrow> int" where
  "strftime_w d = (weekday_mon0 d + 1) mod 7"

text \<open>The \<open>CASE ... END\<close> of the day names, \<open>NULL\<close> outside 0-6.\<close>

definition day_name :: "int \<Rightarrow> string option" where
  "day_name n =
     (if n = 0 then Some ''Sunday'' else if n = 1 then Some ''Monday''
      else if n = 2 then Some ''Tuesday'' else if n = 3 then Some ''Wednesday''
      else if n = 4 then Some ''Thursday'' else if n = 5 then Some ''Friday''
      else if n = 6 then Some ''Saturday'' else None)"

definition score_range :: "real \<Rightarrow> string" where
  "score_range s =
     (if s < 10 then ''0-10'' else if s < 20 then ''10-20'' else if s < 30 then ''20-30''
      else if s < 40 then ''30-40'' else if s < 50 then ''40-50'' else ''50+'')"

definition category_of :: "post \<Rightarrow> string" where
  "category_of p = (case caption_category p of None \<Rightarrow> [] | Some c \<Rightarrow> c)"

definition velocity_score :: "post \<Rightarrow> real" where
  "velocity_score p = engagement_rate_weighted p * real_of_int (reach p) / 1000"

text \<open>
  \<open>row['caption'][:50] + '...' if row['caption'] and len(row['caption']) > 50
  else row['caption']\<close>.
\<close>

definition caption_short :: "string option \<Rightarrow> string option" where
  "caption_short c = truncate_caption 50 c"

record report_data =
  engagement_over_time :: "(date \<times> real) list"
  reach_over_time :: "(date \<times> int) list"
  posting_time_analysis :: "(int \<times> real \<times> nat) list"
  caption_category_performance :: "(string \<times> real \<times> nat) list"
  performance_distribution :: "(string \<times> nat) list"
  hashtag_performance :: "(string \<times> real \<times> nat \<times> real) list"
  content_insights :: "(string \<times> real \<times> real \<times> int \<times> nat) list"
  day_of_week_analysis :: "(string option \<times> real \<times> real \<times> nat) list"
  monthly_trends :: "((int \<times> int) \<times> real \<times> real \<times> nat \<times> int) list"
  engagement_velocity :: "(nat \<times> string option \<times> date \<times> string \<times> real \<times> real \<times> real) list"
  growth_trends :: "trend_report option"
  report_recommendations :: "recommendation list"

definition empty_report :: report_data where
  "empty_report = \<lparr>engagement_over_time = [], reach_over_time = [], posting_time_analysis = [],
     caption_category_performance = [], performance_distribution = [], hashtag_performance = [],
     content_insights = [], day_of_week_analysis = [], monthly_trends = [],
     engagement_velocity = [], growth_trends = None, report_recommendations = []\<rparr>"

text \<open>\<open>hashtags h JOIN posts p ON h.post_id = p.id WHERE p.project_id IN (...)\<close>.\<close>

definition hashtag_join :: "db \<Rightarrow> nat list \<Rightarrow> (hashtag_row \<times> post) list" where
  "hashtag_join d pids =
     [(h, p). h \<leftarrow> db_hashtags d, p \<leftarrow> db_posts d, tag_post h = post_id p \<and> project_id p \<in> set pids]"

text \<open>\<open>GROUP BY post_date ORDER BY post_date DESC LIMIT 30\<close>, then \<open>reversed\<close>.\<close>

definition time_rows :: "post list \<Rightarrow> (date \<times> post list) list" where
  "time_rows w = rev (take 30 (rev (group_by post_date w)))"

definition hashtag_rows :: "(hashtag_row \<times> post) list \<Rightarrow> (string \<times> real \<times> nat \<times> real) list" where
  "hashtag_rows hp =
     map (\<lambda>(k, g). (k, py_round 1 (mean (map (performance_score \<circ> snd) g)), length g,
                    py_round 2 (mean (map (engagement_rate_weighted \<circ> snd) g))))
       (take 15 (sort_desc (\<lambda>(k, g). mean (map (performance_score \<circ> snd) g))
          (filter (\<lambda>(k, g). 2 \<le> length g) (group_by (hashtag \<circ> fst) hp))))"

definition report_of :: "db \<Rightarrow> nat list \<Rightarrow> post list \<Rightarrow> report_data" where
  "report_of d pids w =
     \<lparr>engagement_over_time =
        map (\<lambda>(k, g). (k, py_round 2 (mean (map engagement_rate g)))) (time_rows w),
      reach_over_time = map (\<lambda>(k, g). (k, sum_list (map reach g))) (time_rows w),
      posting_time_analysis =
        map (\<lambda>(k, a, n). (k, py_round 2 a, n))
          (group_rows (\<lambda>p. hour_of (post_time p)) engagement_rate_weighted w),
      caption_category_performance =
        map (\<lambda>(k, a, n). (k, py_round 1 a, n))
          (sort_desc row_avg (group_rows category_of performance_score
             (filter (\<lambda>p. caption_category p \<noteq> None \<and> caption_category p \<noteq> Some []) w))),
      performance_distribution =
        sort_desc snd (map (\<lambda>(k, g). (k, length g)) (group_by (\<lambda>p. score_range (performance_score p)) w)),
      hashtag_performance = hashtag_rows (hashtag_join d pids),
      content_insights =
        map (\<lambda>(k, g). (k, py_round 1 (mean (map performance_score g)), py_round 2 (mean (map engagement_rate g)),
                       py_int (mean (map (real_of_int \<circ> reach) g)), length g))
          (sort_desc (\<lambda>(k, g). mean (map performance_score g)) (group_by post_type w)),
      day_of_week_analysis =
        map (\<lambda>(k, g). (day_name k, py_round 2 (mean (map engagement_rate_weighted g)),
                       py_round 1 (mean (map performance_score g)), length g))
          (group_by (\<lambda>p. strftime_w (post_date p)) w),
      monthly_trends =
        map (\<lambda>(k, g). (k, py_round 2 (mean (map engagement_rate_weighted g)),
                       py_round 1 (mean (map performance_score g)), length g, sum_list (map followers_gained g)))
          (rev (take 12 (rev (group_by (\<lambda>p. month_key (post_date p)) w)))),
      engagement_velocity =
        map (\<lambda>p. (post_id p, caption_short (caption p), post_date p, post_type p,
                   py_round 2 (engagement_rate_weighted p), py_round 1 (performance_score p),
                   py_round 1 (velocity_score p)))
          (take 10 (sort_desc velocity_score (filter (\<lambda>p. 0 < engagement_rate_weighted p) w))),
      growth_trends = None, report_recommendations = []\<rparr>"

definition reports :: "instant \<Rightarrow> db \<Rightarrow> nat \<Rightarrow> py_error + report_data" where
  "reports now d uid =
     (let pids = user_project_ids d uid in
      if pids = [] then Inr empty_report
      else
        case analyze_growth_trends pids (db_posts d) of
          Inl e \<Rightarrow> Inl e
        | Inr g \<Rightarrow> Inr ((report_of d pids (scoped pids (db_posts d)))\<lparr>growth_trends := Some g,
                      report_recommendations := generate_smart_recommendations now pids (db_posts d)\<rparr>))"


subsection \<open>Properties\<close>

text \<open>
  C23. The two engagement charts disagree: the reports page
  shows the 30 newest posting dates (\<open>ORDER BY post_date DESC LIMIT 30\<close>,
  reversed), the API \<open>/api/engagement-data\<close> the 30 oldest
  (\<open>ORDER BY post_date LIMIT 30\<close>).
\<close>

theorem reports_newest_api_oldest:
  "(let D = sort (remdups (map post_date (scoped (user_project_ids d uid) (db_posts d)))) in
    map fst (engagement_over_time
      (report_of d (user_project_ids d uid) (scoped (user_project_ids d uid) (db_posts d)))) =
      drop (length D - 30) D \<and>
    fst (api_engagement_data d uid) = take 30 D)"
proof -
  let ?w = "scoped (user_project_ids d uid) (db_posts d)"
  let ?G = "group_by post_date ?w"
  let ?D = "sort (remdups (map post_date ?w))"
  have k: "map fst ?G = ?D" by (rule group_by_keys)
  have "map fst (engagement_over_time (report_of d (user_project_ids d uid) ?w)) =
        map fst (rev (take 30 (rev ?G)))"
    by (simp add: report_of_def time_rows_def comp_def split_def)
  also have "\<dots> = rev (take 30 (rev (map fst ?G)))" by (simp add: rev_map take_map)
  also have "\<dots> = drop (length ?D - 30) ?D" by (simp add: rev_take k)
  finally have r: "map fst (engagement_over_time (report_of d (user_project_ids d uid) ?w)) =
                   drop (length ?D - 30) ?D" .
  have a: "fst (api_engagement_data d uid) = take 30 ?D"
    using k by (auto simp: api_engagement_data_def date_rows_def take_map [symmetric])
  show ?thesis using r a by (simp add: Let_def)
qed

text \<open>
  C39. The score distribution of the reports page counts, for each of the six
  ranges of the \<open>CASE\<close> expression, exactly the posts whose score lies in
  that range; the ranges are listed once each, and the counts add up to all
  posts in scope.
\<close>

theorem distribution_buckets:
  "distinct (map fst (performance_distribution (report_of d pids w))) \<and>
   sum_list (map snd (performance_distribution (report_of d pids w))) = length w \<and>
   list_all (\<lambda>(r, P). (case map_of (performance_distribution (report_of d pids w)) r of
                          None \<Rightarrow> 0 | Some n \<Rightarrow> n) = length (filter (\<lambda>p. P (performance_score p)) w))
     [(''0-10'', \<lambda>s. s < 10), (''10-20'', \<lambda>s. 10 \<le> s \<and> s < 20),
      (''20-30'', \<lambda>s. 20 \<le> s \<and> s < 30), (''30-40'', \<lambda>s. 30 \<le> s \<and> s < 40),
      (''40-50'', \<lambda>s. 40 \<le> s \<and> s < 50), (''50+'', \<lambda>s. 50 \<le> s)]"
proof -
  let ?f = "\<lambda>p. score_range (performance_score p)"
  have pd: "performance_distribution (report_of d pids w) =
              sort_desc snd (map (\<lambda>(k, g). (k, length g)) (group_by ?f w))"
    by (simp add: report_of_def)
  have "distinct (map fst (map (\<lambda>(k, g). (k, length g)) (group_by ?f w)))"
    using group_by_distinct_keys [of ?f w] by (simp add: comp_def case_prod_unfold)
  then have "distinct (map fst (performance_distribution (report_of d pids w)))"
    unfolding pd using mset_eq_imp_distinct_iff by (metis mset_map sort_desc_mset)
  moreover have "sum_list (map snd (performance_distribution (report_of d pids w))) = length w"
    using group_by_lengths [of ?f w] by (simp add: pd comp_def split_def sort_desc_sum)
  moreover have "filter (\<lambda>p. ?f p = r) w = filter (\<lambda>p. P (performance_score p)) w"
    if "(r, P) \<in> set [(''0-10'', \<lambda>s. s < 10), (''10-20'', \<lambda>s. 10 \<le> s \<and> s < 20),
      (''20-30'', \<lambda>s. 20 \<le> s \<and> s < 30), (''30-40'', \<lambda>s. 30 \<le> s \<and> s < 40),
      (''40-50'', \<lambda>s. 40 \<le> s \<and> s < 50), (''50+'', \<lambda>s. 50 \<le> s)]" for r P
    using that by (auto intro!: filter_cong simp: score_range_def)
  ultimately show ?thesis by (simp only: pd group_count list_all_iff) auto
qed

text \<open>
  The hashtag table has at most 15 rows, each a tag used at
  least twice (\<open>HAVING usage_count >= 2 ... LIMIT 15\<close>).
\<close>

theorem hashtag_rows_bounds:
  "length (hashtag_performance (report_of d pids w)) \<le> 15 \<and>
   list_all (\<lambda>r. 2 \<le> fst (snd (snd r))) (hashtag_performance (report_of d pids w))"
  by (auto simp: report_of_def hashtag_rows_def list_all_iff split_def dest!: in_set_takeD)

text \<open>
  The velocity table's caption keeps its first 50
  characters, is at most 53 long, and is changed only when longer than 50:
  unlike the alert preview, the conditional here guards the \<open>'...'\<close>.
\<close>

theorem caption_short_only_long:
  "length (the (caption_short (Some s))) \<le> 53 \<and> take 50 (the (caption_short (Some s))) = take 50 s \<and>
   (the (caption_short (Some s)) = s \<or> 50 < length s)"
  by (auto simp: caption_short_def truncate_caption_def)

text \<open>
  Every post date gets a day name (\<open>strftime('%w')\<close> is 0-6), and
  2024-05-02 is a Thursday.
\<close>

theorem day_name_total:
  "day_name (strftime_w d) \<noteq> None \<and> day_name (strftime_w (2024, 5, 2)) = Some ''Thursday''"
proof -
  have "0 \<le> strftime_w d" "strftime_w d < 7" by (simp_all add: strftime_w_def)
  then have "day_name (strftime_w d) \<noteq> None" by (auto simp: day_name_def)
  moreover have "day_name (strftime_w (2024, 5, 2)) = Some ''Thursday''" by code_simp
  ultimately show ?thesis ..
qed

end
