(* ===== verification/Csv.thy ===== *)
theory Csv
  imports Views
begin

text \<open>
  The CSV export, \<open>export_csv\<close> in \<open>src/app.py\<close>, and the writer it uses,
  Python's \<open>csv.writer\<close> with the default dialect (a library, modelled from
  its documentation): fields joined by \<open>,\<close>, rows ended by \<open>\r\n\<close>, and a
  field quoted with \<open>"\<close>, inner quotes doubled, exactly when it contains a
  comma, a quote, \<open>\r\<close> or \<open>\n\<close>; a row whose only field is empty is
  written \<open>""\<close>.  A cell is what the route puts in the row before \<open>str()\<close>;
  integers are printed in decimal, floats with \<open>str(float)\<close>, which is a
  parameter \<open>show_real\<close> of the model (its shortest-repr algorithm is not
  modelled), \<open>None\<close> as the empty string.  A reference reader
  (\<open>read_row\<close>) states what the written text means.
\<close>

datatype cell = C_str string | C_int int | C_real real | C_null

fun nat_str :: "nat \<Rightarrow> string" where
  "nat_str n = (if n < 10 then [digit_chr n] else nat_str (n div 10) @ [digit_chr (n mod 10)])"

declare nat_str.simps [simp del]

definition int_str :: "int \<Rightarrow> string" where
  "int_str i = (if i < 0 then CHR ''-'' # nat_str (nat (- i)) else nat_str (nat i))"

definition cell_text :: "(real \<Rightarrow> string) \<Rightarrow> cell \<Rightarrow> string" where
  "cell_text show_real c =
     (case c of C_str s \<Rightarrow> s | C_int i \<Rightarrow> int_str i | C_real r \<Rightarrow> show_real r | C_null \<Rightarrow> [])"

subsection \<open>The writer\<close>

definition csv_special :: "char \<Rightarrow> bool" where
  "csv_special c \<longleftrightarrow> c = CHR '','' \<or> c = CHR 0x22 \<or> c = CHR 0x0D \<or> c = CHR 0x0A"

definition csv_quote :: "string \<Rightarrow> string" where
  "csv_quote s = CHR 0x22 # concat (map (\<lambda>c. if c = CHR 0x22 then [c, c] else [c]) s) @ [CHR 0x22]"

definition csv_field :: "string \<Rightarrow> string" where
  "csv_field s = (if \<exists>c\<in>set s. csv_special c then csv_quote s else s)"

text \<open>\<open>','.join(...)\<close>.\<close>

fun csv_join :: "string list \<Rightarrow> string" where
  "csv_join [] = []"
| "csv_join [f] = f"
| "csv_join (f # fs) = f @ CHR '','' # csv_join fs"

definition csv_row :: "string list \<Rightarrow> string" where
  "csv_row fs =
     (if fs = [[]] then [CHR 0x22, CHR 0x22]
      else csv_join (map csv_field fs)) @ [CHR 0x0D, CHR 0x0A]"

subsection \<open>A reference reader\<close>

fun read_quoted :: "string \<Rightarrow> string \<times> string" where
  "read_quoted (c # d # cs) =
     (if c = CHR 0x22 \<and> d = CHR 0x22 then (case read_quoted cs of (f, r) \<Rightarrow> (c # f, r))
      else if c = CHR 0x22 then ([], d # cs)
      else (case read_quoted (d # cs) of (f, r) \<Rightarrow> (c # f, r)))"
| "read_quoted [c] = (if c = CHR 0x22 then ([], []) else ([c], []))"
| "read_quoted [] = ([], [])"

definition field_end :: "char \<Rightarrow> bool" where
  "field_end c \<longleftrightarrow> c = CHR '','' \<or> c = CHR 0x0D"

definition read_field :: "string \<Rightarrow> string \<times> string" where
  "read_field s =
     (case s of
        c # cs \<Rightarrow> if c = CHR 0x22 then read_quoted cs
                 else (takeWhile (\<lambda>c. \<not> field_end c) s, dropWhile (\<lambda>c. \<not> field_end c) s)
      | [] \<Rightarrow> ([], []))"

lemma read_quoted_length: "length (snd (read_quoted s)) \<le> length s"
  by (induction s rule: read_quoted.induct) (auto split: prod.split)

lemma read_field_length: "length (snd (read_field s)) \<le> length s"
  using read_quoted_length [of "tl s"]
  by (cases s) (auto simp: read_field_def length_dropWhile_le le_SucI)

lemma read_field_Cons_length: "read_field s = (f, c # r) \<Longrightarrow> length r < length s"
  using read_field_length [of s] by simp

function read_fields :: "string \<Rightarrow> string list \<times> string" where
  "read_fields s =
     (case read_field s of
        (f, c # r) \<Rightarrow> if c = CHR '','' then (case read_fields r of (fs, r') \<Rightarrow> (f # fs, r')) else ([f], c # r)
      | (f, []) \<Rightarrow> ([f], []))"
  by pat_completeness auto
termination
  by (relation "measure length") (auto dest: sym [THEN read_field_Cons_length])

text \<open>One row: its fields, then the line terminator.\<close>

definition read_row :: "string \<Rightarrow> string list \<times> string" where
  "read_row s = (case read_fields s of (fs, r) \<Rightarrow> (fs, drop 2 r))"

subsection \<open>The route\<close>

text \<open>The header row of \<open>writer.writerow([...])\<close>.\<close>

definition csv_header :: "string list" where
  "csv_header =
     [''Post Type'', ''Date'', ''Time'', ''Caption'', ''Category'',
      ''Likes'', ''Comments'', ''Shares'', ''Saves'', ''Reach'', ''Followers Gained'',
      ''Reel Length (s)'', ''Watch Time (s)'', ''Avg View Duration (s)'',
      ''Engagement Rate (%)'', ''Weighted Engagement (%)'', ''AVD Ratio (%)'',
      ''Follower Gain Rate (%)'', ''Performance Score'', ''Dominant Color'']"

text \<open>A nullable text column; \<open>None\<close> is written as the empty field.\<close>

definition opt_cell :: "string option \<Rightarrow> cell" where
  "opt_cell v = (case v of None \<Rightarrow> C_null | Some s \<Rightarrow> C_str s)"

text \<open>\<open>post['reel_length'] or ''\<close>: \<open>NULL\<close> and \<open>0\<close> both become \<open>''\<close>.\<close>

definition or_blank_int :: "int option \<Rightarrow> cell" where
  "or_blank_int v = (case v of None \<Rightarrow> C_str [] | Some i \<Rightarrow> if i = 0 then C_str [] else C_int i)"

definition or_blank_real :: "real option \<Rightarrow> cell" where
  "or_blank_real v = (case v of None \<Rightarrow> C_str [] | Some r \<Rightarrow> if r = 0 then C_str [] else C_real r)"

text \<open>The \<open>post_date\<close> text as the add-post form stores it, \<open>YYYY-MM-DD\<close>.\<close>

definition zero_pad :: "nat \<Rightarrow> string \<Rightarrow> string" where
  "zero_pad w s = replicate (w - length s) (CHR ''0'') @ s"

definition date_text :: "date \<Rightarrow> string" where
  "date_text d = (case d of (y, m, dd) \<Rightarrow>
     zero_pad 4 (int_str y) @ ''-'' @ zero_pad 2 (int_str m) @ ''-'' @ zero_pad 2 (int_str dd))"

text \<open>The twenty cells of one data row, in the order of the \<open>SELECT\<close>.\<close>

definition export_cells :: "post \<Rightarrow> cell list" where
  "export_cells p =
     [C_str (post_type p), C_str (date_text (post_date p)), C_str (post_time p),
      opt_cell (truncate_caption 100 (caption p)), opt_cell (caption_category p),
      C_int (likes p), C_int (comments p), C_int (shares p), C_int (saves p), C_int (reach p),
      C_int (followers_gained p),
      or_blank_int (reel_length p), or_blank_int (watch_time p), or_blank_real (avg_view_duration p),
      C_real (engagement_rate p), C_real (engagement_rate_weighted p), C_real (avd_ratio p),
      C_real (follower_gain_rate p), C_real (performance_score p), opt_cell (dominant_color p)]"

text \<open>The data rows: the user's posts \<open>ORDER BY post_date DESC\<close>, as text.\<close>

definition export_rows :: "(real \<Rightarrow> string) \<Rightarrow> db \<Rightarrow> nat \<Rightarrow> string list list" where
  "export_rows show_real d uid =
     map (\<lambda>p. map (cell_text show_real) (export_cells p))
       (sort_desc post_date (scoped (user_project_ids d uid) (db_posts d)))"

text \<open>\<open>instagram_posts_{username}_{%Y%m%d}.csv\<close>.\<close>

definition export_filename :: "string \<Rightarrow> date \<Rightarrow> string" where
  "export_filename uname today = (case today of (y, m, dd) \<Rightarrow>
     ''instagram_posts_'' @ uname @ ''_'' @ zero_pad 4 (int_str y) @ zero_pad 2 (int_str m) @
     zero_pad 2 (int_str dd) @ ''.csv'')"

text \<open>
  The route: with no project the user is redirected with a flash; otherwise
  the response is the file name and the body the writer produced.
\<close>

definition export_csv ::
  "(real \<Rightarrow> string) \<Rightarrow> date \<Rightarrow> db \<Rightarrow> nat \<Rightarrow> string \<Rightarrow> outcome + string \<times> string" where
  "export_csv show_real today d uid uname =
     (if user_project_ids d uid = [] then Inl (Flash ''No posts to export'')
      else Inr (export_filename uname today,
                concat (map csv_row (csv_header # export_rows show_real d uid))))"

text \<open>Reading \<open>n\<close> rows back.\<close>

primrec read_rows :: "nat \<Rightarrow> string \<Rightarrow> string list list \<times> string" where
  "read_rows 0 s = ([], s)"
| "read_rows (Suc n) s =
     (case read_row s of (fs, r) \<Rightarrow> (case read_rows n r of (rs, r') \<Rightarrow> (fs # rs, r')))"

text \<open>A post whose caption needs quoting.\<close>

definition csv_example_db :: db where
  "csv_example_db = example_db\<lparr>db_posts := [example_post\<lparr>caption := Some ''Sale, 50% off'',
     reel_length := Some 0\<rparr>]\<rparr>"

subsection \<open>Reading the writer's output back\<close>

lemma read_quoted_Cons:
  assumes "x \<noteq> CHR 0x22" "y \<noteq> []"
  shows "read_quoted (x # y) = (case read_quoted y of (f, r) \<Rightarrow> (x # f, r))"
  using assms by (cases y) simp_all

lemma read_quoted_escaped:
  assumes "c \<noteq> CHR 0x22"
  shows "read_quoted (concat (map (\<lambda>c. if c = CHR 0x22 then [c, c] else [c]) s) @ CHR 0x22 # c # rest) =
         (s, c # rest)"
proof (induction s)
  case Nil
  then show ?case using assms by simp
next
  case (Cons x s)
  then show ?case by (cases "x = CHR 0x22") (simp_all add: read_quoted_Cons)
qed

lemma field_end_special: "field_end c \<Longrightarrow> csv_special c"
  by (auto simp: field_end_def csv_special_def)

lemma read_field_csv_field:
  assumes "field_end c"
  shows "read_field (csv_field s @ c # rest) = (s, c # rest)"
proof (cases "\<exists>x\<in>set s. csv_special x")
  case True
  have "c \<noteq> CHR 0x22" using assms by (auto simp: field_end_def)
  with True show ?thesis by (simp add: csv_field_def csv_quote_def read_field_def read_quoted_escaped)
next
  case False
  then have plain: "\<forall>x\<in>set s. \<not> field_end x \<and> x \<noteq> CHR 0x22"
    by (auto simp: csv_special_def field_end_def)
  have "takeWhile (\<lambda>c. \<not> field_end c) (s @ c # rest) = s"
       "dropWhile (\<lambda>c. \<not> field_end c) (s @ c # rest) = c # rest"
    using plain assms by (simp_all add: takeWhile_append2 dropWhile_append2)
  moreover have "c \<noteq> CHR 0x22" using assms by (auto simp: field_end_def)
  ultimately show ?thesis using False plain
    by (cases s) (auto simp: csv_field_def read_field_def)
qed

lemma read_fields_join:
  assumes "fs \<noteq> []"
  shows "read_fields (csv_join (map csv_field fs) @ CHR 0x0D # rest) = (fs, CHR 0x0D # rest)"
  using assms
proof (induction fs rule: csv_join.induct)
  case (2 f)
  have "read_field (csv_field f @ CHR 0x0D # rest) = (f, CHR 0x0D # rest)"
    by (rule read_field_csv_field) (simp add: field_end_def)
  then show ?case by (simp add: read_fields.simps [of "csv_field f @ CHR 0x0D # rest"])
next
  case (3 f g fs)
  let ?t = "csv_join (map csv_field (g # fs)) @ CHR 0x0D # rest"
  have "read_field (csv_field f @ CHR '','' # ?t) = (f, CHR '','' # ?t)"
    by (rule read_field_csv_field) (simp add: field_end_def)
  moreover have "read_fields ?t = (g # fs, CHR 0x0D # rest)" using "3.IH" by simp
  ultimately show ?case by (simp add: read_fields.simps [of "csv_field f @ CHR '','' # ?t"])
qed simp

lemma read_row_csv_row:
  assumes "fs \<noteq> []"
  shows "read_row (csv_row fs @ rest) = (fs, rest)"
proof (cases "fs = [[]]")
  case True
  have "read_fields (CHR 0x22 # CHR 0x22 # CHR 0x0D # CHR 0x0A # rest) = ([[]], CHR 0x0D # CHR 0x0A # rest)"
    by (simp add: read_fields.simps [of "CHR 0x22 # CHR 0x22 # CHR 0x0D # CHR 0x0A # rest"] read_field_def)
  with True show ?thesis by (simp add: csv_row_def read_row_def)
next
  case False
  then show ?thesis using read_fields_join [OF assms, of "CHR 0x0A # rest"]
    by (simp add: csv_row_def read_row_def)
qed


lemma read_rows_csv_rows:
  assumes "list_all (\<lambda>r. r \<noteq> []) R"
  shows "read_rows (length R) (concat (map csv_row R) @ rest) = (R, rest)"
  using assms by (induction R) (simp_all add: read_row_csv_row)

lemma export_cells_length [simp]: "length (export_cells p) = 20"
  by (simp add: export_cells_def)

lemma export_rows_nonempty: "list_all (\<lambda>r. r \<noteq> []) (export_rows sr d uid)"
  by (simp add: export_rows_def list_all_iff export_cells_def)

lemma nat_str_not_Nil: "nat_str n \<noteq> []"
  by (subst nat_str.simps) simp

lemma int_str_not_Nil: "int_str i \<noteq> []"
  by (simp add: int_str_def nat_str_not_Nil)

subsection \<open>Properties\<close>

text \<open>
  C18. Whenever the export succeeds, a CSV reader recovers from the body
  exactly the header and, for each of the user's posts, newest first, its
  twenty cells as text, with nothing left over: quoting makes captions with
  commas, quotes or line breaks safe.
\<close>

theorem export_readback:
  assumes "export_csv sr today d uid uname = Inr (fn, body)"
  shows "read_rows (Suc (length (export_rows sr d uid))) body = (csv_header # export_rows sr d uid, [])"
proof -
  have b: "body = concat (map csv_row (csv_header # export_rows sr d uid))"
    using assms by (simp add: export_csv_def split: if_splits)
  have "list_all (\<lambda>r. r \<noteq> []) (csv_header # export_rows sr d uid)"
    using export_rows_nonempty [of sr d uid] by (simp add: csv_header_def)
  from read_rows_csv_rows [OF this, of "[]"] b show ?thesis by simp
qed

theorem export_readback_witness:
  "\<exists>fn body. export_csv (\<lambda>_. ''0.0'') (2024, 5, 1) csv_example_db 1 ''alice'' = Inr (fn, body) \<and>
     read_rows 2 body =
       ([csv_header, [''Image'', ''2024-01-01'', ''12:00'', ''Sale, 50% off'', [],
         ''0'', ''0'', ''0'', ''0'', ''0'', ''0'', [], [], [],
         ''0.0'', ''0.0'', ''0.0'', ''0.0'', ''0.0'', []]], [])"
proof -
  let ?q = "example_post\<lparr>caption := Some ''Sale, 50% off'', reel_length := Some 0\<rparr>"
  have u: "user_project_ids csv_example_db (Suc 0) = [Suc 0]"
    by (simp add: user_project_ids_def user_projects_def csv_example_db_def example_db_def)
  have s: "scoped [Suc 0] (db_posts csv_example_db) = [?q]"
    by (simp add: scoped_def csv_example_db_def example_db_def example_post_def blank_post_def)
  have t: "date_text (2024, 1, 1) = ''2024-01-01''"
    by (simp add: date_text_def zero_pad_def int_str_def nat_str.simps digit_chr_def)
  have z: "int_str 0 = ''0''"
    by (simp add: int_str_def nat_str.simps digit_chr_def)
  have c: "map (cell_text (\<lambda>_. ''0.0'')) (export_cells ?q) =
    [''Image'', ''2024-01-01'', ''12:00'', ''Sale, 50% off'', [],
      ''0'', ''0'', ''0'', ''0'', ''0'', ''0'', [], [], [],
      ''0.0'', ''0.0'', ''0.0'', ''0.0'', ''0.0'', []]"
    by (simp add: export_cells_def example_post_def blank_post_def t z cell_text_def opt_cell_def
        or_blank_int_def or_blank_real_def truncate_caption_def)
  have r: "export_rows (\<lambda>_. ''0.0'') csv_example_db 1 = [map (cell_text (\<lambda>_. ''0.0'')) (export_cells ?q)]"
    by (simp add: export_rows_def u s sort_desc_def)
  have e: "export_csv (\<lambda>_. ''0.0'') (2024, 5, 1) csv_example_db 1 ''alice'' =
    Inr (export_filename ''alice'' (2024, 5, 1),
         concat (map csv_row (csv_header # export_rows (\<lambda>_. ''0.0'') csv_example_db 1)))"
    by (simp add: export_csv_def u)
  have k: "Suc (length (export_rows (\<lambda>_. ''0.0'') csv_example_db 1)) = 2"
    unfolding r by simp
  from export_readback [OF e] have "read_rows 2
      (concat (map csv_row (csv_header # export_rows (\<lambda>_. ''0.0'') csv_example_db 1))) =
    (csv_header # export_rows (\<lambda>_. ''0.0'') csv_example_db 1, [])"
    by (simp only: k)
  with e show ?thesis unfolding r c by blast
qed

text \<open>
  C21. The \<open>or ''\<close> of the reel-length column writes a reel of length
  zero exactly as a missing reel length, the empty field.
\<close>

theorem export_blank_zero:
  "cell_text sr (export_cells p ! 11) = [] \<longleftrightarrow> reel_length p = None \<or> reel_length p = Some 0"
  by (cases "reel_length p") (simp_all add: export_cells_def or_blank_int_def cell_text_def int_str_not_Nil)

end
