(* ===== verification/Auth.thy ===== *)
theory Auth
  imports Store
begin

text \<open>
  The session layer of \<open>src/app.py\<close>: \<open>login\<close>, \<open>logout\<close>, \<open>index\<close>, the
  guard \<open>if 'user_id' not in session: return redirect(url_for('login'))\<close>
  that opens every other route, and the seeding of the two default users in
  the \<open>__main__\<close> block.  The session holds \<open>user_id\<close> and \<open>username\<close>,
  which \<open>login\<close> sets together and \<open>logout\<close> clears together, so it is an
  option of the pair.  Werkzeug's \<open>check_password_hash\<close> and
  \<open>generate_password_hash\<close> are library calls and are parameters \<open>chk\<close>
  and \<open>gen\<close>.  A route the guard lets through runs the \<open>Store\<close> handler with
  the session's user: \<open>serve\<close> composes the two layers, \<open>serve_run\<close> runs a
  sequence of browser requests.
\<close>

type_synonym session = "(nat \<times> string) option"

text \<open>\<open>SELECT * FROM users WHERE username = ?\<close> with \<open>fetchone()\<close>.\<close>

definition find_user :: "db \<Rightarrow> string \<Rightarrow> user_row option" where
  "find_user d name = find (\<lambda>u. username u = name) (db_users d)"

text \<open>
  The POST branch of \<open>login\<close>.  A failed attempt flashes and leaves the
  session as it was.
\<close>

definition login ::
  "(string \<Rightarrow> string \<Rightarrow> bool) \<Rightarrow> db \<Rightarrow> session \<Rightarrow> string \<Rightarrow> string \<Rightarrow> outcome \<times> session" where
  "login chk d s name pw =
     (case find_user d name of
        Some u \<Rightarrow> if chk (password_hash u) pw then (Done, Some (user_id u, username u))
                 else (Flash ''Invalid username or password'', s)
      | None \<Rightarrow> (Flash ''Invalid username or password'', s))"

definition logout :: "session \<Rightarrow> session" where
  "logout s = None"

text \<open>\<open>index\<close>: the route it redirects to.\<close>

definition index :: "session \<Rightarrow> string" where
  "index s = (case s of None \<Rightarrow> ''login'' | Some _ \<Rightarrow> ''dashboard'')"

text \<open>
  The default users: when \<open>users\<close> is empty, \<open>user1\<close> and \<open>user2\<close> are
  inserted with the hashes of \<open>password123\<close> and \<open>password456\<close>.  The
  \<open>users\<close> table is never deleted from, so an empty table has issued no
  \<open>AUTOINCREMENT\<close> key yet and the new rows get the keys 1 and 2.
\<close>

definition seed_users :: "(string \<Rightarrow> string) \<Rightarrow> db \<Rightarrow> db" where
  "seed_users gen d =
     (if length (db_users d) = 0 then
        d\<lparr>db_users := db_users d @
            [\<lparr>user_id = 1, username = ''user1'', password_hash = gen ''password123''\<rparr>,
             \<lparr>user_id = 2, username = ''user2'', password_hash = gen ''password456''\<rparr>]\<rparr>
      else d)"

subsection \<open>Routes behind the guard\<close>

text \<open>
  A state-changing route with the session fields it reads left out: the
  handler fills \<open>session['user_id']\<close> (and, for \<open>add_post\<close>,
  \<open>session['username']\<close>) into the \<open>Store\<close> request.
\<close>

datatype action =
    A_add_project string string
  | A_add_post post_form
  | A_delete_post nat
  | A_delete_multiple "nat list"
  | A_delete_project nat
  | A_add_comment nat string string

fun as_request :: "nat \<Rightarrow> string \<Rightarrow> action \<Rightarrow> request" where
  "as_request uid un (A_add_project n ds) = Add_project uid n ds"
| "as_request uid un (A_add_post f) = Add_post uid un f"
| "as_request uid un (A_delete_post i) = Delete_post uid i"
| "as_request uid un (A_delete_multiple ids) = Delete_multiple uid ids"
| "as_request uid un (A_delete_project i) = Delete_project uid i"
| "as_request uid un (A_add_comment i t st) = Add_comment uid i t st"

datatype web_request = Login string string | Logout | Index | Act action

datatype response = Redirect string | Served outcome

text \<open>
  The guard's answer without a session: the three delete routes return
  \<open>jsonify(...), 401\<close>, the others redirect to the login page.
\<close>

fun guard_response :: "action \<Rightarrow> response" where
  "guard_response (A_delete_post _) = Served (Http_error 401 ''Not logged in'')"
| "guard_response (A_delete_multiple _) = Served (Http_error 401 ''Not logged in'')"
| "guard_response (A_delete_project _) = Served (Http_error 401 ''Not logged in'')"
| "guard_response _ = Redirect ''login''"

text \<open>One browser request against the database and the session cookie.\<close>

fun serve ::
  "(string \<Rightarrow> string \<Rightarrow> bool) \<Rightarrow> db \<times> session \<Rightarrow> web_request \<Rightarrow> response \<times> db \<times> session" where
  "serve chk (d, s) (Login name pw) =
     (case login chk d s name pw of
        (Done, s') \<Rightarrow> (Redirect ''dashboard'', d, s')
      | (out, s') \<Rightarrow> (Served out, d, s'))"
| "serve chk (d, s) Logout = (Redirect ''login'', d, logout s)"
| "serve chk (d, s) Index = (Redirect (index s), d, s)"
| "serve chk (d, None) (Act a) = (guard_response a, d, None)"
| "serve chk (d, Some (uid, un)) (Act a) =
     (case handle d (as_request uid un a) of (out, d') \<Rightarrow> (Served out, d', Some (uid, un)))"

fun serve_run :: "(string \<Rightarrow> string \<Rightarrow> bool) \<Rightarrow> db \<times> session \<Rightarrow> web_request list \<Rightarrow> db \<times> session" where
  "serve_run chk st [] = st"
| "serve_run chk st (w # ws) = serve_run chk (snd (serve chk st w)) ws"

text \<open>The session names a user of the table, under that user's name.\<close>

definition session_inv :: "db \<times> session \<Rightarrow> bool" where
  "session_inv st =
     (case st of (d, None) \<Rightarrow> True
      | (d, Some (uid, un)) \<Rightarrow> list_ex (\<lambda>u. user_id u = uid \<and> username u = un) (db_users d))"

subsection \<open>Shared facts\<close>

lemma handle_users [simp]: "db_users (snd (handle d r)) = db_users d"
proof (cases r)
  case (Add_project uid n ds)
  then show ?thesis
    by (auto simp: add_project_def insert_project_def Let_def)
next
  case (Add_post uid un f)
  then show ?thesis by (simp add: add_post_state insert_project_def Let_def)
next
  case (Delete_multiple uid ids)
  then show ?thesis by (simp add: delete_multiple_posts_def foldl_purge_post Let_def)
next
  case (Delete_project uid i)
  then show ?thesis by (simp add: delete_project_def foldl_purge_refs Let_def)
qed (simp_all add: delete_post_def purge_post_def add_comment_def Let_def)

lemma find_user_Some: "find_user d name = Some u \<Longrightarrow> u \<in> set (db_users d) \<and> username u = name"
  by (auto simp: find_user_def find_Some_iff in_set_conv_nth)

lemma login_session:
  assumes "login chk d s name pw = (out, s')"
  shows "s' = s \<or> (\<exists>u. find_user d name = Some u \<and> chk (password_hash u) pw \<and> s' = Some (user_id u, username u))"
  using assms by (auto simp: login_def split: option.splits if_splits)

lemma serve_inv: "session_inv st \<Longrightarrow> session_inv (snd (serve chk st w))"
proof (induction chk st w rule: serve.induct)
  case (1 chk d s name pw)
  then show ?case
    using login_session [of chk d s name pw] find_user_Some
    by (fastforce simp: session_inv_def list_ex_iff split: prod.splits outcome.splits option.splits)
next
  case (5 chk d uid un a)
  then show ?case by (simp add: session_inv_def case_prod_unfold)
qed (simp_all add: session_inv_def logout_def)

lemma as_request_user [simp]: "request_user (as_request uid un a) = uid"
  by (cases a) simp_all

lemma serve_db:
  "fst (snd (serve chk (d, s) w)) = d \<or>
   (\<exists>uid un a. s = Some (uid, un) \<and> w = Act a \<and> fst (snd (serve chk (d, s) w)) = snd (handle d (as_request uid un a)))"
  by (cases "(chk, (d, s), w)" rule: serve.cases) (auto split: prod.splits outcome.splits)

lemma serve_session_user:
  assumes "session_inv (d, Some (uid, un))"
  shows "list_ex (\<lambda>u. user_id u = uid) (db_users d)"
  using assms by (auto simp: session_inv_def list_ex_iff)

subsection \<open>Properties\<close>

text \<open>
  C16. A login succeeds exactly when the name is in the \<open>users\<close> table and
  the password checks against that row's hash; the session then holds that
  row's key and name.
\<close>

theorem login_correct:
  "login chk d s name pw = (Done, s') \<longleftrightarrow>
     (\<exists>u. find_user d name = Some u \<and> chk (password_hash u) pw \<and> s' = Some (user_id u, username u))"
  by (auto simp: login_def split: option.splits)

text \<open>
  C17. A failed login leaves the session as it was: a user
  who is logged in and submits a wrong password for another name stays
  logged in as before; \<open>login\<close> never clears the session.
\<close>

theorem login_failure_keeps_session:
  assumes "fst (login chk d s name pw) \<noteq> Done"
  shows "snd (login chk d s name pw) = s"
  using assms by (auto simp: login_def split: option.splits)

theorem login_failure_keeps_session_witness:
  "fst (login (\<lambda>h p. h = p) example_db (Some (1, ''alice'')) ''bob'' ''guess'') \<noteq> Done \<and>
   snd (login (\<lambda>h p. h = p) example_db (Some (1, ''alice'')) ''bob'' ''guess'') = Some (1, ''alice'')"
proof -
  have f: "fst (login (\<lambda>h p. h = p) example_db (Some (1, ''alice'')) ''bob'' ''guess'') \<noteq> Done"
    by (simp add: login_def find_user_def example_db_def empty_db_def)
  show ?thesis using login_failure_keeps_session [OF f] f by simp
qed

text \<open>
  C22. After seeding an empty \<open>users\<close> table, \<open>user1\<close> logs in with
  \<open>password123\<close>, given that the hash library accepts the password it hashed.
\<close>

theorem seed_login:
  assumes "\<forall>p. chk (gen p) p" "db_users d = []"
  shows "login chk (seed_users gen d) s ''user1'' ''password123'' = (Done, Some (1, ''user1''))"
  using assms by (simp add: login_def find_user_def seed_users_def)

theorem seed_login_witness:
  "(\<forall>p. (\<lambda>h q. h = q) (id p) p) \<and> db_users empty_db = [] \<and>
   login (\<lambda>h q. h = q) (seed_users id empty_db) None ''user1'' ''password123'' = (Done, Some (1, ''user1''))"
proof -
  have a: "\<forall>p. (\<lambda>h q. h = q) (id p) p" by simp
  have b: "db_users empty_db = []" by (simp add: empty_db_def)
  show ?thesis using seed_login [of "\<lambda>h q. h = q" id empty_db None] a b by simp
qed

text \<open>
  C14. The web layer refines the request model of \<open>Store\<close>: whatever
  sequence of logins, logouts and requests a browser sends, the database
  afterwards is \<open>run d rs\<close> for a sequence \<open>rs\<close> of \<open>Store\<close> requests each
  made by a user of the \<open>users\<close> table.  So the theorems about \<open>run\<close> (the
  invariant, other users' posts) hold for the whole application.
\<close>

theorem serve_run_refines:
  assumes "session_inv (d, s)"
  shows "\<exists>rs. fst (serve_run chk (d, s) ws) = run d rs \<and>
               list_all (\<lambda>r. list_ex (\<lambda>u. user_id u = request_user r) (db_users d)) rs"
  using assms
proof (induction ws arbitrary: d s)
  case Nil
  show ?case by (rule exI [of _ "[]"]) simp
next
  case (Cons w ws)
  obtain d' s' where st: "snd (serve chk (d, s) w) = (d', s')" by (cases "snd (serve chk (d, s) w)")
  have i: "session_inv (d', s')" using serve_inv [OF Cons.prems, of chk w] st by simp
  obtain rs where rs: "fst (serve_run chk (d', s') ws) = run d' rs"
    "list_all (\<lambda>r. list_ex (\<lambda>u. user_id u = request_user r) (db_users d')) rs"
    using Cons.IH [OF i] by blast
  from serve_db [of chk d s w] show ?case
  proof
    assume "fst (snd (serve chk (d, s) w)) = d"
    then show ?thesis using rs st by (intro exI [of _ rs]) simp
  next
    assume "\<exists>uid un a. s = Some (uid, un) \<and> w = Act a \<and>
              fst (snd (serve chk (d, s) w)) = snd (handle d (as_request uid un a))"
    then obtain uid un a where a: "s = Some (uid, un)" "d' = snd (handle d (as_request uid un a))"
      using st by auto
    have "list_ex (\<lambda>u. user_id u = uid) (db_users d)"
      using serve_session_user Cons.prems a(1) by blast
    then show ?thesis using rs st a
      by (intro exI [of _ "as_request uid un a # rs"]) simp
  qed
qed

theorem serve_run_refines_witness:
  "session_inv (example_db, None) \<and>
   (\<exists>rs. fst (serve_run (\<lambda>h p. h = p) (example_db, None) [Act (A_delete_post 1), Login ''alice'' ''h1'',
            Act (A_delete_post 1)]) = run example_db rs \<and>
          list_all (\<lambda>r. list_ex (\<lambda>u. user_id u = request_user r) (db_users example_db)) rs)"
proof -
  have i: "session_inv (example_db, None)" by (simp add: session_inv_def)
  show ?thesis using serve_run_refines [OF i] i by blast
qed

end
