(* ===== verification/Spec2Isabelle.thy ===== *)
theory Spec2Isabelle
  imports Store Abstract Prediction Trends Alerts Recommendations Views Reports Csv Auth
begin

text \<open>
  \<^bold>\<open>A verification library of Instagram-Analytics (\<open>src/app.py\<close>).\<close>

  The program is a Flask application over one SQLite database.  Its analytics
  core is six functions that read the \<open>posts\<close> table of the projects in scope:
  \<open>calculate_metrics\<close> (run when a post is added), \<open>extract_hashtags\<close> and
  \<open>save_hashtags\<close>, \<open>predict_post_performance\<close>, \<open>analyze_growth_trends\<close>,
  \<open>generate_smart_recommendations\<close> and \<open>check_performance_alerts\<close>.  Around it,
  the route handlers log users in and out, create projects, add posts, delete
  posts and projects, add and list comments, render the read-only pages and
  export the posts as CSV.  Every route but \<open>login\<close> starts with the guard
  \<open>if 'user_id' not in session\<close>, and every handler acts as
  \<open>session['user_id']\<close>.

  \<^bold>\<open>Theories and what they model.\<close>
  \<^item> \<open>Prelude\<close>: Python and SQL semantics the components share.
    \<^descr> Python: the exceptions (\<open>py_error\<close>), \<open>round(x, n)\<close> with ties to
      even (\<open>py_round\<close>), \<open>x or d\<close> on a nullable number (\<open>py_or\<close>), and ASCII
      character classes.
    \<^descr> SQL: \<open>AVG\<close> (\<open>sql_avg\<close>, \<open>NULL\<close> on no row), \<open>GROUP BY\<close> (\<open>group_by\<close>,
      groups in key order), a stable \<open>ORDER BY ... DESC\<close> (\<open>sort_desc\<close>), and
      the \<open>COUNT\<close>-per-group lemmas.
  \<^item> \<open>Metrics\<close>: \<open>calculate_metrics\<close>, returning \<open>Inl TypeError\<close> where
    Python compares or divides \<open>None\<close>.
  \<^item> \<open>Hashtags\<close>: \<open>extract_hashtags\<close>, with \<open>re.findall(r'#\w+', ...)\<close> as the
    scanner \<open>findall_tags\<close>.
  \<^item> \<open>Dates\<close>: the SQLite date functions the queries call: \<open>date('now', m)\<close>
    as \<open>sqlite_date_now\<close> with the modifier parser \<open>parse_modifier\<close>, and
    \<open>strftime\<close> keys.  SQLite is a library; these follow its documented
    behaviour.
  \<^item> \<open>Posts\<close>: the \<open>posts\<close> row as a record (\<open>post\<close>), the project scope
    \<open>scoped\<close>, the hour \<open>hour_of\<close> and the caption truncation
    \<open>truncate_caption\<close> shared by the reports page and the export.
  \<^item> \<open>Prediction\<close>, \<open>Trends\<close>, \<open>Recommendations\<close>, \<open>Alerts\<close>: the four
    analytics functions.  Each SQL query is a function of the posts in scope,
    and each returned dictionary is a record or datatype that keeps the data
    and omits the formatted text.
  \<^item> \<open>Store\<close>: the database as a record (\<open>db\<close>).
    \<^descr> State: one list per table in insertion order, plus one \<open>AUTOINCREMENT\<close>
      counter per table.
    \<^descr> Handlers: \<open>add_project\<close>, \<open>add_post\<close> with \<open>resolve_project\<close> and
      \<open>save_hashtags\<close>, \<open>delete_post\<close>, \<open>delete_multiple_posts\<close>,
      \<open>delete_project\<close>, \<open>add_comment\<close> (the POST of \<open>post_comments\<close>) and
      \<open>api_post_comments\<close>.  Each takes the database and the acting user
      and returns an \<open>outcome\<close> with the committed database.
    \<^descr> Interleaving: a request is a value of \<open>request\<close>; \<open>handle\<close> dispatches
      one request and \<open>run\<close> executes a sequence of them.
  \<^item> \<open>Abstract\<close>: the specification the handlers implement.  The tables are
    maps from keys to rows (\<open>abs_db\<close>, by \<open>key_map\<close>), and \<open>a_step\<close> says
    what each request does to them: which rows it adds or removes, under
    which ownership condition.
  \<^item> \<open>Auth\<close>: \<open>login\<close>, \<open>logout\<close>, \<open>index\<close>, the default users of
    \<open>__main__\<close> (\<open>seed_users\<close>), and the web layer \<open>serve\<close>, which puts the
    login guard (\<open>guard_response\<close>) in front of the \<open>Store\<close> handlers and
    fills in the session's user (\<open>as_request\<close>); \<open>serve_run\<close> runs a
    sequence of browser requests.
  \<^item> \<open>Views\<close>: the read-only routes over the session user's projects
    (\<open>user_project_ids\<close>): \<open>dashboard\<close>, the \<open>ORDER BY\<close> construction of
    \<open>posts\<close> (\<open>posts_query\<close>), \<open>api_engagement_data\<close>, \<open>api_reach_data\<close>,
    \<open>projects\<close> (\<open>projects_list\<close>), \<open>project_posts\<close>,
    \<open>api_predict_performance\<close> and \<open>generate_project_report\<close>.
  \<^item> \<open>Reports\<close>: the ten aggregate queries of \<open>reports\<close> and its calls of
    the analytics functions.
  \<^item> \<open>Csv\<close>: \<open>export_csv\<close> and the \<open>csv.writer\<close> it calls (default
    dialect, from the library documentation), with a reference reader
    (\<open>read_row\<close>, \<open>read_rows\<close>) that states what the written text means.

  \<^bold>\<open>What is proved\<close> (claims C1-C39, in the component theories).
  \<^item> Store: \<open>add_post\<close> never stores a post, because \<open>db.lastrowid\<close> raises
    before the commit (C1), and all it ever commits is the default project
    (C9); the key and reference invariant \<open>db_inv\<close> holds after every
    request sequence (C3); no request deletes another user's post (C4); the
    bulk delete is all or nothing (C5); the comments page admits exactly the
    project owner (C6) while the JSON comment endpoint answers every
    logged-in user alike (C7); project names stay unique per user (C8).
  \<^item> Refinement and liveness: every request sequence refines the abstract
    map specification (C13); the web layer refines \<open>run\<close> with every
    request made by a user of the \<open>users\<close> table, so C3, C4 and C8 hold for
    the whole application (C14); a user can always erase all their data with
    their own requests (C15).
  \<^item> Auth: login succeeds exactly on a matching password (C16); a failed
    login keeps the previous session (C17); the seeded \<open>user1\<close> can log in
    (C22).
  \<^item> Csv: reading the export back yields the header and every post's
    twenty cells, newest first (C18); a zero reel length is exported as a
    blank (C21).
  \<^item> Views: the report never renders (C10); the prediction API is isolated
    to the user's data (C11); the sort parameters cannot inject SQL (C12);
    the projects page counts add up (C20); the reach chart and the project
    page (C37, C38).
  \<^item> Reports: the disagreeing chart orders (C23) and the exact bucket counts
    of the score distribution (C39).
  \<^item> Hashtags: the scanner equals the position-wise specification of
    \<open>re.findall(r'#\w+', ...)\<close> (C19); soundness and the print/parse round
    trip (C24, C25).
  \<^item> Metrics: the \<open>TypeError\<close> cases (C2), monotonicity (C26), and the
    zero-reach guard that prevents \<open>ZeroDivisionError\<close> (C27).
  \<^item> Prediction: cold start, the \<open>or 20\<close> fallback on a zero average and the
    bounds (C28-C30).
  \<^item> Trends: insufficient data and the unguarded division, which also makes
    the reports page fail (C31, C32).
  \<^item> Alerts: no baseline, the unreachable high-priority alert, the caption
    preview (C33-C35).
  \<^item> Recommendations: the frequency heuristic can never fire because
    \<open>'-8 weeks'\<close> is no SQLite modifier (C36).

  \<^bold>\<open>Modelling choices.\<close>
  \<^item> Python floats are exact reals, so the theorems ignore binary rounding
    error; \<open>str(float)\<close> in the export is a parameter \<open>show_real\<close>.
    Division where the code guards or may hit a zero divisor is Python's
    (\<open>py_div\<close>, \<open>pct_change\<close>), with \<open>ZeroDivisionError\<close> as a value.
  \<^item> Characters are bytes; \<open>\w\<close>, \<open>lower()\<close> and \<open>strip()\<close> are their ASCII
    versions.
  \<^item> Rows the SQL leaves in an unspecified order keep their insertion order:
    the ties of \<open>ORDER BY\<close> and the result of \<open>list(set(...))\<close>.  The theorems
    that depend on an order are stated for sets or for distinct keys.
  \<^item> Every \<open>date('now', ...)\<close> of one call reads the same instant.
  \<^item> Werkzeug's \<open>check_password_hash\<close> and \<open>generate_password_hash\<close> are
    parameters; C23 assumes only that the first accepts what the second
    produced.
  \<^item> Every definition is executable and needs no fuel.  The recursions that
    are not structural, the scanner \<open>findall_tags\<close> and the reader
    \<open>read_fields\<close>, terminate on the string length.

  \<^bold>\<open>Not modelled.\<close>
  \<^item> The thumbnail upload of \<open>add_post\<close> (\<open>secure_filename\<close>, \<open>os.makedirs\<close>,
    \<open>file.save\<close>): file-system I/O whose result is lost anyway, since
    \<open>add_post\<close> crashes at \<open>db.lastrowid\<close> (C1).
  \<^item> Templates and flashing, except the message a handler flashes.
  \<^item> Form parsing by \<open>int()\<close>/\<open>float()\<close>: the handlers receive the
    converted values.
\<close>

end
